theory Spec2Isabelle
  imports Complex_Main
begin

section \<open>Centralized fine-tuning driver for the Vision Transformer\<close>

text \<open>
  The development embeds \<^verbatim>\<open>main_vit_fine_tune.py\<close> and \<^verbatim>\<open>test.py\<close> of
  \<^verbatim>\<open>fedml_experiments/centralized/fed_transformer\<close>. Both scripts are orchestration code
  around PyTorch, torchvision and wandb, so the model is a state-passing one: a process state
  (the \<^verbatim>\<open>args\<close> object, \<^verbatim>\<open>os.environ\<close>, the root logger, the global \<^verbatim>\<open>model\<close>) together
  with the trace of the calls the script makes into its libraries. The libraries themselves are
  a parameter (\<open>extern\<close>). Python floats are modelled by \<open>real\<close>; rounding is not modelled.

  A call is recorded in the trace when it is made, whether it returns or raises. Of the
  exceptions the libraries raise, the model has those that the arguments of the script decide
  before the epoch loop: \<^verbatim>\<open>torch.device\<close> on a negative index (line 303),
  \<^verbatim>\<open>DistributedSampler\<close> without a process group (line 213) and \<^verbatim>\<open>DataLoader\<close> with a
  batch size that is not positive (line 215). Every other library call is taken to return.
\<close>

subsection \<open>Command-line configuration\<close>

text \<open>The namespace \<^verbatim>\<open>parser.parse_args()\<close> returns (lines 230-273), one field per flag.\<close>

record args =
  local_rank :: int
  global_rank :: int
  model :: string
  dataset :: string
  data_dir :: string
  batch_size :: int
  client_optimizer :: string
  decay_type :: string
  lr :: real
  wd :: real
  warmup_steps :: int
  epochs :: int
  img_size :: int
  pretrained_dir :: string
  is_distributed :: int

text \<open>The defaults of the \<^verbatim>\<open>add_argument\<close> calls.\<close>

definition default_args :: args where
  "default_args =
     \<lparr> local_rank = 0, global_rank = 0, model = ''transformer'', dataset = ''cifar10'',
       data_dir = ''./../../../data/cifar10'', batch_size = 2, client_optimizer = ''sgd'',
       decay_type = ''cosine'', lr = 3 / 100, wd = 0, warmup_steps = 2, epochs = 20,
       img_size = 224,
       pretrained_dir = ''./../../../fedml_api/model/cv/pretrained/Transformer/vit/ViT-B_16.npz'',
       is_distributed = 0 \<rparr>"

subsection \<open>Library objects and the trace of library calls\<close>

datatype dataset_cls = CIFAR10 | CIFAR100


datatype sampler = RandomSampler | DistributedSampler | SequentialSampler

text \<open>
  A \<^verbatim>\<open>DataLoader\<close> as constructed at lines 215-224: the dataset it wraps (class, root,
  train flag, the image size of its transform), its sampler and its batch size.
\<close>

record loader =
  ld_dataset :: dataset_cls
  ld_root :: string
  ld_train :: bool
  ld_img_size :: int
  ld_sampler :: sampler
  ld_batch_size :: int

datatype optimizer_cfg = SGD real real | Adam real real

datatype scheduler_cfg = WarmupCosineSchedule int int | WarmupLinearSchedule int int

text \<open>What is handed to \<^verbatim>\<open>print\<close> and \<^verbatim>\<open>logging.info\<close>; numbers are kept as numbers.\<close>

datatype message =
    MsgArgs args
  | MsgRank int
  | MsgWorldSize int
  | MsgLocalRank int
  | MsgProcess
  | MsgCreateModel string int
  | MsgVitConfig
  | MsgModelSize real
  | MsgStats string real string real
  | MsgModelRepr

datatype call = CTrain nat | CEval nat

datatype event =
    ParseArgs
  | Stdout message
  | LogRecord message
  | Seeds
  | EnvSet string string
  | InitProcessGroup string int int
  | DestroyProcessGroup
  | Barrier
  | WandbInit string int real args
  | WandbLog string real nat
  | DatasetNew dataset_cls string bool
  | SamplerNew sampler
  | DataLoaderNew loader
  | VisionTransformerNew int int
  | LoadFrom string
  | CountParameters
  | ToDevice int
  | DDPNew int
  | OptimizerNew optimizer_cfg
  | SchedulerNew scheduler_cfg
  | ModelTrain
  | ModelEval
  | TrainStep nat
  | Forward nat
  | Enter call
  | Leave call

text \<open>
  The libraries and the outside world, as far as the scripts observe them. \<open>'w\<close> is a model
  object, \<open>'o\<close> an optimizer with its schedule, \<open>'x\<close> an input image, \<open>'lp\<close> the output of the
  model on one image.
  \<^item> \<open>py_int\<close> is the builtin \<^verbatim>\<open>int\<close> on a string (\<open>None\<close>: ValueError);
  \<^item> \<open>batches ld k\<close> is the list of batches the loader \<open>ld\<close> yields when it is iterated for
    the \<open>k\<close>-th time in the process (samplers and transforms are random);
  \<^item> \<open>forward\<close> is the model in evaluation mode, \<open>argmax\<close> the index \<^verbatim>\<open>torch.max(_, -1)\<close>
    returns, \<open>sample_loss\<close> the cross entropy of one sample;
  \<^item> \<open>step\<close> is one training iteration (lines 121-128): zero_grad, forward, loss, backward,
    gradient clipping, optimizer step, scheduler step.
\<close>

record ('w, 'o, 'x, 'lp) extern =
  py_int :: "string \<Rightarrow> int option"
  batches :: "loader \<Rightarrow> nat \<Rightarrow> ('x \<times> nat) list list"
  VisionTransformer :: "int \<Rightarrow> int \<Rightarrow> 'w"
  load_from :: "'w \<Rightarrow> string \<Rightarrow> 'w"
  count_parameters :: "'w \<Rightarrow> real"
  to_device :: "'w \<Rightarrow> int \<Rightarrow> 'w"
  DDP :: "'w \<Rightarrow> int \<Rightarrow> 'w"
  make_optimizer :: "optimizer_cfg \<Rightarrow> scheduler_cfg \<Rightarrow> 'w \<Rightarrow> 'o"
  forward :: "'w \<Rightarrow> 'x \<Rightarrow> 'lp"
  argmax :: "'lp \<Rightarrow> nat"
  sample_loss :: "'lp \<Rightarrow> nat \<Rightarrow> real"
  step :: "'w \<Rightarrow> 'o \<Rightarrow> ('x \<times> nat) list \<Rightarrow> 'w \<times> 'o"

subsection \<open>Process state, exceptions, sequencing\<close>

text \<open>
  \<open>root_level\<close> and \<open>root_handlers\<close> are the level of the root logger and whether it has a
  handler; \<open>g_model\<close> is the module-level variable \<^verbatim>\<open>model\<close> (\<open>None\<close>: not bound yet);
  \<open>process_group\<close> tells whether \<^verbatim>\<open>torch.distributed\<close> has a default process group;
  \<open>tick\<close> counts the loader iterations started so far.
\<close>

record ('w) state =
  args :: args
  environ :: "string \<Rightarrow> string option"
  root_level :: nat
  root_handlers :: bool
  g_model :: "'w option"
  process_group :: bool
  tick :: nat
  trace :: "event list"

datatype error =
  KeyError string | ValueError | AttributeError | NameError | ZeroDivisionError | RuntimeError

datatype 'a outcome = Returned 'a | Raised error

type_synonym ('a, 'w) action = "'w state \<Rightarrow> 'a outcome \<times> 'w state"

definition ret :: "'a \<Rightarrow> ('a, 'w) action" where
  "ret a s = (Returned a, s)"

definition raise :: "error \<Rightarrow> ('a, 'w) action" where
  "raise e s = (Raised e, s)"

text \<open>Statement sequencing: an exception of the first statement skips the rest.\<close>

definition then_do :: "('a, 'w) action \<Rightarrow> ('a \<Rightarrow> ('b, 'w) action) \<Rightarrow> ('b, 'w) action" where
  "then_do m f s = (case m s of (Returned a, s') \<Rightarrow> f a s' | (Raised e, s') \<Rightarrow> (Raised e, s'))"

definition emit :: "event \<Rightarrow> (unit, 'w) action" where
  "emit ev s = (Returned (), s\<lparr>trace := trace s @ [ev]\<rparr>)"

definition INFO :: nat where "INFO = 20"
definition WARNING :: nat where "WARNING = 30"

text \<open>
  \<^verbatim>\<open>logging.basicConfig(level=...)\<close> does nothing when the root logger already has a handler.
  \<^verbatim>\<open>logging.info\<close> installs a default handler when there is none (leaving the level as it
  is) and emits the record only if the root level admits INFO.
\<close>

definition logging_basicConfig :: "nat \<Rightarrow> (unit, 'w) action" where
  "logging_basicConfig lvl s =
     (Returned (), if root_handlers s then s else s\<lparr>root_level := lvl, root_handlers := True\<rparr>)"

definition logging_info :: "message \<Rightarrow> (unit, 'w) action" where
  "logging_info msg s =
     (let s1 = s\<lparr>root_handlers := True\<rparr>
      in if root_level s1 \<le> INFO then emit (LogRecord msg) s1 else (Returned (), s1))"

definition setenv :: "string \<Rightarrow> string \<Rightarrow> (unit, 'w) action" where
  "setenv k v s = emit (EnvSet k v) (s\<lparr>environ := (environ s)(k \<mapsto> v)\<rparr>)"

text \<open>\<^verbatim>\<open>int(os.environ[k])\<close>: KeyError for a missing key, ValueError for a malformed number.\<close>

definition getenv_int :: "('w, 'o, 'x, 'lp) extern \<Rightarrow> string \<Rightarrow> (int, 'w) action" where
  "getenv_int ext k s =
     (case environ s k of
        None \<Rightarrow> (Raised (KeyError k), s)
      | Some v \<Rightarrow> (case py_int ext v of
                     None \<Rightarrow> (Raised ValueError, s)
                   | Some n \<Rightarrow> (Returned n, s)))"

text \<open>Reading the global \<^verbatim>\<open>model\<close>.\<close>

definition get_model :: "('w, 'w) action" where
  "get_model s = (case g_model s of None \<Rightarrow> (Raised NameError, s) | Some m \<Rightarrow> (Returned m, s))"

text \<open>Starting an iteration over a loader (\<^verbatim>\<open>enumerate(dl)\<close>).\<close>

definition iterate :: "('w, 'o, 'x, 'lp) extern \<Rightarrow> loader \<Rightarrow> (('x \<times> nat) list list, 'w) action" where
  "iterate ext dl s = (Returned (batches ext dl (tick s)), s\<lparr>tick := Suc (tick s)\<rparr>)"

subsection \<open>\<^verbatim>\<open>init_ddp\<close>, \<^verbatim>\<open>get_ddp_model\<close>, \<^verbatim>\<open>create_model\<close>\<close>

text \<open>
  \<^verbatim>\<open>dist.init_process_group\<close> sets up the default process group and
  \<^verbatim>\<open>dist.destroy_process_group\<close> removes it.
\<close>

definition init_process_group :: "string \<Rightarrow> int \<Rightarrow> int \<Rightarrow> (unit, 'w) action" where
  "init_process_group backend rank world_size s =
     emit (InitProcessGroup backend rank world_size) (s\<lparr>process_group := True\<rparr>)"

definition destroy_process_group :: "(unit, 'w) action" where
  "destroy_process_group s = emit DestroyProcessGroup (s\<lparr>process_group := False\<rparr>)"

definition init_ddp :: "('w, 'o, 'x, 'lp) extern \<Rightarrow> (int \<times> int, 'w) action" where
  "init_ddp ext =
     then_do (setenv ''NCCL_DEBUG'' ''INFO'') (\<lambda>_.
     then_do (setenv ''NCCL_SOCKET_IFNAME'' ''ib0'') (\<lambda>_.
     then_do (getenv_int ext ''RANK'') (\<lambda>rank.
     then_do (emit (Stdout (MsgRank rank))) (\<lambda>_.
     then_do (getenv_int ext ''WORLD_SIZE'') (\<lambda>world_size.
     then_do (emit (Stdout (MsgWorldSize world_size))) (\<lambda>_.
     then_do (init_process_group ''nccl'' rank world_size) (\<lambda>_.
     (\<lambda>s. then_do (emit (Stdout (MsgLocalRank (local_rank (args s))))) (\<lambda>_.
          ret (local_rank (args s), rank)) s))))))))"

definition get_ddp_model :: "('w, 'o, 'x, 'lp) extern \<Rightarrow> 'w \<Rightarrow> int \<Rightarrow> ('w, 'w) action" where
  "get_ddp_model ext m lrank = then_do (emit (DDPNew lrank)) (\<lambda>_. ret (DDP ext m lrank))"

text \<open>\<^verbatim>\<open>create_model\<close> returns \<^verbatim>\<open>None\<close> for every model name but \<^verbatim>\<open>"transformer"\<close>.\<close>

definition create_model ::
  "('w, 'o, 'x, 'lp) extern \<Rightarrow> string \<Rightarrow> int \<Rightarrow> ('w option, 'w) action" where
  "create_model ext name output_dim =
     then_do (logging_info (MsgCreateModel name output_dim)) (\<lambda>_.
     if name = ''transformer'' then
       then_do (logging_info MsgVitConfig) (\<lambda>_.
       (\<lambda>s. let m0 = VisionTransformer ext (img_size (args s)) output_dim in
         then_do (emit (VisionTransformerNew (img_size (args s)) output_dim)) (\<lambda>_.
         let m1 = load_from ext m0 (pretrained_dir (args s)) in
         then_do (emit (LoadFrom (pretrained_dir (args s)))) (\<lambda>_.
         then_do (emit CountParameters) (\<lambda>_.
         then_do (logging_info (MsgModelSize (count_parameters ext m1))) (\<lambda>_.
         ret (Some m1))))) s))
     else ret None)"

subsection \<open>\<^verbatim>\<open>_infer\<close> and \<^verbatim>\<open>eval\<close>\<close>

text \<open>
  \<^verbatim>\<open>nn.CrossEntropyLoss()\<close> with its default reduction: the mean of the per-sample losses
  of the batch.
\<close>

definition CrossEntropyLoss :: "('w, 'o, 'x, 'lp) extern \<Rightarrow> 'lp list \<Rightarrow> nat list \<Rightarrow> real" where
  "CrossEntropyLoss ext log_probs target =
     sum_list (map (\<lambda>(lp, t). sample_loss ext lp t) (zip log_probs target)) / real (length target)"

text \<open>The body of the loop of \<^verbatim>\<open>_infer\<close> (lines 73-81) on one batch.\<close>

definition infer_batch ::
  "('w, 'o, 'x, 'lp) extern \<Rightarrow> 'w \<Rightarrow> real \<times> real \<times> real \<Rightarrow> ('x \<times> nat) list \<Rightarrow> real \<times> real \<times> real" where
  "infer_batch ext m acc b =
     (case acc of (test_acc, test_total, test_loss) \<Rightarrow>
        let x = map fst b;
            target = map snd b;
            log_probs = map (forward ext m) x;
            loss = CrossEntropyLoss ext log_probs target;
            predicted = map (argmax ext) log_probs;
            correct = length (filter (\<lambda>(p, t). p = t) (zip predicted target))
        in (test_acc + real correct,
            test_total + real (length target),
            test_loss + loss * real (length target)))"

fun infer_loop ::
  "('w, 'o, 'x, 'lp) extern \<Rightarrow> ('x \<times> nat) list list \<Rightarrow> nat \<Rightarrow> real \<times> real \<times> real \<Rightarrow>
   (real \<times> real \<times> real, 'w) action" where
  "infer_loop ext [] batch_idx acc s = (Returned acc, s)"
| "infer_loop ext (b # bs) batch_idx acc s =
     (case g_model s of
        None \<Rightarrow> (Raised NameError, s)
      | Some m \<Rightarrow> infer_loop ext bs (Suc batch_idx) (infer_batch ext m acc b)
                   (s\<lparr>trace := trace s @ [Forward batch_idx]\<rparr>))"

definition infer :: "('w, 'o, 'x, 'lp) extern \<Rightarrow> loader \<Rightarrow> (real \<times> real \<times> real, 'w) action" where
  "infer ext test_data =
     then_do get_model (\<lambda>_.
     then_do (emit ModelEval) (\<lambda>_.
     then_do (iterate ext test_data) (\<lambda>bs.
     infer_loop ext bs 0 (0, 0, 0))))"

text \<open>Python's \<^verbatim>\<open>/\<close> on floats raises ZeroDivisionError for a zero divisor.\<close>

definition py_div :: "real \<Rightarrow> real \<Rightarrow> (real, 'w) action" where
  "py_div a b = (if b = 0 then raise ZeroDivisionError else ret (a / b))"

definition eval :: "('w, 'o, 'x, 'lp) extern \<Rightarrow> nat \<Rightarrow> loader \<Rightarrow> loader \<Rightarrow> (unit, 'w) action" where
  "eval ext epoch train_dl test_dl =
     then_do (emit (Enter (CEval epoch))) (\<lambda>_.
     then_do (infer ext train_dl) (\<lambda>(train_tot_correct, train_num_sample, train_loss0).
     then_do (infer ext test_dl) (\<lambda>(test_tot_correct, test_num_sample, test_loss0).
     then_do (py_div train_tot_correct train_num_sample) (\<lambda>train_acc.
     then_do (py_div train_loss0 train_num_sample) (\<lambda>train_loss.
     then_do (py_div test_tot_correct test_num_sample) (\<lambda>test_acc.
     then_do (py_div test_loss0 test_num_sample) (\<lambda>test_loss.
     then_do (\<lambda>s.
        if global_rank (args s) = 0 then
          then_do (emit (WandbLog ''Train/Acc'' train_acc epoch)) (\<lambda>_.
          then_do (emit (WandbLog ''Train/Loss'' train_loss epoch)) (\<lambda>_.
          then_do (logging_info (MsgStats ''training_acc'' train_acc ''training_loss'' train_loss)) (\<lambda>_.
          then_do (emit (WandbLog ''Test/Acc'' test_acc epoch)) (\<lambda>_.
          then_do (emit (WandbLog ''Test/Loss'' test_loss epoch)) (\<lambda>_.
          logging_info (MsgStats ''test_acc'' test_acc ''test_loss'' test_loss)))))) s
        else ret () s) (\<lambda>_.
     emit (Leave (CEval epoch))))))))))"

subsection \<open>\<^verbatim>\<open>train\<close> and \<^verbatim>\<open>train_and_eval\<close>\<close>

fun train_loop ::
  "('w, 'o, 'x, 'lp) extern \<Rightarrow> ('x \<times> nat) list list \<Rightarrow> nat \<Rightarrow> 'o \<Rightarrow> ('o, 'w) action" where
  "train_loop ext [] batch_idx opt s = (Returned opt, s)"
| "train_loop ext (b # bs) batch_idx opt s =
     (case g_model s of
        None \<Rightarrow> (Raised NameError, s)
      | Some m \<Rightarrow> (case step ext m opt b of (m', opt') \<Rightarrow>
          train_loop ext bs (Suc batch_idx) opt'
            (s\<lparr>g_model := Some m', trace := trace s @ [TrainStep batch_idx]\<rparr>)))"

text \<open>
  The optimizer and the scheduler are arguments of \<^verbatim>\<open>train\<close> and are updated in place;
  the model returns them updated.
\<close>

definition train :: "('w, 'o, 'x, 'lp) extern \<Rightarrow> nat \<Rightarrow> loader \<Rightarrow> 'o \<Rightarrow> ('o, 'w) action" where
  "train ext epoch train_dl opt =
     then_do (emit (Enter (CTrain epoch))) (\<lambda>_.
     then_do get_model (\<lambda>_.
     then_do (emit ModelTrain) (\<lambda>_.
     then_do (iterate ext train_dl) (\<lambda>bs.
     then_do (train_loop ext bs 0 opt) (\<lambda>opt'.
     then_do (emit (Leave (CTrain epoch))) (\<lambda>_.
     ret opt'))))))"

text \<open>The \<^verbatim>\<open>for epoch in range(args.epochs)\<close> loop, over the list of its epoch numbers.\<close>

fun epoch_loop ::
  "('w, 'o, 'x, 'lp) extern \<Rightarrow> loader \<Rightarrow> loader \<Rightarrow> nat list \<Rightarrow> 'o \<Rightarrow> (unit, 'w) action" where
  "epoch_loop ext train_dl test_dl [] opt s = (Returned (), s)"
| "epoch_loop ext train_dl test_dl (epoch # rest) opt s =
     (case train ext epoch train_dl opt s of
        (Raised e, s1) \<Rightarrow> (Raised e, s1)
      | (Returned opt', s1) \<Rightarrow>
          (case eval ext epoch train_dl test_dl s1 of
             (Raised e, s2) \<Rightarrow> (Raised e, s2)
           | (Returned _, s2) \<Rightarrow> epoch_loop ext train_dl test_dl rest opt' s2))"

definition range_py :: "int \<Rightarrow> nat list" where
  "range_py n = [0 ..< nat n]"

text \<open>
  Lines 139-154: SGD (momentum 0.9) for \<^verbatim>\<open>"sgd"\<close> and Adam (amsgrad) otherwise, with the
  learning rate and weight decay of the arguments; a cosine schedule for \<^verbatim>\<open>"cosine"\<close> and a
  linear one otherwise, with \<^verbatim>\<open>t_total = args.epochs\<close>.
\<close>

definition optimizer_of :: "args \<Rightarrow> optimizer_cfg" where
  "optimizer_of a = (if client_optimizer a = ''sgd'' then SGD (lr a) (wd a) else Adam (lr a) (wd a))"

definition scheduler_of :: "args \<Rightarrow> scheduler_cfg" where
  "scheduler_of a =
     (if decay_type a = ''cosine''
      then WarmupCosineSchedule (warmup_steps a) (epochs a)
      else WarmupLinearSchedule (warmup_steps a) (epochs a))"

definition train_and_eval ::
  "('w, 'o, 'x, 'lp) extern \<Rightarrow> 'w \<Rightarrow> loader \<Rightarrow> loader \<Rightarrow> (unit, 'w) action" where
  "train_and_eval ext m train_dl test_dl s =
     (let a = args s
      in then_do (emit (OptimizerNew (optimizer_of a))) (\<lambda>_.
         then_do (emit (SchedulerNew (scheduler_of a))) (\<lambda>_.
         epoch_loop ext train_dl test_dl (range_py (epochs a))
           (make_optimizer ext (optimizer_of a) (scheduler_of a) m))) s)"

subsection \<open>\<^verbatim>\<open>load_cifar_centralized_training_for_vit\<close>\<close>

text \<open>
  Lines 191-224: the dataset class is chosen by \<^verbatim>\<open>args.dataset == "cifar10"\<close>, the training
  sampler by \<^verbatim>\<open>args.is_distributed == 0\<close>. The two barriers are called only when
  \<^verbatim>\<open>is_distributed == 1\<close>, that is after \<^verbatim>\<open>init_ddp\<close> has set up the process group.
\<close>

definition dataset_class :: "args \<Rightarrow> dataset_cls" where
  "dataset_class a = (if dataset a = ''cifar10'' then CIFAR10 else CIFAR100)"

text \<open>
  The sampler constructors of lines 213-214. \<^verbatim>\<open>DistributedSampler(trainset)\<close> asks the default
  process group for the world size and the rank and raises when there is none (RuntimeError,
  or ValueError in later versions of the library; no statement below depends on which); the
  other two constructors always return.
\<close>

definition make_sampler :: "sampler \<Rightarrow> (sampler, 'w) action" where
  "make_sampler k =
     then_do (emit (SamplerNew k)) (\<lambda>_ s.
       if k = DistributedSampler \<and> \<not> process_group s then raise RuntimeError s else ret k s)"

text \<open>
  \<^verbatim>\<open>DataLoader(dataset, sampler=..., batch_size=...)\<close> (lines 215-224) raises ValueError for a
  batch size that is not positive.
\<close>

definition DataLoader :: "loader \<Rightarrow> (loader, 'w) action" where
  "DataLoader ld =
     then_do (emit (DataLoaderNew ld)) (\<lambda>_.
       if ld_batch_size ld \<le> 0 then raise ValueError else ret ld)"

definition loader_of :: "args \<Rightarrow> bool \<Rightarrow> sampler \<Rightarrow> loader" where
  "loader_of a is_train smp =
     \<lparr> ld_dataset = dataset_class a, ld_root = data_dir a, ld_train = is_train,
       ld_img_size = img_size a, ld_sampler = smp, ld_batch_size = batch_size a \<rparr>"

definition load_cifar_centralized_training_for_vit :: "(loader \<times> loader, 'w) action" where
  "load_cifar_centralized_training_for_vit s =
     (let a = args s
      in then_do (if is_distributed a = 1 then emit Barrier else ret ()) (\<lambda>_.
         then_do (emit (DatasetNew (dataset_class a) (data_dir a) True)) (\<lambda>_.
         then_do (emit (DatasetNew (dataset_class a) (data_dir a) False)) (\<lambda>_.
         then_do (if is_distributed a = 1 then emit Barrier else ret ()) (\<lambda>_.
         then_do (make_sampler (if is_distributed a = 0 then RandomSampler else DistributedSampler))
           (\<lambda>train_sampler.
         then_do (make_sampler SequentialSampler) (\<lambda>test_sampler.
         then_do (DataLoader (loader_of a True train_sampler)) (\<lambda>train_dl.
         then_do (DataLoader (loader_of a False test_sampler)) (\<lambda>test_dl.
         ret (train_dl, test_dl))))))))) s)"

subsection \<open>The main script\<close>

text \<open>
  The state in which \<^verbatim>\<open>parser.parse_args()\<close> has just returned \<open>a\<close>; \<open>env\<close> is the process
  environment, \<open>lvl\<close> and \<open>hnd\<close> the state of the root logger after the imports.
\<close>

definition parsed :: "args \<Rightarrow> (string \<Rightarrow> string option) \<Rightarrow> nat \<Rightarrow> bool \<Rightarrow> 'w state" where
  "parsed a env lvl hnd =
     \<lparr> args = a, environ = env, root_level = lvl, root_handlers = hnd, g_model = None,
       process_group = False, tick = 0, trace = [ParseArgs] \<rparr>"

text \<open>Lines 295-300.\<close>

definition ddp_block :: "('w, 'o, 'x, 'lp) extern \<Rightarrow> (int \<times> int, 'w) action" where
  "ddp_block ext s =
     (if is_distributed (args s) = 1 then
        then_do (init_ddp ext) (\<lambda>(lrank, grank) s'.
          (Returned (lrank, grank), s'\<lparr>args := (args s')\<lparr>global_rank := grank\<rparr>\<rparr>)) s
      else ret (local_rank (args s), 0) s)"

text \<open>Lines 315-323: the three branches load the data the same way and differ in \<open>class_num\<close>.\<close>

definition dataset_block :: "((loader \<times> loader) \<times> int, 'w) action" where
  "dataset_block s =
     (if dataset (args s) = ''cifar10'' then
        then_do load_cifar_centralized_training_for_vit (\<lambda>dls. ret (dls, 10)) s
      else if dataset (args s) = ''cifar100'' then
        then_do load_cifar_centralized_training_for_vit (\<lambda>dls. ret (dls, 100)) s
      else
        then_do load_cifar_centralized_training_for_vit (\<lambda>dls. ret (dls, 10)) s)"

text \<open>
  Line 326: \<^verbatim>\<open>create_model(...).to(device)\<close>; the attribute access on \<^verbatim>\<open>None\<close> raises
  AttributeError and the global \<^verbatim>\<open>model\<close> stays unbound.
\<close>

definition model_block :: "('w, 'o, 'x, 'lp) extern \<Rightarrow> int \<Rightarrow> int \<Rightarrow> ('w, 'w) action" where
  "model_block ext class_num device =
     (\<lambda>s. then_do (create_model ext (model (args s)) class_num) (\<lambda>r.
       case r of
         None \<Rightarrow> raise AttributeError
       | Some m \<Rightarrow>
           then_do (emit (ToDevice device)) (\<lambda>_ s'.
             (Returned (to_device ext m device), s'\<lparr>g_model := Some (to_device ext m device)\<rparr>))) s)"

text \<open>
  Line 303: \<^verbatim>\<open>torch.device("cuda:" + str(local_rank))\<close> raises RuntimeError for a negative
  index; the device is represented by its index.
\<close>

definition torch_device :: "int \<Rightarrow> (int, 'w) action" where
  "torch_device idx = (if idx < 0 then raise RuntimeError else ret idx)"

text \<open>Lines 302-333, with the two ranks the DDP block has produced.\<close>

definition after_ddp :: "('w, 'o, 'x, 'lp) extern \<Rightarrow> int \<Rightarrow> int \<Rightarrow> (unit, 'w) action" where
  "after_ddp ext lrank grank =
     then_do (torch_device lrank) (\<lambda>device.
     then_do (\<lambda>s. if grank = 0
                   then emit (WandbInit ''fed_transformer'' (epochs (args s)) (lr (args s)) (args s)) s
                   else ret () s) (\<lambda>_.
     then_do dataset_block (\<lambda>((train_dl, test_dl), class_num).
     then_do (model_block ext class_num device) (\<lambda>m0.
     then_do (\<lambda>s. if is_distributed (args s) = 1
                   then then_do (get_ddp_model ext m0 lrank) (\<lambda>m' s'.
                          (Returned m', s'\<lparr>g_model := Some m'\<rparr>)) s
                   else ret m0 s) (\<lambda>m.
     then_do (train_and_eval ext m train_dl test_dl) (\<lambda>_.
     (\<lambda>s. if is_distributed (args s) = 1 then destroy_process_group s else ret () s)))))))"

text \<open>Lines 274-333.\<close>

definition main_body :: "('w, 'o, 'x, 'lp) extern \<Rightarrow> (unit, 'w) action" where
  "main_body ext =
     then_do (\<lambda>s. emit (Stdout (MsgArgs (args s))) s) (\<lambda>_.
     then_do (logging_basicConfig INFO) (\<lambda>_.
     then_do (logging_info MsgProcess) (\<lambda>_.
     then_do (emit Seeds) (\<lambda>_.
     then_do (ddp_block ext) (\<lambda>(lrank, grank).
     after_ddp ext lrank grank)))))"

definition main ::
  "('w, 'o, 'x, 'lp) extern \<Rightarrow> args \<Rightarrow> (string \<Rightarrow> string option) \<Rightarrow> nat \<Rightarrow> bool \<Rightarrow>
   unit outcome \<times> 'w state" where
  "main ext a env lvl hnd = main_body ext (parsed a env lvl hnd)"

subsection \<open>The smoke-test script \<^verbatim>\<open>test.py\<close>\<close>

text \<open>
  The module body, lines 13-24. The script never configures logging, so its two
  \<^verbatim>\<open>logging.info\<close> calls run against the root logger as the imports left it.
\<close>

definition test_script :: "('w, 'o, 'x, 'lp) extern \<Rightarrow> (unit, 'w) action" where
  "test_script ext =
     (let pretrained = ''./../../../fedml_api/model/cv/pretrained/Transformer/vit/ViT-B_16.npz'';
          m0 = VisionTransformer ext 224 10;
          m1 = load_from ext m0 pretrained
      in then_do (logging_info MsgVitConfig) (\<lambda>_.
         then_do (emit (VisionTransformerNew 224 10)) (\<lambda>_.
         then_do (emit (LoadFrom pretrained)) (\<lambda>_.
         then_do (\<lambda>s. (Returned (), s\<lparr>g_model := Some m1\<rparr>)) (\<lambda>_.
         then_do (emit CountParameters) (\<lambda>_.
         then_do (logging_info (MsgModelSize (count_parameters ext m1))) (\<lambda>_.
         emit (Stdout MsgModelRepr))))))))"

section \<open>Observations on runs\<close>

subsection \<open>Events added by a call, call markers, tracker records\<close>

definition new_events :: "'w state \<Rightarrow> 'w state \<Rightarrow> event list" where
  "new_events s s' = drop (length (trace s)) (trace s')"

fun is_marker :: "event \<Rightarrow> bool" where
  "is_marker (Enter _) = True"
| "is_marker (Leave _) = True"
| "is_marker _ = False"

text \<open>The events that occur outside every \<open>Enter\<close>/\<open>Leave\<close> bracket; \<open>d\<close> is the nesting depth.\<close>

fun outside :: "nat \<Rightarrow> event list \<Rightarrow> event list" where
  "outside d [] = []"
| "outside d (ev # es) =
     (case ev of
        Enter _ \<Rightarrow> outside (Suc d) es
      | Leave _ \<Rightarrow> outside (d - 1) es
      | _ \<Rightarrow> if d = 0 then ev # outside d es else outside d es)"

definition epoch_markers :: "nat \<Rightarrow> event list" where
  "epoch_markers e = [Enter (CTrain e), Leave (CTrain e), Enter (CEval e), Leave (CEval e)]"

fun wandb_round :: "event \<Rightarrow> (string \<times> nat) option" where
  "wandb_round (WandbLog k v e) = Some (k, e)"
| "wandb_round _ = None"

definition wandb_rounds :: "event list \<Rightarrow> (string \<times> nat) list" where
  "wandb_rounds es = List.map_filter wandb_round es"

definition epoch_logs :: "nat \<Rightarrow> (string \<times> nat) list" where
  "epoch_logs e = [(''Train/Acc'', e), (''Train/Loss'', e), (''Test/Acc'', e), (''Test/Loss'', e)]"

fun is_wandb :: "event \<Rightarrow> bool" where
  "is_wandb (WandbInit _ _ _ _) = True"
| "is_wandb (WandbLog _ _ _) = True"
| "is_wandb _ = False"

fun is_wandb_log :: "event \<Rightarrow> bool" where
  "is_wandb_log (WandbLog _ _ _) = True"
| "is_wandb_log _ = False"

fun is_load_from :: "event \<Rightarrow> bool" where
  "is_load_from (LoadFrom _) = True"
| "is_load_from _ = False"


fun is_model_new :: "event \<Rightarrow> bool" where
  "is_model_new (VisionTransformerNew _ _) = True"
| "is_model_new _ = False"

text \<open>The events \<^verbatim>\<open>train_and_eval\<close> can add.\<close>

fun loop_event :: "event \<Rightarrow> bool" where
  "loop_event (OptimizerNew _) = True"
| "loop_event (SchedulerNew _) = True"
| "loop_event ModelTrain = True"
| "loop_event ModelEval = True"
| "loop_event (TrainStep _) = True"
| "loop_event (Forward _) = True"
| "loop_event (Enter _) = True"
| "loop_event (Leave _) = True"
| "loop_event (WandbLog _ _ _) = True"
| "loop_event (LogRecord _) = True"
| "loop_event _ = False"

text \<open>An action that leaves \<^verbatim>\<open>args\<close> alone and only adds events of the class \<open>P\<close>.\<close>

definition framed :: "(event \<Rightarrow> bool) \<Rightarrow> ('a, 'w) action \<Rightarrow> bool" where
  "framed P m \<longleftrightarrow>
     (\<forall>s. args (snd (m s)) = args s \<and> (\<exists>es. trace (snd (m s)) = trace s @ es \<and> list_all P es))"

text \<open>
  What the passes over the loaders do: switching the mode of the model, the training steps
  and the forward passes, inside the brackets of the calls.
\<close>

fun is_work :: "event \<Rightarrow> bool" where
  "is_work ModelTrain = True"
| "is_work ModelEval = True"
| "is_work (TrainStep _) = True"
| "is_work (Forward _) = True"
| "is_work (Enter _) = True"
| "is_work (Leave _) = True"
| "is_work _ = False"

text \<open>
  The work of the epochs \<open>es\<close> when the next loader iteration is the \<open>t\<close>-th: in each epoch
  \<open>e\<close> the call \<open>train e\<close> with one training step per batch of the training loader, then the
  call \<open>eval e\<close> with one forward pass per batch of the training loader and then one per
  batch of the test loader.
\<close>

fun epoch_work ::
  "('w, 'o, 'x, 'lp) extern \<Rightarrow> loader \<Rightarrow> loader \<Rightarrow> nat \<Rightarrow> nat list \<Rightarrow> event list" where
  "epoch_work ext train_dl test_dl t [] = []"
| "epoch_work ext train_dl test_dl t (e # es) =
     [Enter (CTrain e), ModelTrain] @ map TrainStep [0 ..< length (batches ext train_dl t)]
     @ [Leave (CTrain e), Enter (CEval e)]
     @ ModelEval # map Forward [0 ..< length (batches ext train_dl (t + 1))]
     @ ModelEval # map Forward [0 ..< length (batches ext test_dl (t + 2))]
     @ [Leave (CEval e)]
     @ epoch_work ext train_dl test_dl (t + 3) es"

subsection \<open>Stages of the pipeline\<close>

datatype stage = SParse | SInit | SData | SModel | SWrap | SLoop | STeardown

text \<open>
  The stage a library call belongs to. Printing, logging, seeding and \<^verbatim>\<open>wandb.init\<close> belong to
  none of the stages of the pipeline, and neither does the construction of the optimizer and
  of the schedule, which \<^verbatim>\<open>train_and_eval\<close> does before its loop: the stage of the epoch loop
  is marked by what an epoch does.
\<close>

fun stage_of :: "event \<Rightarrow> stage option" where
  "stage_of ParseArgs = Some SParse"
| "stage_of (EnvSet _ _) = Some SInit"
| "stage_of (InitProcessGroup _ _ _) = Some SInit"
| "stage_of Barrier = Some SData"
| "stage_of (DatasetNew _ _ _) = Some SData"
| "stage_of (SamplerNew _) = Some SData"
| "stage_of (DataLoaderNew _) = Some SData"
| "stage_of (VisionTransformerNew _ _) = Some SModel"
| "stage_of (LoadFrom _) = Some SModel"
| "stage_of CountParameters = Some SModel"
| "stage_of (ToDevice _) = Some SModel"
| "stage_of (DDPNew _) = Some SWrap"
| "stage_of ModelTrain = Some SLoop"
| "stage_of ModelEval = Some SLoop"
| "stage_of (TrainStep _) = Some SLoop"
| "stage_of (Forward _) = Some SLoop"
| "stage_of (Enter _) = Some SLoop"
| "stage_of (Leave _) = Some SLoop"
| "stage_of (WandbLog _ _ _) = Some SLoop"
| "stage_of DestroyProcessGroup = Some STeardown"
| "stage_of _ = None"

text \<open>The sequence of stages a trace goes through.\<close>

definition stages :: "event list \<Rightarrow> stage list" where
  "stages es = remdups_adj (List.map_filter stage_of es)"

text \<open>
  The pipeline: the process group, the data-parallel wrapper and the teardown are stages of it
  when \<^verbatim>\<open>is_distributed == 1\<close>, and the epoch loop when there is an epoch to run.
\<close>

definition expected_stages :: "args \<Rightarrow> stage list" where
  "expected_stages a =
     [SParse] @ (if is_distributed a = 1 then [SInit] else []) @ [SData, SModel]
     @ (if is_distributed a = 1 then [SWrap] else [])
     @ (if 0 < epochs a then [SLoop] else [])
     @ (if is_distributed a = 1 then [STeardown] else [])"

subsection \<open>Distributed calls\<close>

text \<open>
  The calls that belong to distributed execution: environment writes, the process-group
  entry points, barriers, the distributed sampler, and the data-parallel wrapper.
\<close>

fun distributed_call :: "event \<Rightarrow> bool" where
  "distributed_call (EnvSet _ _) = True"
| "distributed_call (InitProcessGroup _ _ _) = True"
| "distributed_call DestroyProcessGroup = True"
| "distributed_call Barrier = True"
| "distributed_call (SamplerNew DistributedSampler) = True"
| "distributed_call (DDPNew _) = True"
| "distributed_call _ = False"

text \<open>Those among them that are environment writes, initialization or teardown.\<close>

fun env_init_teardown :: "event \<Rightarrow> bool" where
  "env_init_teardown (EnvSet _ _) = True"
| "env_init_teardown (InitProcessGroup _ _ _) = True"
| "env_init_teardown DestroyProcessGroup = True"
| "env_init_teardown _ = False"

subsection \<open>What inference and training compute\<close>

definition run_steps ::
  "('w, 'o, 'x, 'lp) extern \<Rightarrow> 'w \<times> 'o \<Rightarrow> ('x \<times> nat) list list \<Rightarrow> 'w \<times> 'o" where
  "run_steps ext = foldl (\<lambda>(m, opt) b. step ext m opt b)"

text \<open>
  The model and optimizer after \<open>n\<close> epochs in which nothing but the training steps touches
  them: epoch by epoch, one \<open>step\<close> per batch of the training pass. The loop iterates a loader
  three times per epoch (training, then the two inference passes), so the training pass of the
  next epoch is iteration \<open>t + 3\<close>.
\<close>

fun fit ::
  "('w, 'o, 'x, 'lp) extern \<Rightarrow> loader \<Rightarrow> nat \<Rightarrow> nat \<Rightarrow> 'w \<times> 'o \<Rightarrow> 'w \<times> 'o" where
  "fit ext dl t 0 mo = mo"
| "fit ext dl t (Suc n) mo = fit ext dl (t + 3) n (run_steps ext mo (batches ext dl t))"

definition infer_value ::
  "('w, 'o, 'x, 'lp) extern \<Rightarrow> 'w \<Rightarrow> ('x \<times> nat) list list \<Rightarrow> real \<times> real \<times> real" where
  "infer_value ext m bs = foldl (infer_batch ext m) (0, 0, 0) bs"

text \<open>Number of samples whose predicted class is their label.\<close>

definition correct_count :: "('w, 'o, 'x, 'lp) extern \<Rightarrow> 'w \<Rightarrow> ('x \<times> nat) list \<Rightarrow> nat" where
  "correct_count ext m samples =
     length (filter (\<lambda>(x, t). argmax ext (forward ext m x) = t) samples)"

text \<open>The batch-mean loss of one batch.\<close>

definition batch_loss :: "('w, 'o, 'x, 'lp) extern \<Rightarrow> 'w \<Rightarrow> ('x \<times> nat) list \<Rightarrow> real" where
  "batch_loss ext m b = CrossEntropyLoss ext (map (forward ext m) (map fst b)) (map snd b)"

text \<open>Sum of the per-sample losses.\<close>

definition total_loss :: "('w, 'o, 'x, 'lp) extern \<Rightarrow> 'w \<Rightarrow> ('x \<times> nat) list \<Rightarrow> real" where
  "total_loss ext m samples = (\<Sum>(x, t)\<leftarrow>samples. sample_loss ext (forward ext m x) t)"

text \<open>Fraction of correctly classified samples, and per-sample average of the loss.\<close>

definition accuracy :: "('w, 'o, 'x, 'lp) extern \<Rightarrow> 'w \<Rightarrow> ('x \<times> nat) list \<Rightarrow> real" where
  "accuracy ext m samples = real (correct_count ext m samples) / real (length samples)"

definition mean_loss :: "('w, 'o, 'x, 'lp) extern \<Rightarrow> 'w \<Rightarrow> ('x \<times> nat) list \<Rightarrow> real" where
  "mean_loss ext m samples = total_loss ext m samples / real (length samples)"

text \<open>What \<^verbatim>\<open>eval\<close> reports on rank 0, given the two results of \<^verbatim>\<open>_infer\<close>.\<close>

definition report_events ::
  "nat \<Rightarrow> real \<times> real \<times> real \<Rightarrow> real \<times> real \<times> real \<Rightarrow> nat \<Rightarrow> event list" where
  "report_events e r1 r2 lvl =
     (case (r1, r2) of ((c1, n1, l1), (c2, n2, l2)) \<Rightarrow>
        [WandbLog ''Train/Acc'' (c1 / n1) e, WandbLog ''Train/Loss'' (l1 / n1) e]
        @ (if lvl \<le> INFO
           then [LogRecord (MsgStats ''training_acc'' (c1 / n1) ''training_loss'' (l1 / n1))]
           else [])
        @ [WandbLog ''Test/Acc'' (c2 / n2) e, WandbLog ''Test/Loss'' (l2 / n2) e]
        @ (if lvl \<le> INFO
           then [LogRecord (MsgStats ''test_acc'' (c2 / n2) ''test_loss'' (l2 / n2))]
           else []))"

definition eval_events ::
  "('w, 'o, 'x, 'lp) extern \<Rightarrow> nat \<Rightarrow> loader \<Rightarrow> loader \<Rightarrow> 'w \<Rightarrow> 'w state \<Rightarrow> event list" where
  "eval_events ext e train_dl test_dl m s =
     [Enter (CEval e)]
     @ ModelEval # map Forward [0 ..< length (batches ext train_dl (tick s))]
     @ ModelEval # map Forward [0 ..< length (batches ext test_dl (Suc (tick s)))]
     @ (if global_rank (args s) = 0
        then report_events e (infer_value ext m (batches ext train_dl (tick s)))
               (infer_value ext m (batches ext test_dl (Suc (tick s)))) (root_level s)
        else [])
     @ [Leave (CEval e)]"

subsection \<open>The loaders of a run\<close>

text \<open>The two loaders a run constructs (lines 213-224).\<close>

definition train_loader :: "args \<Rightarrow> loader" where
  "train_loader a =
     \<lparr> ld_dataset = dataset_class a, ld_root = data_dir a, ld_train = True,
       ld_img_size = img_size a,
       ld_sampler = (if is_distributed a = 0 then RandomSampler else DistributedSampler),
       ld_batch_size = batch_size a \<rparr>"

definition test_loader :: "args \<Rightarrow> loader" where
  "test_loader a =
     \<lparr> ld_dataset = dataset_class a, ld_root = data_dir a, ld_train = False,
       ld_img_size = img_size a, ld_sampler = SequentialSampler,
       ld_batch_size = batch_size a \<rparr>"

subsection \<open>Runs that complete\<close>

text \<open>Both loaders yield at least one sample whenever they are iterated.\<close>

definition feeds :: "('w, 'o, 'x, 'lp) extern \<Rightarrow> loader \<Rightarrow> loader \<Rightarrow> bool" where
  "feeds ext train_dl test_dl \<longleftrightarrow>
     (\<forall>k. concat (batches ext train_dl k) \<noteq> [] \<and> concat (batches ext test_dl k) \<noteq> [])"

definition env_int ::
  "('w, 'o, 'x, 'lp) extern \<Rightarrow> (string \<Rightarrow> string option) \<Rightarrow> string \<Rightarrow> int option" where
  "env_int ext env k = (case env k of None \<Rightarrow> None | Some v \<Rightarrow> py_int ext v)"

text \<open>
  Conditions under which the run of the main script returns in this model: a device index that
  is not negative, a distributed flag that is 0 or 1, a positive batch size, the model name
  that \<^verbatim>\<open>create_model\<close> knows, the rank and the world size in the environment of a
  distributed run, and loaders that are not empty when there is an epoch to run. They say
  nothing about the library calls the model takes to return.
\<close>

definition can_run ::
  "('w, 'o, 'x, 'lp) extern \<Rightarrow> args \<Rightarrow> (string \<Rightarrow> string option) \<Rightarrow> bool" where
  "can_run ext a env \<longleftrightarrow>
     0 \<le> local_rank a \<and> (is_distributed a = 0 \<or> is_distributed a = 1) \<and> 0 < batch_size a \<and>
     model a = ''transformer'' \<and>
     (is_distributed a = 1 \<longrightarrow>
        env_int ext env ''RANK'' \<noteq> None \<and> env_int ext env ''WORLD_SIZE'' \<noteq> None) \<and>
     (0 < epochs a \<longrightarrow> feeds ext (train_loader a) (test_loader a))"

subsection \<open>The events of the parts of the main script\<close>

definition train_events :: "nat \<Rightarrow> nat \<Rightarrow> event list" where
  "train_events e n = [Enter (CTrain e), ModelTrain] @ map TrainStep [0 ..< n] @ [Leave (CTrain e)]"

definition class_num_of :: "args \<Rightarrow> int" where
  "class_num_of a =
     (if dataset a = ''cifar10'' then 10 else if dataset a = ''cifar100'' then 100 else 10)"

definition log_events :: "nat \<Rightarrow> message \<Rightarrow> event list" where
  "log_events lvl msg = (if lvl \<le> INFO then [LogRecord msg] else [])"

text \<open>The root level after \<^verbatim>\<open>logging.basicConfig(level=logging.INFO)\<close>.\<close>

definition eff_level :: "nat \<Rightarrow> bool \<Rightarrow> nat" where
  "eff_level lvl hnd = (if hnd then lvl else INFO)"

definition prelude_events :: "args \<Rightarrow> nat \<Rightarrow> bool \<Rightarrow> event list" where
  "prelude_events a lvl hnd =
     [ParseArgs, Stdout (MsgArgs a)] @ log_events (eff_level lvl hnd) MsgProcess @ [Seeds]"

definition ddp_events :: "args \<Rightarrow> int \<Rightarrow> int \<Rightarrow> event list" where
  "ddp_events a r w =
     [EnvSet ''NCCL_DEBUG'' ''INFO'', EnvSet ''NCCL_SOCKET_IFNAME'' ''ib0'', Stdout (MsgRank r),
      Stdout (MsgWorldSize w), InitProcessGroup ''nccl'' r w, Stdout (MsgLocalRank (local_rank a))]"

text \<open>
  The events of \<^verbatim>\<open>load_cifar_centralized_training_for_vit\<close> up to the construction of the
  training sampler, and all of them.
\<close>

definition data_head :: "args \<Rightarrow> event list" where
  "data_head a =
     (if is_distributed a = 1 then [Barrier] else [])
     @ [DatasetNew (dataset_class a) (data_dir a) True, DatasetNew (dataset_class a) (data_dir a) False]
     @ (if is_distributed a = 1 then [Barrier] else [])
     @ [SamplerNew (if is_distributed a = 0 then RandomSampler else DistributedSampler)]"

definition data_events :: "args \<Rightarrow> event list" where
  "data_events a =
     data_head a
     @ [SamplerNew SequentialSampler, DataLoaderNew (train_loader a), DataLoaderNew (test_loader a)]"

definition wandb_events :: "args \<Rightarrow> int \<Rightarrow> event list" where
  "wandb_events a grank =
     (if grank = 0 then [WandbInit ''fed_transformer'' (epochs a) (lr a) a] else [])"

definition model_events :: "('w, 'o, 'x, 'lp) extern \<Rightarrow> args \<Rightarrow> nat \<Rightarrow> int \<Rightarrow> event list" where
  "model_events ext a lvl lrank =
     log_events lvl (MsgCreateModel (model a) (class_num_of a))
     @ (if model a = ''transformer''
        then log_events lvl MsgVitConfig
             @ [VisionTransformerNew (img_size a) (class_num_of a), LoadFrom (pretrained_dir a),
                CountParameters]
             @ log_events lvl (MsgModelSize (count_parameters ext
                 (load_from ext (VisionTransformer ext (img_size a) (class_num_of a)) (pretrained_dir a))))
             @ [ToDevice lrank]
             @ (if is_distributed a = 1 then [DDPNew lrank] else [])
        else [])"

definition setup_events ::
  "('w, 'o, 'x, 'lp) extern \<Rightarrow> args \<Rightarrow> nat \<Rightarrow> int \<Rightarrow> int \<Rightarrow> event list" where
  "setup_events ext a lvl lrank grank =
     wandb_events a grank @ data_events a @ model_events ext a lvl lrank"

text \<open>
  The calls of the stages around the epoch loop, and the sequence of them a run makes that
  goes through the whole pipeline, with rank \<open>r\<close> and world size \<open>w\<close>.
\<close>

definition setup_call :: "event \<Rightarrow> bool" where
  "setup_call e \<longleftrightarrow> stage_of e \<noteq> None \<and> stage_of e \<noteq> Some SLoop"

definition expected_calls :: "args \<Rightarrow> int \<Rightarrow> int \<Rightarrow> event list" where
  "expected_calls a r w =
     [ParseArgs]
     @ (if is_distributed a = 1
        then [EnvSet ''NCCL_DEBUG'' ''INFO'', EnvSet ''NCCL_SOCKET_IFNAME'' ''ib0'',
              InitProcessGroup ''nccl'' r w]
        else [])
     @ data_events a
     @ [VisionTransformerNew (img_size a) (class_num_of a), LoadFrom (pretrained_dir a),
        CountParameters, ToDevice (local_rank a)]
     @ (if is_distributed a = 1 then [DDPNew (local_rank a), DestroyProcessGroup] else [])"

text \<open>The model object the epoch loop starts from.\<close>

definition built_model :: "('w, 'o, 'x, 'lp) extern \<Rightarrow> args \<Rightarrow> int \<Rightarrow> 'w" where
  "built_model ext a lrank =
     (let m = to_device ext
                (load_from ext (VisionTransformer ext (img_size a) (class_num_of a)) (pretrained_dir a))
                lrank
      in if is_distributed a = 1 then DDP ext m lrank else m)"

text \<open>The state after line 292, and the state in which \<^verbatim>\<open>train_and_eval\<close> is called.\<close>

definition started :: "args \<Rightarrow> (string \<Rightarrow> string option) \<Rightarrow> nat \<Rightarrow> bool \<Rightarrow> 'w state" where
  "started a env lvl hnd =
     \<lparr> args = a, environ = env, root_level = eff_level lvl hnd, root_handlers = True,
       g_model = None, process_group = False, tick = 0, trace = prelude_events a lvl hnd \<rparr>"

definition loop_start :: "('w, 'o, 'x, 'lp) extern \<Rightarrow> int \<Rightarrow> int \<Rightarrow> 'w state \<Rightarrow> 'w state" where
  "loop_start ext lrank grank s =
     s\<lparr>root_handlers := True, g_model := Some (built_model ext (args s) lrank),
       trace := trace s @ setup_events ext (args s) (root_level s) lrank grank\<rparr>"

text \<open>
  The rank, the \<^verbatim>\<open>args\<close> object and the events of the DDP block (lines 295-300) in a run
  that gets through it.
\<close>

definition run_rank :: "('w, 'o, 'x, 'lp) extern \<Rightarrow> args \<Rightarrow> (string \<Rightarrow> string option) \<Rightarrow> int" where
  "run_rank ext a env = (if is_distributed a = 1 then the (env_int ext env ''RANK'') else 0)"

definition run_args :: "('w, 'o, 'x, 'lp) extern \<Rightarrow> args \<Rightarrow> (string \<Rightarrow> string option) \<Rightarrow> args" where
  "run_args ext a env = (if is_distributed a = 1 then a\<lparr>global_rank := run_rank ext a env\<rparr> else a)"

definition init_events :: "('w, 'o, 'x, 'lp) extern \<Rightarrow> args \<Rightarrow> (string \<Rightarrow> string option) \<Rightarrow> event list" where
  "init_events ext a env =
     (if is_distributed a = 1
      then ddp_events a (the (env_int ext env ''RANK'')) (the (env_int ext env ''WORLD_SIZE''))
      else [])"

subsection \<open>A small instance for concrete runs\<close>

definition toy_int :: "string \<Rightarrow> int option" where
  "toy_int v =
     (if v \<noteq> [] \<and> list_all (\<lambda>c. 48 \<le> (of_char c :: nat) \<and> (of_char c :: nat) \<le> 57) v
      then Some (foldl (\<lambda>n c. 10 * n + (int (of_char c) - 48)) 0 v) else None)"

text \<open>
  Images and model outputs are numbers, the model is a counter of the training steps it has
  taken; a training pass has two batches, a test pass one.
\<close>

definition toy :: "(int, nat, int, nat) extern" where
  "toy = \<lparr> py_int = toy_int,
           batches = (\<lambda>ld k. if ld_train ld then [[(0, 0), (1, 0)], [(2, 0)]] else [[(3, 1)]]),
           VisionTransformer = (\<lambda>img n. 0),
           load_from = (\<lambda>w p. 100),
           count_parameters = (\<lambda>w. 86),
           to_device = (\<lambda>w d. w),
           DDP = (\<lambda>w d. w),
           make_optimizer = (\<lambda>oc sc w. 0),
           forward = (\<lambda>w x. nat (x + w) mod 2),
           argmax = (\<lambda>lp. lp),
           sample_loss = (\<lambda>lp t. if lp = t then 0 else 1),
           step = (\<lambda>w opt b. (w + 1, Suc opt)) \<rparr>"

definition one_epoch :: args where
  "one_epoch = default_args\<lparr>epochs := 1\<rparr>"

definition rank3_of_4 :: "string \<Rightarrow> string option" where
  "rank3_of_4 = [''RANK'' \<mapsto> ''3'', ''WORLD_SIZE'' \<mapsto> ''4'']"

definition rank0_of_4 :: "string \<Rightarrow> string option" where
  "rank0_of_4 = [''RANK'' \<mapsto> ''0'', ''WORLD_SIZE'' \<mapsto> ''4'']"

definition toy_state :: "int state" where
  "toy_state = (parsed one_epoch Map.empty WARNING False)\<lparr>g_model := Some 100\<rparr>"

definition distributed_args :: args where
  "distributed_args = one_epoch\<lparr>is_distributed := 1\<rparr>"


definition rank3_single :: args where
  "rank3_single = one_epoch\<lparr>global_rank := 3\<rparr>"

definition flag_two :: args where
  "flag_two = one_epoch\<lparr>is_distributed := 2\<rparr>"

section \<open>Sequencing and frame lemmas\<close>

lemma then_do_ret [simp]: "then_do (ret a) f s = f a s"
  by (simp add: then_do_def ret_def)

lemma then_do_raise [simp]: "then_do (raise e) f s = (Raised e, s)"
  by (simp add: then_do_def raise_def)

lemma then_do_emit [simp]: "then_do (emit ev) f s = f () (s\<lparr>trace := trace s @ [ev]\<rparr>)"
  by (simp add: then_do_def emit_def)

lemma then_do_Returned: "m s = (Returned a, s') \<Longrightarrow> then_do m f s = f a s'"
  by (simp add: then_do_def)

lemma then_do_Raised: "m s = (Raised e, s') \<Longrightarrow> then_do m f s = (Raised e, s')"
  by (simp add: then_do_def)

lemma upt_shift: "[i ..< Suc (i + n)] = i # [Suc i ..< Suc (i + n)]"
  by (simp add: upt_conv_Cons del: upt_Suc)

lemma train_loop_result:
  "g_model s = Some m \<Longrightarrow>
   train_loop ext bs i opt s =
     (Returned (snd (run_steps ext (m, opt) bs)),
      s\<lparr>g_model := Some (fst (run_steps ext (m, opt) bs)),
        trace := trace s @ map TrainStep [i ..< i + length bs]\<rparr>)"
proof (induction bs arbitrary: i opt s m)
  case Nil
  then show ?case by (simp add: run_steps_def)
next
  case (Cons b bs)
  obtain m' opt' where st: "step ext m opt b = (m', opt')" by (cases "step ext m opt b")
  have "g_model (s\<lparr>g_model := Some m', trace := trace s @ [TrainStep i]\<rparr>) = Some m'" by simp
  from Cons.IH [OF this, of "Suc i" opt'] Cons.prems st
  show ?case by (simp add: run_steps_def upt_shift del: upt_Suc)
qed

lemma infer_loop_result:
  "g_model s = Some m \<Longrightarrow>
   infer_loop ext bs i acc s =
     (Returned (foldl (infer_batch ext m) acc bs),
      s\<lparr>trace := trace s @ map Forward [i ..< i + length bs]\<rparr>)"
proof (induction bs arbitrary: i acc s)
  case Nil
  then show ?case by simp
next
  case (Cons b bs)
  have "g_model (s\<lparr>trace := trace s @ [Forward i]\<rparr>) = Some m" using Cons.prems by simp
  from Cons.IH [OF this, of "Suc i" "infer_batch ext m acc b"] Cons.prems
  show ?case by (simp add: upt_shift del: upt_Suc)
qed

lemma then_do_get_model: "g_model s = Some m \<Longrightarrow> then_do get_model f s = f m s"
  by (simp add: then_do_def get_model_def)

lemma then_do_iterate [simp]:
  "then_do (iterate ext dl) f s = f (batches ext dl (tick s)) (s\<lparr>tick := Suc (tick s)\<rparr>)"
  by (simp add: then_do_def iterate_def)

lemma then_do_logging_info [simp]:
  "then_do (logging_info msg) f s =
     f () (s\<lparr>root_handlers := True,
             trace := trace s @ (if root_level s \<le> INFO then [LogRecord msg] else [])\<rparr>)"
  by (simp add: then_do_def logging_info_def emit_def Let_def)

lemma infer_result:
  assumes "g_model s = Some m"
  shows "infer ext dl s =
     (Returned (infer_value ext m (batches ext dl (tick s))),
      s\<lparr>tick := Suc (tick s),
        trace := trace s @ ModelEval # map Forward [0 ..< length (batches ext dl (tick s))]\<rparr>)"
proof -
  have "g_model (s\<lparr>trace := trace s @ [ModelEval], tick := Suc (tick s)\<rparr>) = Some m"
    using assms by simp
  from infer_loop_result [OF this, of ext "batches ext dl (tick s)" 0 "(0, 0, 0)"] assms
  show ?thesis
    by (simp add: infer_def then_do_get_model infer_value_def)
qed

lemma train_result:
  assumes "g_model s = Some m"
  shows "train ext e dl opt s =
     (Returned (snd (run_steps ext (m, opt) (batches ext dl (tick s)))),
      s\<lparr>g_model := Some (fst (run_steps ext (m, opt) (batches ext dl (tick s)))),
        tick := Suc (tick s),
        trace := trace s @ [Enter (CTrain e), ModelTrain]
                 @ map TrainStep [0 ..< length (batches ext dl (tick s))] @ [Leave (CTrain e)]\<rparr>)"
proof -
  let ?s1 = "s\<lparr>trace := trace s @ [Enter (CTrain e)]\<rparr>"
  let ?s2 = "s\<lparr>trace := trace s @ [Enter (CTrain e), ModelTrain], tick := Suc (tick s)\<rparr>"
  have g1: "g_model ?s1 = Some m" and g2: "g_model ?s2 = Some m" using assms by simp_all
  from train_loop_result [OF g2, of ext "batches ext dl (tick s)" 0 opt]
  show ?thesis
    by (simp add: train_def then_do_get_model [OF g1] then_do_Returned ret_def)
qed

lemma then_do_if_state:
  "then_do (\<lambda>s. if c s then m1 s else m2 s) f s = (if c s then then_do m1 f s else then_do m2 f s)"
  by (simp add: then_do_def)

lemma then_do_Pair [simp]:
  "then_do (\<lambda>s. (Returned a, g s)) f s = f a (g s)"
  "then_do (Pair (Returned a)) f s = f a s"
  by (simp_all add: then_do_def)

lemma logging_info_result:
  "logging_info msg s =
     (Returned (), s\<lparr>root_handlers := True,
                     trace := trace s @ (if root_level s \<le> INFO then [LogRecord msg] else [])\<rparr>)"
  by (simp add: logging_info_def emit_def Let_def)

lemma then_do_infer:
  "g_model s = Some m \<Longrightarrow>
   then_do (infer ext dl) f s =
     f (infer_value ext m (batches ext dl (tick s)))
       (s\<lparr>tick := Suc (tick s),
          trace := trace s @ ModelEval # map Forward [0 ..< length (batches ext dl (tick s))]\<rparr>)"
  by (simp add: then_do_def infer_result)

lemma then_do_py_div [simp]:
  "then_do (py_div a b) f s = (if b = 0 then (Raised ZeroDivisionError, s) else f (a / b) s)"
  by (simp add: py_div_def)

lemma eval_result:
  assumes g: "g_model s = Some m"
    and n1: "fst (snd (infer_value ext m (batches ext train_dl (tick s)))) \<noteq> 0"
    and n2: "fst (snd (infer_value ext m (batches ext test_dl (Suc (tick s))))) \<noteq> 0"
  shows "eval ext e train_dl test_dl s =
     (Returned (),
      s\<lparr>tick := Suc (Suc (tick s)),
        root_handlers := (global_rank (args s) = 0 \<or> root_handlers s),
        trace := trace s @ eval_events ext e train_dl test_dl m s\<rparr>)"
proof -
  obtain c1 k1 l1 where r1: "infer_value ext m (batches ext train_dl (tick s)) = (c1, k1, l1)"
    by (cases "infer_value ext m (batches ext train_dl (tick s))")
  obtain c2 k2 l2 where r2: "infer_value ext m (batches ext test_dl (Suc (tick s))) = (c2, k2, l2)"
    by (cases "infer_value ext m (batches ext test_dl (Suc (tick s)))")
  from n1 n2 r1 r2 have nz: "k1 \<noteq> 0" "k2 \<noteq> 0" by simp_all
  show ?thesis
    unfolding eval_def
    by (simp add: then_do_infer g r1 r2 nz eval_events_def report_events_def emit_def ret_def
          then_do_if_state logging_info_result)
qed

lemma framed_ret: "framed P (ret a)"
  by (simp add: framed_def ret_def)

lemma framed_raise: "framed P (raise e)"
  by (simp add: framed_def raise_def)

lemma framed_emit: "P ev \<Longrightarrow> framed P (emit ev)"
  by (simp add: framed_def emit_def)

lemma framed_logging_info: "P (LogRecord msg) \<Longrightarrow> framed P (logging_info msg)"
  by (simp add: framed_def logging_info_result)

lemma framed_get_model: "framed P get_model"
  by (simp add: framed_def get_model_def split: option.splits)

lemma framed_iterate: "framed P (iterate ext dl)"
  by (simp add: framed_def iterate_def)

lemma framed_py_div: "framed P (py_div a b)"
  by (simp add: py_div_def framed_ret framed_raise)

lemma framed_then_do:
  assumes "framed P m" and "\<And>a. framed P (f a)"
  shows "framed P (then_do m f)"
  unfolding framed_def
proof (intro allI)
  fix s
  obtain r s1 where ms: "m s = (r, s1)" by (cases "m s")
  from assms(1) ms obtain es1 where a1: "args s1 = args s" and t1: "trace s1 = trace s @ es1"
    and p1: "list_all P es1"
    unfolding framed_def by (metis snd_conv)
  show "args (snd (then_do m f s)) = args s \<and>
        (\<exists>es. trace (snd (then_do m f s)) = trace s @ es \<and> list_all P es)"
  proof (cases r)
    case (Raised e)
    with ms a1 t1 p1 show ?thesis by (auto simp: then_do_def)
  next
    case (Returned a)
    from assms(2) [of a] obtain es2 where "args (snd (f a s1)) = args s1"
      and "trace (snd (f a s1)) = trace s1 @ es2" and "list_all P es2"
      unfolding framed_def by blast
    with Returned ms a1 t1 p1 show ?thesis by (auto simp: then_do_def)
  qed
qed

lemma framed_if_state:
  "framed P m1 \<Longrightarrow> framed P m2 \<Longrightarrow> framed P (\<lambda>s. if c s then m1 s else m2 s)"
  by (simp add: framed_def)

lemma framed_train_loop:
  "\<forall>i. P (TrainStep i) \<Longrightarrow> framed P (train_loop ext bs i opt)"
proof (induction bs arbitrary: i opt)
  case Nil
  show ?case by (simp add: framed_def)
next
  case (Cons b bs)
  show ?case
    unfolding framed_def
  proof (intro allI)
    fix s
    show "args (snd (train_loop ext (b # bs) i opt s)) = args s \<and>
          (\<exists>es. trace (snd (train_loop ext (b # bs) i opt s)) = trace s @ es \<and> list_all P es)"
    proof (cases "g_model s")
      case None
      then show ?thesis by simp
    next
      case (Some m)
      obtain m' opt' where st: "step ext m opt b = (m', opt')" by (cases "step ext m opt b")
      let ?s1 = "s\<lparr>g_model := Some m', trace := trace s @ [TrainStep i]\<rparr>"
      from Cons.IH [OF Cons.prems, of "Suc i" opt']
      obtain es where "args (snd (train_loop ext bs (Suc i) opt' ?s1)) = args ?s1"
        and "trace (snd (train_loop ext bs (Suc i) opt' ?s1)) = trace ?s1 @ es" and "list_all P es"
        unfolding framed_def by blast
      with Some st Cons.prems show ?thesis by simp
    qed
  qed
qed

lemma framed_infer_loop:
  "\<forall>i. P (Forward i) \<Longrightarrow> framed P (infer_loop ext bs i acc)"
proof (induction bs arbitrary: i acc)
  case Nil
  show ?case by (simp add: framed_def)
next
  case (Cons b bs)
  show ?case
    unfolding framed_def
  proof (intro allI)
    fix s
    show "args (snd (infer_loop ext (b # bs) i acc s)) = args s \<and>
          (\<exists>es. trace (snd (infer_loop ext (b # bs) i acc s)) = trace s @ es \<and> list_all P es)"
    proof (cases "g_model s")
      case None
      then show ?thesis by simp
    next
      case (Some m)
      let ?s1 = "s\<lparr>trace := trace s @ [Forward i]\<rparr>"
      from Cons.IH [OF Cons.prems, of "Suc i" "infer_batch ext m acc b"]
      obtain es where "args (snd (infer_loop ext bs (Suc i) (infer_batch ext m acc b) ?s1)) = args ?s1"
        and "trace (snd (infer_loop ext bs (Suc i) (infer_batch ext m acc b) ?s1)) = trace ?s1 @ es"
        and "list_all P es"
        unfolding framed_def by blast
      with Some Cons.prems show ?thesis by simp
    qed
  qed
qed

lemma framed_infer: "framed loop_event (infer ext dl)"
  unfolding infer_def
  by (intro framed_then_do framed_get_model framed_emit framed_iterate framed_infer_loop) simp_all

lemma framed_train: "framed loop_event (train ext e dl opt)"
  unfolding train_def
  by (intro framed_then_do framed_get_model framed_emit framed_iterate framed_train_loop framed_ret)
    simp_all

lemma framed_eval: "framed loop_event (eval ext e train_dl test_dl)"
  unfolding eval_def
  by (auto intro!: framed_then_do framed_infer framed_py_div framed_emit framed_if_state
        framed_logging_info framed_ret)

lemma epoch_loop_Cons:
  "epoch_loop ext train_dl test_dl (e # rest) opt =
     then_do (train ext e train_dl opt) (\<lambda>opt'.
     then_do (eval ext e train_dl test_dl) (\<lambda>_.
     epoch_loop ext train_dl test_dl rest opt'))"
  by (rule ext) (simp add: then_do_def split: prod.splits outcome.splits)

lemma framed_epoch_loop: "framed loop_event (epoch_loop ext train_dl test_dl es opt)"
proof (induction es arbitrary: opt)
  case Nil
  show ?case by (simp add: framed_def)
next
  case (Cons e es)
  show ?case
    unfolding epoch_loop_Cons
    by (intro framed_then_do framed_train framed_eval Cons.IH)
qed

lemma framed_train_and_eval: "framed loop_event (train_and_eval ext m train_dl test_dl)"
proof -
  have "framed loop_event
          (then_do (emit (OptimizerNew oc)) (\<lambda>_.
           then_do (emit (SchedulerNew sc)) (\<lambda>_.
           epoch_loop ext train_dl test_dl es opt)))" for oc sc es opt
    by (intro framed_then_do framed_emit framed_epoch_loop) simp_all
  then show ?thesis
    unfolding framed_def train_and_eval_def Let_def by blast
qed

lemma count_zip:
  "length (filter (\<lambda>(p, t). p = t)
     (zip (map (argmax ext) (map (forward ext m) (map fst b))) (map snd b))) =
   correct_count ext m b"
  unfolding correct_count_def by (induction b) auto

lemma infer_batch_eq:
  "infer_batch ext m (a, t, l) b =
     (a + real (correct_count ext m b), t + real (length b),
      l + batch_loss ext m b * real (length b))"
  by (simp add: infer_batch_def Let_def count_zip batch_loss_def del: map_map)

lemma correct_count_append:
  "correct_count ext m (xs @ ys) = correct_count ext m xs + correct_count ext m ys"
  by (simp add: correct_count_def)

lemma foldl_infer_batch:
  "foldl (infer_batch ext m) (a, t, l) bs =
     (a + real (correct_count ext m (concat bs)), t + real (length (concat bs)),
      l + (\<Sum>b\<leftarrow>bs. batch_loss ext m b * real (length b)))"
proof (induction bs arbitrary: a t l)
  case Nil
  show ?case by (simp add: correct_count_def)
next
  case (Cons b bs)
  show ?case
    by (simp add: infer_batch_eq Cons.IH correct_count_append)
qed

lemma infer_value_eq:
  "infer_value ext m bs =
     (real (correct_count ext m (concat bs)), real (length (concat bs)),
      (\<Sum>b\<leftarrow>bs. batch_loss ext m b * real (length b)))"
  by (simp add: infer_value_def foldl_infer_batch)

lemma correct_count_le: "correct_count ext m xs \<le> length xs"
  by (simp add: correct_count_def)

lemma total_loss_append:
  "total_loss ext m (xs @ ys) = total_loss ext m xs + total_loss ext m ys"
  by (simp add: total_loss_def)

lemma batch_loss_total:
  "b \<noteq> [] \<Longrightarrow> batch_loss ext m b * real (length b) = total_loss ext m b"
proof -
  have "map (\<lambda>(lp, t). sample_loss ext lp t) (zip (map (forward ext m) (map fst b)) (map snd b))
        = map (\<lambda>(x, t). sample_loss ext (forward ext m x) t) b"
    by (induction b) auto
  then show "b \<noteq> [] \<Longrightarrow> batch_loss ext m b * real (length b) = total_loss ext m b"
    by (simp add: batch_loss_def CrossEntropyLoss_def total_loss_def del: map_map)
qed

lemma sum_batch_loss:
  "\<forall>b\<in>set bs. b \<noteq> [] \<Longrightarrow>
   (\<Sum>b\<leftarrow>bs. batch_loss ext m b * real (length b)) = total_loss ext m (concat bs)"
  by (induction bs) (simp_all add: total_loss_append batch_loss_total, simp add: total_loss_def)

lemma new_events_append: "trace s' = trace s @ es \<Longrightarrow> new_events s s' = es"
  by (simp add: new_events_def)

lemma filter_no_forward: "filter is_wandb_log (map Forward xs) = []"
  by (induction xs) simp_all

lemma accuracy_bounds: "0 \<le> accuracy ext m xs \<and> accuracy ext m xs \<le> 1"
proof -
  have "real (correct_count ext m xs) \<le> real (length xs)"
    using correct_count_le [of ext m xs] by simp
  then show ?thesis
    by (cases "xs = []") (simp_all add: accuracy_def divide_le_eq_1)
qed

lemma no_marker_map:
  "list_all (\<lambda>x. \<not> is_marker x) (map TrainStep xs)"
  "list_all (\<lambda>x. \<not> is_marker x) (map Forward xs)"
  by (simp_all add: list_all_iff)

lemma no_marker_report: "list_all (\<lambda>x. \<not> is_marker x) (report_events e r1 r2 lvl)"
  by (cases r1; cases r2) (simp add: report_events_def)

lemma filter_none: "list_all (\<lambda>x. \<not> P x) xs \<Longrightarrow> filter P xs = []"
  by (induction xs) simp_all

lemma outside_inner:
  "list_all (\<lambda>x. \<not> is_marker x) body \<Longrightarrow> outside (Suc d) (body @ rest) = outside (Suc d) rest"
  by (induction body) (auto split: event.splits)

lemma outside_bracket:
  "list_all (\<lambda>x. \<not> is_marker x) body \<Longrightarrow>
   outside 0 (Enter c # body @ Leave c' # rest) = outside 0 rest"
  by (simp add: outside_inner)

lemma map_filter_append: "List.map_filter f (xs @ ys) = List.map_filter f xs @ List.map_filter f ys"
  by (simp add: List.map_filter_def)

lemma wandb_rounds_append: "wandb_rounds (xs @ ys) = wandb_rounds xs @ wandb_rounds ys"
  by (simp add: wandb_rounds_def map_filter_append)

lemma wandb_rounds_simps:
  "wandb_rounds [] = []"
  "wandb_rounds (x # xs) =
     (case wandb_round x of None \<Rightarrow> wandb_rounds xs | Some r \<Rightarrow> r # wandb_rounds xs)"
  unfolding wandb_rounds_def by (simp_all add: List.map_filter_simps)

lemma wandb_rounds_none: "list_all (\<lambda>x. \<not> is_wandb_log x) xs \<Longrightarrow> wandb_rounds xs = []"
proof (induction xs)
  case Nil
  show ?case by (simp add: wandb_rounds_simps)
next
  case (Cons x xs)
  then show ?case by (cases x) (simp_all add: wandb_rounds_simps)
qed

lemma train_events_facts:
  "filter is_marker (train_events e n) = [Enter (CTrain e), Leave (CTrain e)]"
  "outside 0 (train_events e n @ rest) = outside 0 rest"
  "wandb_rounds (train_events e n) = []"
proof -
  show "filter is_marker (train_events e n) = [Enter (CTrain e), Leave (CTrain e)]"
    by (simp add: train_events_def filter_none no_marker_map)
  have "list_all (\<lambda>x. \<not> is_marker x) (ModelTrain # map TrainStep [0 ..< n])"
    by (simp add: no_marker_map)
  from outside_bracket [OF this, of "CTrain e" "CTrain e" rest]
  show "outside 0 (train_events e n @ rest) = outside 0 rest"
    by (simp add: train_events_def)
  show "wandb_rounds (train_events e n) = []"
    by (rule wandb_rounds_none) (simp add: train_events_def list_all_iff)
qed

lemma eval_events_facts:
  "filter is_marker (eval_events ext e train_dl test_dl m s) = [Enter (CEval e), Leave (CEval e)]"
  "outside 0 (eval_events ext e train_dl test_dl m s @ rest) = outside 0 rest"
  "wandb_rounds (eval_events ext e train_dl test_dl m s) =
     (if global_rank (args s) = 0 then epoch_logs e else [])"
proof -
  let ?body = "ModelEval # map Forward [0 ..< length (batches ext train_dl (tick s))]
     @ ModelEval # map Forward [0 ..< length (batches ext test_dl (Suc (tick s)))]
     @ (if global_rank (args s) = 0
        then report_events e (infer_value ext m (batches ext train_dl (tick s)))
               (infer_value ext m (batches ext test_dl (Suc (tick s)))) (root_level s)
        else [])"
  have body: "list_all (\<lambda>x. \<not> is_marker x) ?body"
    by (simp add: no_marker_map no_marker_report)
  have shape: "eval_events ext e train_dl test_dl m s = Enter (CEval e) # ?body @ [Leave (CEval e)]"
    by (simp add: eval_events_def)
  show "filter is_marker (eval_events ext e train_dl test_dl m s) = [Enter (CEval e), Leave (CEval e)]"
    unfolding shape using filter_none [OF body] by simp
  from outside_bracket [OF body, of "CEval e" "CEval e" rest]
  show "outside 0 (eval_events ext e train_dl test_dl m s @ rest) = outside 0 rest"
    unfolding shape by simp
  have fw: "wandb_rounds (map Forward xs) = []" for xs
    by (rule wandb_rounds_none) (simp add: list_all_iff)
  have rep: "wandb_rounds (report_events e r1 r2 lvl) = epoch_logs e" for r1 r2 lvl
    by (cases r1; cases r2)
      (simp add: report_events_def wandb_rounds_simps wandb_rounds_append epoch_logs_def)
  show "wandb_rounds (eval_events ext e train_dl test_dl m s) =
     (if global_rank (args s) = 0 then epoch_logs e else [])"
    unfolding eval_events_def
    by (simp add: wandb_rounds_append wandb_rounds_simps fw rep)
qed

lemma train_result_events:
  assumes "g_model s = Some m"
  shows "train ext e dl opt s =
     (Returned (snd (run_steps ext (m, opt) (batches ext dl (tick s)))),
      s\<lparr>g_model := Some (fst (run_steps ext (m, opt) (batches ext dl (tick s)))),
        tick := Suc (tick s),
        trace := trace s @ train_events e (length (batches ext dl (tick s)))\<rparr>)"
  by (simp add: train_result [OF assms] train_events_def)

lemma feeds_infer_value:
  assumes "feeds ext train_dl test_dl"
  shows "fst (snd (infer_value ext m (batches ext train_dl k))) \<noteq> 0"
    and "fst (snd (infer_value ext m (batches ext test_dl k))) \<noteq> 0"
  using assms by (simp_all add: feeds_def infer_value_eq)

lemma epoch_loop_ok:
  assumes fd: "feeds ext train_dl test_dl"
  shows "g_model s = Some m \<Longrightarrow>
    \<exists>s' evs. epoch_loop ext train_dl test_dl es opt s = (Returned (), s')
      \<and> trace s' = trace s @ evs
      \<and> filter is_marker evs = concat (map epoch_markers es)
      \<and> outside 0 evs = []
      \<and> wandb_rounds evs = (if global_rank (args s) = 0 then concat (map epoch_logs es) else [])
      \<and> g_model s' = Some (fst (fit ext train_dl (tick s) (length es) (m, opt)))"
proof (induction es arbitrary: s m opt)
  case Nil
  then show ?case by (simp add: wandb_rounds_simps)
next
  case (Cons e es)
  define bs where "bs = batches ext train_dl (tick s)"
  define m1 where "m1 = fst (run_steps ext (m, opt) bs)"
  define opt1 where "opt1 = snd (run_steps ext (m, opt) bs)"
  define s1 where "s1 = s\<lparr>g_model := Some m1, tick := Suc (tick s),
                        trace := trace s @ train_events e (length bs)\<rparr>"
  define s2 where "s2 = s1\<lparr>tick := Suc (Suc (tick s1)),
                         root_handlers := (global_rank (args s1) = 0 \<or> root_handlers s1),
                         trace := trace s1 @ eval_events ext e train_dl test_dl m1 s1\<rparr>"
  have tr: "train ext e train_dl opt s = (Returned opt1, s1)"
    by (simp add: train_result_events [OF Cons.prems] s1_def m1_def opt1_def bs_def)
  have g1: "g_model s1 = Some m1" by (simp add: s1_def)
  have ev: "eval ext e train_dl test_dl s1 = (Returned (), s2)"
    unfolding s2_def
    by (rule eval_result [OF g1 feeds_infer_value(1) [OF fd] feeds_infer_value(2) [OF fd]])
  have g2: "g_model s2 = Some m1" by (simp add: s2_def s1_def)
  from Cons.IH [OF g2, of opt1] obtain s' evs where
    run: "epoch_loop ext train_dl test_dl es opt1 s2 = (Returned (), s')"
    and t: "trace s' = trace s2 @ evs"
    and mk: "filter is_marker evs = concat (map epoch_markers es)"
    and out: "outside 0 evs = []"
    and wl: "wandb_rounds evs = (if global_rank (args s2) = 0 then concat (map epoch_logs es) else [])"
    and gm: "g_model s' = Some (fst (fit ext train_dl (tick s2) (length es) (m1, opt1)))"
    by blast
  let ?tev = "train_events e (length bs)"
  let ?eev = "eval_events ext e train_dl test_dl m1 s1"
  have a: "args s2 = args s" "args s1 = args s" "tick s2 = tick s + 3"
    by (simp_all add: s2_def s1_def)
  have "epoch_loop ext train_dl test_dl (e # es) opt s = (Returned (), s')"
    by (simp add: tr ev run)
  moreover have "trace s' = trace s @ (?tev @ ?eev @ evs)"
    by (simp add: t s2_def s1_def)
  moreover have "filter is_marker (?tev @ ?eev @ evs) = concat (map epoch_markers (e # es))"
    by (simp add: train_events_facts(1) eval_events_facts(1) mk epoch_markers_def)
  moreover have "outside 0 (?tev @ ?eev @ evs) = []"
    by (simp only: train_events_facts(2) eval_events_facts(2) out)
  moreover have "wandb_rounds (?tev @ ?eev @ evs) =
      (if global_rank (args s) = 0 then concat (map epoch_logs (e # es)) else [])"
    by (simp add: wandb_rounds_append train_events_facts(3) eval_events_facts(3) wl a)
  moreover have "g_model s' = Some (fst (fit ext train_dl (tick s) (length (e # es)) (m, opt)))"
    using gm by (simp add: a m1_def opt1_def bs_def)
  ultimately show ?case by blast
qed

lemma filter_steps:
  "filter is_wandb (map TrainStep xs) = []"
  "filter is_wandb (map Forward xs) = []"
  "filter is_work (map TrainStep xs) = map TrainStep xs"
  "filter is_work (map Forward xs) = map Forward xs"
  by (simp_all add: filter_map comp_def)

lemma train_events_more:
  "filter is_wandb (train_events e n) = []"
  "filter is_work (train_events e n) = train_events e n"
  by (simp_all add: train_events_def filter_steps)

lemma report_events_no_work: "filter is_work (report_events e r1 r2 lvl) = []"
  by (cases r1; cases r2) (simp add: report_events_def)

lemma eval_events_more:
  "filter is_work (eval_events ext e train_dl test_dl m s) =
     Enter (CEval e)
     # ModelEval # map Forward [0 ..< length (batches ext train_dl (tick s))]
     @ ModelEval # map Forward [0 ..< length (batches ext test_dl (Suc (tick s)))]
     @ [Leave (CEval e)]"
  "global_rank (args s) \<noteq> 0 \<Longrightarrow> filter is_wandb (eval_events ext e train_dl test_dl m s) = []"
  by (simp_all add: eval_events_def filter_steps report_events_no_work)

lemma eval_stops:
  assumes g: "g_model s = Some m"
    and z: "fst (snd (infer_value ext m (batches ext train_dl (tick s)))) = 0
          \<or> fst (snd (infer_value ext m (batches ext test_dl (Suc (tick s))))) = 0"
  shows "eval ext e train_dl test_dl s =
     (Raised ZeroDivisionError,
      s\<lparr>tick := Suc (Suc (tick s)),
        trace := trace s @ Enter (CEval e)
          # ModelEval # map Forward [0 ..< length (batches ext train_dl (tick s))]
          @ ModelEval # map Forward [0 ..< length (batches ext test_dl (Suc (tick s)))]\<rparr>)"
proof -
  obtain c1 k1 l1 where r1: "infer_value ext m (batches ext train_dl (tick s)) = (c1, k1, l1)"
    by (cases "infer_value ext m (batches ext train_dl (tick s))")
  obtain c2 k2 l2 where r2: "infer_value ext m (batches ext test_dl (Suc (tick s))) = (c2, k2, l2)"
    by (cases "infer_value ext m (batches ext test_dl (Suc (tick s)))")
  from z r1 r2 have k: "k1 = 0 \<or> k2 = 0" by simp
  show ?thesis
  proof (cases "k1 = 0")
    case True
    then show ?thesis
      unfolding eval_def by (simp add: then_do_infer g r1 r2)
  next
    case False
    with k have "k2 = 0" by simp
    with False show ?thesis
      unfolding eval_def by (simp add: then_do_infer g r1 r2)
  qed
qed

lemma epoch_loop_runs:
  "g_model s = Some m \<Longrightarrow>
   \<exists>r s' evs. epoch_loop ext train_dl test_dl es opt s = (r, s')
     \<and> trace s' = trace s @ evs
     \<and> (global_rank (args s) \<noteq> 0 \<longrightarrow> filter is_wandb evs = [])
     \<and> (r = Returned () \<longrightarrow>
          filter is_marker evs = concat (map epoch_markers es)
        \<and> outside 0 evs = []
        \<and> wandb_rounds evs = (if global_rank (args s) = 0 then concat (map epoch_logs es) else [])
        \<and> filter is_work evs = epoch_work ext train_dl test_dl (tick s) es
        \<and> g_model s' = Some (fst (fit ext train_dl (tick s) (length es) (m, opt))))"
proof (induction es arbitrary: s m opt)
  case Nil
  then show ?case by (simp add: wandb_rounds_simps)
next
  case (Cons e es)
  define bs where "bs = batches ext train_dl (tick s)"
  define m1 where "m1 = fst (run_steps ext (m, opt) bs)"
  define opt1 where "opt1 = snd (run_steps ext (m, opt) bs)"
  define s1 where "s1 = s\<lparr>g_model := Some m1, tick := Suc (tick s),
                        trace := trace s @ train_events e (length bs)\<rparr>"
  have tr: "train ext e train_dl opt s = (Returned opt1, s1)"
    by (simp add: train_result_events [OF Cons.prems] s1_def m1_def opt1_def bs_def)
  have g1: "g_model s1 = Some m1" by (simp add: s1_def)
  have a1: "args s1 = args s" "tick s1 = Suc (tick s)" by (simp_all add: s1_def)
  let ?tev = "train_events e (length bs)"
  show ?case
  proof (cases "fst (snd (infer_value ext m1 (batches ext train_dl (tick s1)))) = 0
          \<or> fst (snd (infer_value ext m1 (batches ext test_dl (Suc (tick s1))))) = 0")
    case True
    let ?sev = "Enter (CEval e)
          # ModelEval # map Forward [0 ..< length (batches ext train_dl (tick s1))]
          @ ModelEval # map Forward [0 ..< length (batches ext test_dl (Suc (tick s1)))]"
    let ?s2 = "s1\<lparr>tick := Suc (Suc (tick s1)), trace := trace s1 @ ?sev\<rparr>"
    have ev: "eval ext e train_dl test_dl s1 = (Raised ZeroDivisionError, ?s2)"
      by (rule eval_stops [OF g1 True])
    have "epoch_loop ext train_dl test_dl (e # es) opt s = (Raised ZeroDivisionError, ?s2)"
      by (simp add: tr ev)
    moreover have "trace ?s2 = trace s @ (?tev @ ?sev)"
      by (simp add: s1_def)
    moreover have "filter is_wandb (?tev @ ?sev) = []"
      by (simp add: train_events_more filter_steps)
    ultimately show ?thesis by blast
  next
    case False
    then have nz: "fst (snd (infer_value ext m1 (batches ext train_dl (tick s1)))) \<noteq> 0"
      "fst (snd (infer_value ext m1 (batches ext test_dl (Suc (tick s1))))) \<noteq> 0"
      by simp_all
    define s2 where "s2 = s1\<lparr>tick := Suc (Suc (tick s1)),
                         root_handlers := (global_rank (args s1) = 0 \<or> root_handlers s1),
                         trace := trace s1 @ eval_events ext e train_dl test_dl m1 s1\<rparr>"
    have ev: "eval ext e train_dl test_dl s1 = (Returned (), s2)"
      unfolding s2_def by (rule eval_result [OF g1 nz])
    have g2: "g_model s2 = Some m1" by (simp add: s2_def s1_def)
    have a2: "args s2 = args s" "tick s2 = tick s + 3" by (simp_all add: s2_def s1_def)
    let ?eev = "eval_events ext e train_dl test_dl m1 s1"
    from Cons.IH [OF g2, of opt1] obtain r s' evs where
      run: "epoch_loop ext train_dl test_dl es opt1 s2 = (r, s')"
      and t: "trace s' = trace s2 @ evs"
      and q: "global_rank (args s2) \<noteq> 0 \<longrightarrow> filter is_wandb evs = []"
      and rt: "r = Returned () \<longrightarrow>
          filter is_marker evs = concat (map epoch_markers es)
        \<and> outside 0 evs = []
        \<and> wandb_rounds evs = (if global_rank (args s2) = 0 then concat (map epoch_logs es) else [])
        \<and> filter is_work evs = epoch_work ext train_dl test_dl (tick s2) es
        \<and> g_model s' = Some (fst (fit ext train_dl (tick s2) (length es) (m1, opt1)))"
      by blast
    have "epoch_loop ext train_dl test_dl (e # es) opt s = (r, s')"
      by (simp add: tr ev run)
    moreover have "trace s' = trace s @ (?tev @ ?eev @ evs)"
      by (simp add: t s2_def s1_def)
    moreover have "global_rank (args s) \<noteq> 0 \<longrightarrow> filter is_wandb (?tev @ ?eev @ evs) = []"
      using q by (simp add: a2 a1 train_events_more eval_events_more)
    moreover have "r = Returned () \<longrightarrow>
          filter is_marker (?tev @ ?eev @ evs) = concat (map epoch_markers (e # es))
        \<and> outside 0 (?tev @ ?eev @ evs) = []
        \<and> wandb_rounds (?tev @ ?eev @ evs) =
            (if global_rank (args s) = 0 then concat (map epoch_logs (e # es)) else [])
        \<and> filter is_work (?tev @ ?eev @ evs) = epoch_work ext train_dl test_dl (tick s) (e # es)
        \<and> g_model s' = Some (fst (fit ext train_dl (tick s) (length (e # es)) (m, opt)))"
    proof
      assume "r = Returned ()"
      with rt have mk: "filter is_marker evs = concat (map epoch_markers es)"
        and out: "outside 0 evs = []"
        and wl: "wandb_rounds evs = (if global_rank (args s) = 0 then concat (map epoch_logs es) else [])"
        and wk: "filter is_work evs = epoch_work ext train_dl test_dl (tick s + 3) es"
        and gm: "g_model s' = Some (fst (fit ext train_dl (tick s + 3) (length es) (m1, opt1)))"
        by (simp_all add: a2)
      have c1: "filter is_marker (?tev @ ?eev @ evs) = concat (map epoch_markers (e # es))"
        by (simp add: train_events_facts(1) eval_events_facts(1) mk epoch_markers_def)
      have c2: "outside 0 (?tev @ ?eev @ evs) = []"
        by (simp only: train_events_facts(2) eval_events_facts(2) out)
      have c3: "wandb_rounds (?tev @ ?eev @ evs) =
          (if global_rank (args s) = 0 then concat (map epoch_logs (e # es)) else [])"
        by (simp add: wandb_rounds_append train_events_facts(3) eval_events_facts(3) wl a1)
      have c4: "filter is_work (?tev @ ?eev @ evs) = epoch_work ext train_dl test_dl (tick s) (e # es)"
        by (simp add: train_events_more eval_events_more wk a1 train_events_def bs_def)
      have c5: "g_model s' = Some (fst (fit ext train_dl (tick s) (length (e # es)) (m, opt)))"
        using gm by (simp add: m1_def opt1_def bs_def)
      from c1 c2 c3 c4 c5 show "filter is_marker (?tev @ ?eev @ evs) = concat (map epoch_markers (e # es))
        \<and> outside 0 (?tev @ ?eev @ evs) = []
        \<and> wandb_rounds (?tev @ ?eev @ evs) =
            (if global_rank (args s) = 0 then concat (map epoch_logs (e # es)) else [])
        \<and> filter is_work (?tev @ ?eev @ evs) = epoch_work ext train_dl test_dl (tick s) (e # es)
        \<and> g_model s' = Some (fst (fit ext train_dl (tick s) (length (e # es)) (m, opt)))"
        by (intro conjI)
    qed
    ultimately show ?thesis by blast
  qed
qed

lemma load_cifar_result:
  "load_cifar_centralized_training_for_vit s =
     (if is_distributed (args s) \<noteq> 0 \<and> \<not> process_group s
      then (Raised RuntimeError, s\<lparr>trace := trace s @ data_head (args s)\<rparr>)
      else if batch_size (args s) \<le> 0
      then (Raised ValueError,
            s\<lparr>trace := trace s @ data_head (args s)
               @ [SamplerNew SequentialSampler, DataLoaderNew (train_loader (args s))]\<rparr>)
      else (Returned (train_loader (args s), test_loader (args s)),
            s\<lparr>trace := trace s @ data_events (args s)\<rparr>))"
  by (simp add: load_cifar_centralized_training_for_vit_def Let_def make_sampler_def
        DataLoader_def loader_of_def train_loader_def test_loader_def data_head_def
        data_events_def then_do_def ret_def raise_def emit_def)

lemma dataset_block_result:
  "dataset_block s =
     (if is_distributed (args s) \<noteq> 0 \<and> \<not> process_group s
      then (Raised RuntimeError, s\<lparr>trace := trace s @ data_head (args s)\<rparr>)
      else if batch_size (args s) \<le> 0
      then (Raised ValueError,
            s\<lparr>trace := trace s @ data_head (args s)
               @ [SamplerNew SequentialSampler, DataLoaderNew (train_loader (args s))]\<rparr>)
      else (Returned ((train_loader (args s), test_loader (args s)), class_num_of (args s)),
            s\<lparr>trace := trace s @ data_events (args s)\<rparr>))"
  by (simp add: dataset_block_def load_cifar_result class_num_of_def then_do_def ret_def)

lemma then_do_dataset_block:
  "then_do dataset_block f s =
     (if is_distributed (args s) \<noteq> 0 \<and> \<not> process_group s
      then (Raised RuntimeError, s\<lparr>trace := trace s @ data_head (args s)\<rparr>)
      else if batch_size (args s) \<le> 0
      then (Raised ValueError,
            s\<lparr>trace := trace s @ data_head (args s)
               @ [SamplerNew SequentialSampler, DataLoaderNew (train_loader (args s))]\<rparr>)
      else f ((train_loader (args s), test_loader (args s)), class_num_of (args s))
             (s\<lparr>trace := trace s @ data_events (args s)\<rparr>))"
  by (simp add: then_do_def dataset_block_result)

lemma model_block_result:
  "model_block ext cn lrank s =
     (if model (args s) = ''transformer''
      then (Returned (to_device ext (load_from ext (VisionTransformer ext (img_size (args s)) cn)
                        (pretrained_dir (args s))) lrank),
            s\<lparr>root_handlers := True,
              g_model := Some (to_device ext (load_from ext (VisionTransformer ext (img_size (args s)) cn)
                        (pretrained_dir (args s))) lrank),
              trace := trace s
                @ log_events (root_level s) (MsgCreateModel (model (args s)) cn)
                @ log_events (root_level s) MsgVitConfig
                @ [VisionTransformerNew (img_size (args s)) cn, LoadFrom (pretrained_dir (args s)),
                   CountParameters]
                @ log_events (root_level s) (MsgModelSize (count_parameters ext
                    (load_from ext (VisionTransformer ext (img_size (args s)) cn) (pretrained_dir (args s)))))
                @ [ToDevice lrank]\<rparr>)
      else (Raised AttributeError,
            s\<lparr>root_handlers := True,
              trace := trace s @ log_events (root_level s) (MsgCreateModel (model (args s)) cn)\<rparr>))"
  by (simp add: model_block_def create_model_def Let_def log_events_def then_do_def ret_def
        raise_def emit_def logging_info_def)

subsection \<open>Inference results and reported metrics\<close>

text \<open>
  Claim C9. With the global model bound, \<^verbatim>\<open>_infer\<close> returns the triple of the number of
  samples whose predicted class equals the label, the number of samples seen, and the sum over
  the batches of the batch-mean loss times the batch size; the first never exceeds the second.
  When both passes of \<^verbatim>\<open>eval\<close> see a sample and no batch is empty, \<^verbatim>\<open>eval\<close> returns and
  the values it reports on rank 0 are the fraction of correct samples, which lies between 0 and
  1, and the per-sample average of the loss, for the training and for the test loader.
\<close>

theorem infer_triple_and_reported_metrics:
  fixes ext :: "('w, 'o, 'x, 'lp) extern" and s :: "'w state" and train_dl test_dl :: loader
  defines "bs1 \<equiv> batches ext train_dl (tick s)"
    and "bs2 \<equiv> batches ext test_dl (Suc (tick s))"
  assumes bound: "g_model s = Some m"
  shows "fst (infer ext train_dl s) =
           Returned (real (correct_count ext m (concat bs1)), real (length (concat bs1)),
                     (\<Sum>b\<leftarrow>bs1. batch_loss ext m b * real (length b)))
         \<and> correct_count ext m (concat bs1) \<le> length (concat bs1)
         \<and> (concat bs1 \<noteq> [] \<and> concat bs2 \<noteq> [] \<and> (\<forall>b \<in> set bs1 \<union> set bs2. b \<noteq> []) \<longrightarrow>
              fst (eval ext e train_dl test_dl s) = Returned () \<and>
              filter is_wandb_log (new_events s (snd (eval ext e train_dl test_dl s))) =
                (if global_rank (args s) = 0
                 then [WandbLog ''Train/Acc'' (accuracy ext m (concat bs1)) e,
                       WandbLog ''Train/Loss'' (mean_loss ext m (concat bs1)) e,
                       WandbLog ''Test/Acc'' (accuracy ext m (concat bs2)) e,
                       WandbLog ''Test/Loss'' (mean_loss ext m (concat bs2)) e]
                 else []) \<and>
              0 \<le> accuracy ext m (concat bs1) \<and> accuracy ext m (concat bs1) \<le> 1 \<and>
              0 \<le> accuracy ext m (concat bs2) \<and> accuracy ext m (concat bs2) \<le> 1)"
proof -
  have triple: "fst (infer ext train_dl s) =
      Returned (real (correct_count ext m (concat bs1)), real (length (concat bs1)),
                (\<Sum>b\<leftarrow>bs1. batch_loss ext m b * real (length b)))"
    by (simp add: infer_result [OF bound] infer_value_eq bs1_def)
  have reported: "fst (eval ext e train_dl test_dl s) = Returned () \<and>
      filter is_wandb_log (new_events s (snd (eval ext e train_dl test_dl s))) =
        (if global_rank (args s) = 0
         then [WandbLog ''Train/Acc'' (accuracy ext m (concat bs1)) e,
               WandbLog ''Train/Loss'' (mean_loss ext m (concat bs1)) e,
               WandbLog ''Test/Acc'' (accuracy ext m (concat bs2)) e,
               WandbLog ''Test/Loss'' (mean_loss ext m (concat bs2)) e]
         else [])"
    if ne: "concat bs1 \<noteq> []" "concat bs2 \<noteq> []" and all: "\<forall>b \<in> set bs1 \<union> set bs2. b \<noteq> []"
  proof -
    from all have l1: "(\<Sum>b\<leftarrow>bs1. batch_loss ext m b * real (length b)) = total_loss ext m (concat bs1)"
      and l2: "(\<Sum>b\<leftarrow>bs2. batch_loss ext m b * real (length b)) = total_loss ext m (concat bs2)"
      by (simp_all add: sum_batch_loss)
    have n1: "fst (snd (infer_value ext m (batches ext train_dl (tick s)))) \<noteq> 0"
      and n2: "fst (snd (infer_value ext m (batches ext test_dl (Suc (tick s))))) \<noteq> 0"
      using ne by (simp_all add: infer_value_eq bs1_def bs2_def)
    have v1: "infer_value ext m (batches ext train_dl (tick s)) =
          (real (correct_count ext m (concat bs1)), real (length (concat bs1)), total_loss ext m (concat bs1))"
      and v2: "infer_value ext m (batches ext test_dl (Suc (tick s))) =
          (real (correct_count ext m (concat bs2)), real (length (concat bs2)), total_loss ext m (concat bs2))"
      using l1 l2 by (simp_all add: infer_value_eq bs1_def bs2_def)
    have tr: "new_events s (snd (eval ext e train_dl test_dl s)) = eval_events ext e train_dl test_dl m s"
      by (rule new_events_append) (simp add: eval_result [OF bound n1 n2])
    have logs: "filter is_wandb_log (eval_events ext e train_dl test_dl m s) =
        (if global_rank (args s) = 0
         then [WandbLog ''Train/Acc'' (accuracy ext m (concat bs1)) e,
               WandbLog ''Train/Loss'' (mean_loss ext m (concat bs1)) e,
               WandbLog ''Test/Acc'' (accuracy ext m (concat bs2)) e,
               WandbLog ''Test/Loss'' (mean_loss ext m (concat bs2)) e]
         else [])"
      by (simp add: eval_events_def v1 v2 report_events_def filter_no_forward accuracy_def
            mean_loss_def)
    have "fst (eval ext e train_dl test_dl s) = Returned ()"
      by (simp add: eval_result [OF bound n1 n2])
    with logs tr show ?thesis by simp
  qed
  from triple reported show ?thesis
    using correct_count_le [of ext m "concat bs1"] accuracy_bounds [of ext m "concat bs1"]
      accuracy_bounds [of ext m "concat bs2"]
    by blast
qed


lemma toy_batches:
  "batches toy (train_loader a) k = [[(0, 0), (1, 0)], [(2, 0)]]"
  "batches toy (test_loader a) k = [[(3, 1)]]"
  by (simp_all add: toy_def train_loader_def test_loader_def)

lemma toy_fields:
  "forward toy = (\<lambda>w x. nat (x + w) mod 2)" "argmax toy = (\<lambda>lp. lp)"
  "sample_loss toy = (\<lambda>lp t. if lp = t then 0 else 1)"
  by (simp_all add: toy_def)

theorem infer_triple_and_reported_metrics_witness:
  "g_model toy_state = Some 100 \<and>
   fst (infer toy (train_loader one_epoch) toy_state) = Returned (2, 3, 1) \<and>
   fst (eval toy 0 (train_loader one_epoch) (test_loader one_epoch) toy_state) = Returned () \<and>
   filter is_wandb_log
     (new_events toy_state (snd (eval toy 0 (train_loader one_epoch) (test_loader one_epoch) toy_state))) =
     [WandbLog ''Train/Acc'' (2 / 3) 0, WandbLog ''Train/Loss'' (1 / 3) 0,
      WandbLog ''Test/Acc'' 1 0, WandbLog ''Test/Loss'' 0 0]"
proof -
  have st: "g_model toy_state = Some 100" "tick toy_state = 0" "global_rank (args toy_state) = 0"
    by (simp_all add: toy_state_def parsed_def one_epoch_def default_args_def)
  have vals:
    "correct_count toy 100 [(0, 0), (1, 0), (2, 0)] = 2"
    "correct_count toy 100 [(3, Suc 0)] = Suc 0"
    "batch_loss toy 100 [(0, 0), (1, 0)] = 1 / 2"
    "batch_loss toy 100 [(2, 0)] = 0"
    "total_loss toy 100 [(0, 0), (1, 0), (2, 0)] = 1"
    "total_loss toy 100 [(3, Suc 0)] = 0"
    by (simp_all add: correct_count_def batch_loss_def CrossEntropyLoss_def total_loss_def toy_fields)
  from infer_triple_and_reported_metrics [OF st(1), of toy "train_loader one_epoch"
      "test_loader one_epoch" 0] st
  show ?thesis
    by (simp add: toy_batches vals accuracy_def mean_loss_def)
qed

lemma update_order:
  fixes s :: "'w state"
  shows
    "s\<lparr>environ := env, args := a\<rparr> = s\<lparr>args := a, environ := env\<rparr>"
    "s\<lparr>root_level := lvl, args := a\<rparr> = s\<lparr>args := a, root_level := lvl\<rparr>"
    "s\<lparr>root_handlers := h, args := a\<rparr> = s\<lparr>args := a, root_handlers := h\<rparr>"
    "s\<lparr>g_model := g, args := a\<rparr> = s\<lparr>args := a, g_model := g\<rparr>"
    "s\<lparr>tick := k, args := a\<rparr> = s\<lparr>args := a, tick := k\<rparr>"
    "s\<lparr>trace := t, args := a\<rparr> = s\<lparr>args := a, trace := t\<rparr>"
    "s\<lparr>root_level := lvl, environ := env\<rparr> = s\<lparr>environ := env, root_level := lvl\<rparr>"
    "s\<lparr>root_handlers := h, environ := env\<rparr> = s\<lparr>environ := env, root_handlers := h\<rparr>"
    "s\<lparr>g_model := g, environ := env\<rparr> = s\<lparr>environ := env, g_model := g\<rparr>"
    "s\<lparr>tick := k, environ := env\<rparr> = s\<lparr>environ := env, tick := k\<rparr>"
    "s\<lparr>trace := t, environ := env\<rparr> = s\<lparr>environ := env, trace := t\<rparr>"
    "s\<lparr>root_handlers := h, root_level := lvl\<rparr> = s\<lparr>root_level := lvl, root_handlers := h\<rparr>"
    "s\<lparr>g_model := g, root_level := lvl\<rparr> = s\<lparr>root_level := lvl, g_model := g\<rparr>"
    "s\<lparr>tick := k, root_level := lvl\<rparr> = s\<lparr>root_level := lvl, tick := k\<rparr>"
    "s\<lparr>trace := t, root_level := lvl\<rparr> = s\<lparr>root_level := lvl, trace := t\<rparr>"
    "s\<lparr>g_model := g, root_handlers := h\<rparr> = s\<lparr>root_handlers := h, g_model := g\<rparr>"
    "s\<lparr>tick := k, root_handlers := h\<rparr> = s\<lparr>root_handlers := h, tick := k\<rparr>"
    "s\<lparr>trace := t, root_handlers := h\<rparr> = s\<lparr>root_handlers := h, trace := t\<rparr>"
    "s\<lparr>tick := k, g_model := g\<rparr> = s\<lparr>g_model := g, tick := k\<rparr>"
    "s\<lparr>trace := t, g_model := g\<rparr> = s\<lparr>g_model := g, trace := t\<rparr>"
    "s\<lparr>trace := t, tick := k\<rparr> = s\<lparr>tick := k, trace := t\<rparr>"
    "s\<lparr>process_group := p, args := a\<rparr> = s\<lparr>args := a, process_group := p\<rparr>"
    "s\<lparr>process_group := p, environ := env\<rparr> = s\<lparr>environ := env, process_group := p\<rparr>"
    "s\<lparr>process_group := p, root_level := lvl\<rparr> = s\<lparr>root_level := lvl, process_group := p\<rparr>"
    "s\<lparr>process_group := p, root_handlers := h\<rparr> = s\<lparr>root_handlers := h, process_group := p\<rparr>"
    "s\<lparr>process_group := p, g_model := g\<rparr> = s\<lparr>g_model := g, process_group := p\<rparr>"
    "s\<lparr>tick := k, process_group := p\<rparr> = s\<lparr>process_group := p, tick := k\<rparr>"
    "s\<lparr>trace := t, process_group := p\<rparr> = s\<lparr>process_group := p, trace := t\<rparr>"
  by simp_all

lemma then_do_assoc: "then_do (then_do m f) g = then_do m (\<lambda>x. then_do (f x) g)"
  by (rule ext) (simp add: then_do_def split: prod.splits outcome.splits)

lemma then_do_emit_state:
  "then_do (\<lambda>s. emit (g s) s) f s = f () (s\<lparr>trace := trace s @ [g s]\<rparr>)"
  by (simp add: then_do_def emit_def)

lemma then_do_model_block:
  "then_do (model_block ext cn lrank) f s =
     (if model (args s) = ''transformer''
      then f (to_device ext (load_from ext (VisionTransformer ext (img_size (args s)) cn)
                        (pretrained_dir (args s))) lrank)
            (s\<lparr>root_handlers := True,
              g_model := Some (to_device ext (load_from ext (VisionTransformer ext (img_size (args s)) cn)
                        (pretrained_dir (args s))) lrank),
              trace := trace s
                @ log_events (root_level s) (MsgCreateModel (model (args s)) cn)
                @ log_events (root_level s) MsgVitConfig
                @ [VisionTransformerNew (img_size (args s)) cn, LoadFrom (pretrained_dir (args s)),
                   CountParameters]
                @ log_events (root_level s) (MsgModelSize (count_parameters ext
                    (load_from ext (VisionTransformer ext (img_size (args s)) cn) (pretrained_dir (args s)))))
                @ [ToDevice lrank]\<rparr>)
      else (Raised AttributeError,
            s\<lparr>root_handlers := True,
              trace := trace s @ log_events (root_level s) (MsgCreateModel (model (args s)) cn)\<rparr>))"
  by (simp add: then_do_def model_block_result)

lemma after_ddp_unfold:
  "after_ddp ext lrank grank s =
     (if lrank < 0 then (Raised RuntimeError, s)
      else if is_distributed (args s) \<noteq> 0 \<and> \<not> process_group s
      then (Raised RuntimeError,
            s\<lparr>trace := trace s @ wandb_events (args s) grank @ data_head (args s)\<rparr>)
      else if batch_size (args s) \<le> 0
      then (Raised ValueError,
            s\<lparr>trace := trace s @ wandb_events (args s) grank @ data_head (args s)
               @ [SamplerNew SequentialSampler, DataLoaderNew (train_loader (args s))]\<rparr>)
      else if model (args s) = ''transformer''
      then then_do (train_and_eval ext (built_model ext (args s) lrank)
                      (train_loader (args s)) (test_loader (args s)))
             (\<lambda>_ s. if is_distributed (args s) = 1 then destroy_process_group s else ret () s)
             (loop_start ext lrank grank s)
      else (Raised AttributeError,
            s\<lparr>root_handlers := True,
              trace := trace s @ setup_events ext (args s) (root_level s) lrank grank\<rparr>))"
  unfolding after_ddp_def
  by (simp add: torch_device_def then_do_if_state then_do_emit_state then_do_dataset_block
        then_do_model_block then_do_assoc update_order get_ddp_model_def loop_start_def
        setup_events_def wandb_events_def model_events_def built_model_def)

lemma train_and_eval_unfold:
  "train_and_eval ext m train_dl test_dl s =
     epoch_loop ext train_dl test_dl (range_py (epochs (args s)))
       (make_optimizer ext (optimizer_of (args s)) (scheduler_of (args s)) m)
       (s\<lparr>trace := trace s @ [OptimizerNew (optimizer_of (args s)), SchedulerNew (scheduler_of (args s))]\<rparr>)"
  by (simp add: train_and_eval_def Let_def)

lemma train_and_eval_ok:
  assumes bound: "g_model s = Some m"
    and fd: "0 < epochs (args s) \<longrightarrow> feeds ext train_dl test_dl"
  shows "\<exists>s' evs. train_and_eval ext m0 train_dl test_dl s = (Returned (), s')
      \<and> trace s' = trace s @ OptimizerNew (optimizer_of (args s)) # SchedulerNew (scheduler_of (args s)) # evs
      \<and> filter is_marker evs = concat (map epoch_markers (range_py (epochs (args s))))
      \<and> outside 0 evs = []
      \<and> wandb_rounds evs =
          (if global_rank (args s) = 0 then concat (map epoch_logs (range_py (epochs (args s)))) else [])
      \<and> g_model s' = Some (fst (fit ext train_dl (tick s) (nat (epochs (args s)))
            (m, make_optimizer ext (optimizer_of (args s)) (scheduler_of (args s)) m0)))"
proof -
  let ?s0 = "s\<lparr>trace := trace s @ [OptimizerNew (optimizer_of (args s)), SchedulerNew (scheduler_of (args s))]\<rparr>"
  let ?opt = "make_optimizer ext (optimizer_of (args s)) (scheduler_of (args s)) m0"
  have g0: "g_model ?s0 = Some m" using bound by simp
  show ?thesis
  proof (cases "0 < epochs (args s)")
    case True
    with fd have "feeds ext train_dl test_dl" by simp
    from epoch_loop_ok [OF this g0, of "range_py (epochs (args s))" ?opt]
    show ?thesis
      by (simp add: train_and_eval_unfold range_py_def)
  next
    case False
    then have "range_py (epochs (args s)) = []" by (simp add: range_py_def)
    with False bound show ?thesis
      by (simp add: train_and_eval_unfold wandb_rounds_simps)
  qed
qed

lemma train_and_eval_runs:
  assumes bound: "g_model s = Some m"
  shows "\<exists>r s' evs. train_and_eval ext m0 train_dl test_dl s = (r, s')
      \<and> trace s' = trace s @ OptimizerNew (optimizer_of (args s)) # SchedulerNew (scheduler_of (args s)) # evs
      \<and> (epochs (args s) \<le> 0 \<longrightarrow> evs = [])
      \<and> (global_rank (args s) \<noteq> 0 \<longrightarrow> filter is_wandb evs = [])
      \<and> (r = Returned () \<longrightarrow>
           filter is_marker evs = concat (map epoch_markers (range_py (epochs (args s))))
         \<and> outside 0 evs = []
         \<and> wandb_rounds evs =
             (if global_rank (args s) = 0 then concat (map epoch_logs (range_py (epochs (args s)))) else [])
         \<and> filter is_work evs = epoch_work ext train_dl test_dl (tick s) (range_py (epochs (args s)))
         \<and> g_model s' = Some (fst (fit ext train_dl (tick s) (nat (epochs (args s)))
               (m, make_optimizer ext (optimizer_of (args s)) (scheduler_of (args s)) m0))))"
proof -
  let ?s0 = "s\<lparr>trace := trace s @ [OptimizerNew (optimizer_of (args s)), SchedulerNew (scheduler_of (args s))]\<rparr>"
  let ?opt = "make_optimizer ext (optimizer_of (args s)) (scheduler_of (args s)) m0"
  have g0: "g_model ?s0 = Some m" using bound by simp
  from epoch_loop_runs [OF g0, of ext train_dl test_dl "range_py (epochs (args s))" ?opt]
  obtain r s' evs where
    run: "epoch_loop ext train_dl test_dl (range_py (epochs (args s))) ?opt ?s0 = (r, s')"
    and t: "trace s' = trace ?s0 @ evs"
    and q: "global_rank (args s) \<noteq> 0 \<longrightarrow> filter is_wandb evs = []"
    and rt: "r = Returned () \<longrightarrow>
          filter is_marker evs = concat (map epoch_markers (range_py (epochs (args s))))
        \<and> outside 0 evs = []
        \<and> wandb_rounds evs =
            (if global_rank (args s) = 0 then concat (map epoch_logs (range_py (epochs (args s)))) else [])
        \<and> filter is_work evs = epoch_work ext train_dl test_dl (tick s) (range_py (epochs (args s)))
        \<and> g_model s' = Some (fst (fit ext train_dl (tick s) (length (range_py (epochs (args s)))) (m, ?opt)))"
    by auto
  have e0: "epochs (args s) \<le> 0 \<longrightarrow> evs = []"
  proof
    assume "epochs (args s) \<le> 0"
    then have "range_py (epochs (args s)) = []" by (simp add: range_py_def)
    with run have "s' = ?s0" by simp
    with t show "evs = []" by simp
  qed
  have "train_and_eval ext m0 train_dl test_dl s = (r, s')"
    by (simp only: train_and_eval_unfold run)
  moreover have "trace s' = trace s @ OptimizerNew (optimizer_of (args s)) # SchedulerNew (scheduler_of (args s)) # evs"
    using t by simp
  moreover have "r = Returned () \<longrightarrow>
           filter is_marker evs = concat (map epoch_markers (range_py (epochs (args s))))
         \<and> outside 0 evs = []
         \<and> wandb_rounds evs =
             (if global_rank (args s) = 0 then concat (map epoch_logs (range_py (epochs (args s)))) else [])
         \<and> filter is_work evs = epoch_work ext train_dl test_dl (tick s) (range_py (epochs (args s)))
         \<and> g_model s' = Some (fst (fit ext train_dl (tick s) (nat (epochs (args s)))
               (m, make_optimizer ext (optimizer_of (args s)) (scheduler_of (args s)) m0)))"
    using rt by (simp add: range_py_def)
  ultimately show ?thesis using e0 q by blast
qed

subsection \<open>The epoch loop\<close>


lemma toy_feeds: "feeds toy (train_loader a) (test_loader a)"
  by (simp add: feeds_def toy_batches)


lemma framedD:
  assumes "framed P m" and "m s = (r, s')"
  shows "args s' = args s" and "\<exists>es. trace s' = trace s @ es \<and> list_all P es"
  using assms unfolding framed_def by (metis snd_conv)+

lemma loop_start_fields:
  "args (loop_start ext lrank grank s) = args s"
  "tick (loop_start ext lrank grank s) = tick s"
  "g_model (loop_start ext lrank grank s) = Some (built_model ext (args s) lrank)"
  "trace (loop_start ext lrank grank s) = trace s @ setup_events ext (args s) (root_level s) lrank grank"
  by (simp_all add: loop_start_def)

lemma after_ddp_ok:
  assumes dv: "0 \<le> lrank"
    and pg: "is_distributed (args s) = 0 \<or> process_group s"
    and bt: "0 < batch_size (args s)"
    and tm: "model (args s) = ''transformer''"
    and fd: "0 < epochs (args s) \<longrightarrow> feeds ext (train_loader (args s)) (test_loader (args s))"
  shows "\<exists>s' evs. after_ddp ext lrank grank s = (Returned (), s')
      \<and> args s' = args s
      \<and> trace s' = trace s @ setup_events ext (args s) (root_level s) lrank grank
            @ OptimizerNew (optimizer_of (args s)) # SchedulerNew (scheduler_of (args s)) # evs
            @ (if is_distributed (args s) = 1 then [DestroyProcessGroup] else [])
      \<and> list_all loop_event evs
      \<and> filter is_marker evs = concat (map epoch_markers (range_py (epochs (args s))))
      \<and> wandb_rounds evs =
          (if global_rank (args s) = 0 then concat (map epoch_logs (range_py (epochs (args s)))) else [])
      \<and> g_model s' = Some (fst (fit ext (train_loader (args s)) (tick s) (nat (epochs (args s)))
            (built_model ext (args s) lrank,
             make_optimizer ext (optimizer_of (args s)) (scheduler_of (args s))
               (built_model ext (args s) lrank))))"
proof -
  let ?S = "loop_start ext lrank grank s"
  let ?M = "built_model ext (args s) lrank"
  have g: "g_model ?S = Some ?M" by (simp add: loop_start_fields)
  have fd': "0 < epochs (args ?S) \<longrightarrow> feeds ext (train_loader (args s)) (test_loader (args s))"
    using fd by (simp add: loop_start_fields)
  from train_and_eval_ok [OF g fd', of ?M] obtain s1 evs where
    run: "train_and_eval ext ?M (train_loader (args s)) (test_loader (args s)) ?S = (Returned (), s1)"
    and t: "trace s1 = trace ?S @ OptimizerNew (optimizer_of (args s)) # SchedulerNew (scheduler_of (args s)) # evs"
    and mk: "filter is_marker evs = concat (map epoch_markers (range_py (epochs (args s))))"
    and wl: "wandb_rounds evs =
          (if global_rank (args s) = 0 then concat (map epoch_logs (range_py (epochs (args s)))) else [])"
    and gm: "g_model s1 = Some (fst (fit ext (train_loader (args s)) (tick s) (nat (epochs (args s)))
            (?M, make_optimizer ext (optimizer_of (args s)) (scheduler_of (args s)) ?M)))"
    by (auto simp: loop_start_fields)
  from framedD [OF framed_train_and_eval run] obtain es where
    a1: "args s1 = args s" and t1: "trace s1 = trace ?S @ es" and p1: "list_all loop_event es"
    by (auto simp: loop_start_fields)
  from t t1 p1 have p: "list_all loop_event evs" by simp
  let ?s' = "if is_distributed (args s) = 1
             then s1\<lparr>process_group := False, trace := trace s1 @ [DestroyProcessGroup]\<rparr> else s1"
  have c: "\<not> lrank < 0" "\<not> (is_distributed (args s) \<noteq> 0 \<and> \<not> process_group s)"
    "\<not> batch_size (args s) \<le> 0"
    using dv pg bt by auto
  have "after_ddp ext lrank grank s = (Returned (), ?s')"
    using tm run a1
    by (simp add: after_ddp_unfold c then_do_def destroy_process_group_def emit_def ret_def)
  moreover have "args ?s' = args s" using a1 by simp
  moreover have "trace ?s' = trace s @ setup_events ext (args s) (root_level s) lrank grank
            @ OptimizerNew (optimizer_of (args s)) # SchedulerNew (scheduler_of (args s)) # evs
            @ (if is_distributed (args s) = 1 then [DestroyProcessGroup] else [])"
    using t by (simp add: loop_start_fields)
  moreover have "g_model ?s' = g_model s1" by simp
  ultimately show ?thesis using p mk wl gm by metis
qed

lemma main_unfold:
  "main ext a env lvl hnd =
     then_do (ddp_block ext) (\<lambda>(lrank, grank). after_ddp ext lrank grank) (started a env lvl hnd)"
  by (simp add: main_def main_body_def parsed_def started_def then_do_emit_state
        logging_basicConfig_def then_do_def [of "logging_basicConfig INFO"] prelude_events_def
        log_events_def eff_level_def)

lemma init_ddp_ok:
  assumes "env_int ext (environ s) ''RANK'' = Some r"
    and "env_int ext (environ s) ''WORLD_SIZE'' = Some w"
  shows "init_ddp ext s =
     (Returned (local_rank (args s), r),
      s\<lparr>environ := (environ s)(''NCCL_DEBUG'' \<mapsto> ''INFO'', ''NCCL_SOCKET_IFNAME'' \<mapsto> ''ib0''),
        process_group := True,
        trace := trace s @ ddp_events (args s) r w\<rparr>)"
  using assms
  by (auto simp: init_ddp_def setenv_def getenv_int_def env_int_def then_do_def emit_def ret_def
        init_process_group_def ddp_events_def split: option.splits)

lemma ddp_block_single:
  "is_distributed (args s) \<noteq> 1 \<Longrightarrow> ddp_block ext s = (Returned (local_rank (args s), 0), s)"
  by (simp add: ddp_block_def ret_def)

lemma ddp_block_ok:
  assumes "is_distributed (args s) = 1"
    and "env_int ext (environ s) ''RANK'' = Some r"
    and "env_int ext (environ s) ''WORLD_SIZE'' = Some w"
  shows "ddp_block ext s =
     (Returned (local_rank (args s), r),
      s\<lparr>args := (args s)\<lparr>global_rank := r\<rparr>,
        environ := (environ s)(''NCCL_DEBUG'' \<mapsto> ''INFO'', ''NCCL_SOCKET_IFNAME'' \<mapsto> ''ib0''),
        process_group := True,
        trace := trace s @ ddp_events (args s) r w\<rparr>)"
  using assms(1) by (simp add: ddp_block_def then_do_def init_ddp_ok [OF assms(2,3)])

lemma rank_independent:
  "train_loader (a\<lparr>global_rank := r\<rparr>) = train_loader a"
  "test_loader (a\<lparr>global_rank := r\<rparr>) = test_loader a"
  "optimizer_of (a\<lparr>global_rank := r\<rparr>) = optimizer_of a"
  "scheduler_of (a\<lparr>global_rank := r\<rparr>) = scheduler_of a"
  "built_model ext (a\<lparr>global_rank := r\<rparr>) lrank = built_model ext a lrank"
  "data_head (a\<lparr>global_rank := r\<rparr>) = data_head a"
  "data_events (a\<lparr>global_rank := r\<rparr>) = data_events a"
  "model_events ext (a\<lparr>global_rank := r\<rparr>) lvl lrank = model_events ext a lvl lrank"
  "epochs (a\<lparr>global_rank := r\<rparr>) = epochs a"
  "global_rank (a\<lparr>global_rank := r\<rparr>) = r"
  by (simp_all add: train_loader_def test_loader_def optimizer_of_def scheduler_of_def
        built_model_def data_head_def data_events_def model_events_def dataset_class_def
        class_num_of_def)

lemma started_fields:
  "args (started a env lvl hnd) = a"
  "environ (started a env lvl hnd) = env"
  "root_level (started a env lvl hnd) = eff_level lvl hnd"
  "process_group (started a env lvl hnd) = False"
  "tick (started a env lvl hnd) = 0"
  "trace (started a env lvl hnd) = prelude_events a lvl hnd"
  by (simp_all add: started_def)

lemma main_ok:
  assumes ok: "can_run ext a env"
  shows "\<exists>s' evs. main ext a env lvl hnd = (Returned (), s')
      \<and> args s' = run_args ext a env
      \<and> trace s' = prelude_events a lvl hnd @ init_events ext a env
            @ setup_events ext (run_args ext a env) (eff_level lvl hnd) (local_rank a) (run_rank ext a env)
            @ OptimizerNew (optimizer_of a) # SchedulerNew (scheduler_of a) # evs
            @ (if is_distributed a = 1 then [DestroyProcessGroup] else [])
      \<and> list_all loop_event evs
      \<and> filter is_marker evs = concat (map epoch_markers (range_py (epochs a)))
      \<and> wandb_rounds evs =
          (if global_rank (run_args ext a env) = 0
           then concat (map epoch_logs (range_py (epochs a))) else [])
      \<and> g_model s' = Some (fst (fit ext (train_loader a) 0 (nat (epochs a))
            (built_model ext a (local_rank a),
             make_optimizer ext (optimizer_of a) (scheduler_of a) (built_model ext a (local_rank a)))))"
proof (cases "is_distributed a = 1")
  case False
  let ?s = "started a env lvl hnd :: 'a state"
  from ok have tm: "model (args ?s) = ''transformer''"
    and fd: "0 < epochs (args ?s) \<longrightarrow> feeds ext (train_loader (args ?s)) (test_loader (args ?s))"
    and dv: "0 \<le> local_rank a"
    and bt: "0 < batch_size (args ?s)"
    by (simp_all add: can_run_def started_fields)
  from ok False have pg: "is_distributed (args ?s) = 0 \<or> process_group ?s"
    by (simp add: can_run_def started_fields)
  have m: "main ext a env lvl hnd = after_ddp ext (local_rank a) 0 ?s"
    using False by (simp add: main_unfold then_do_def ddp_block_single started_fields)
  have ra: "run_args ext a env = a" "run_rank ext a env = 0" "init_events ext a env = []"
    using False by (simp_all add: run_args_def run_rank_def init_events_def)
  from after_ddp_ok [OF dv pg bt tm fd, of 0, unfolded started_fields] False show ?thesis
    unfolding m ra by simp
next
  case True
  with ok obtain r w where r: "env_int ext env ''RANK'' = Some r"
    and w: "env_int ext env ''WORLD_SIZE'' = Some w"
    by (auto simp: can_run_def)
  let ?s = "started a env lvl hnd :: 'a state"
  let ?s1 = "?s\<lparr>args := a\<lparr>global_rank := r\<rparr>,
        environ := env(''NCCL_DEBUG'' \<mapsto> ''INFO'', ''NCCL_SOCKET_IFNAME'' \<mapsto> ''ib0''),
        process_group := True,
        trace := prelude_events a lvl hnd @ ddp_events a r w\<rparr>"
  have blk: "ddp_block ext ?s = (Returned (local_rank a, r), ?s1)"
    using ddp_block_ok [of ?s ext r w] True r w by (simp add: started_fields)
  have m: "main ext a env lvl hnd = after_ddp ext (local_rank a) r ?s1"
    by (simp add: main_unfold then_do_def blk)
  from ok have tm: "model (args ?s1) = ''transformer''"
    and fd: "0 < epochs (args ?s1) \<longrightarrow> feeds ext (train_loader (args ?s1)) (test_loader (args ?s1))"
    and dv: "0 \<le> local_rank a"
    and bt: "0 < batch_size (args ?s1)"
    by (simp_all add: can_run_def rank_independent)
  have pg: "is_distributed (args ?s1) = 0 \<or> process_group ?s1" by simp
  have ra: "run_args ext a env = a\<lparr>global_rank := r\<rparr>" "run_rank ext a env = r"
    "init_events ext a env = ddp_events a r w"
    using True r w by (simp_all add: run_args_def run_rank_def init_events_def)
  have f1: "args ?s1 = a\<lparr>global_rank := r\<rparr>" "root_level ?s1 = eff_level lvl hnd" "tick ?s1 = 0"
    "trace ?s1 = prelude_events a lvl hnd @ ddp_events a r w"
    by (simp_all add: started_fields)
  from after_ddp_ok [OF dv pg bt tm fd, of r, unfolded f1 rank_independent] True show ?thesis
    unfolding m ra by simp
qed

lemma init_ddp_args: "args (snd (init_ddp ext s)) = args s"
  by (simp add: init_ddp_def setenv_def getenv_int_def then_do_def emit_def ret_def
        init_process_group_def split: option.splits)

lemma init_ddp_raises:
  assumes "env_int ext (environ s) ''RANK'' = None \<or> env_int ext (environ s) ''WORLD_SIZE'' = None"
  shows "\<exists>e. fst (init_ddp ext s) = Raised e"
proof (cases "env_int ext (environ s) ''RANK''")
  case None
  then show ?thesis
    by (simp add: init_ddp_def setenv_def getenv_int_def env_int_def then_do_def emit_def
          split: option.splits)
next
  case (Some r)
  with assms have "env_int ext (environ s) ''WORLD_SIZE'' = None" by simp
  with Some show ?thesis
    by (simp add: init_ddp_def setenv_def getenv_int_def env_int_def then_do_def emit_def
          split: option.splits)
qed

lemma ddp_block_raises:
  assumes "is_distributed (args s) = 1"
    and "env_int ext (environ s) ''RANK'' = None \<or> env_int ext (environ s) ''WORLD_SIZE'' = None"
  shows "\<exists>e. fst (ddp_block ext s) = Raised e" and "args (snd (ddp_block ext s)) = args s"
proof -
  from init_ddp_raises [OF assms(2)] obtain e where e: "fst (init_ddp ext s) = Raised e" ..
  obtain s1 where i: "init_ddp ext s = (Raised e, s1)"
    using e by (cases "init_ddp ext s") simp
  from init_ddp_args [of ext s] i have "args s1 = args s" by simp
  with i assms(1) show "\<exists>e. fst (ddp_block ext s) = Raised e" and "args (snd (ddp_block ext s)) = args s"
    by (simp_all add: ddp_block_def then_do_def)
qed

lemma after_ddp_args: "args (snd (after_ddp ext lrank grank s)) = args s"
proof -
  let ?S = "loop_start ext lrank grank s"
  let ?run = "train_and_eval ext (built_model ext (args s) lrank) (train_loader (args s))
                (test_loader (args s)) ?S"
  obtain r s1 where run: "?run = (r, s1)" by (cases ?run)
  from framedD(1) [OF framed_train_and_eval run] have a1: "args s1 = args s"
    by (simp add: loop_start_fields)
  show ?thesis
  proof (cases r)
    case (Raised e)
    with run a1 show ?thesis
      by (simp add: after_ddp_unfold then_do_def)
  next
    case (Returned u)
    with run a1 show ?thesis
      by (simp add: after_ddp_unfold then_do_def destroy_process_group_def emit_def ret_def)
  qed
qed

subsection \<open>The shapes of all runs of the main script\<close>

text \<open>
  A run of the main script stops in the DDP block (no usable \<^verbatim>\<open>RANK\<close> or \<^verbatim>\<open>WORLD_SIZE\<close>),
  or at \<^verbatim>\<open>torch.device\<close> (a negative index), or at the training sampler (no process group), or
  at the first \<^verbatim>\<open>DataLoader\<close> (a batch size that is not positive), or at \<^verbatim>\<open>.to(device)\<close> on the
  \<^verbatim>\<open>None\<close> that \<^verbatim>\<open>create_model\<close> returns for an unknown model name, or it reaches the epoch
  loop; the teardown follows only a loop that returns.
\<close>

lemma init_ddp_no_rank:
  assumes "env_int ext (environ s) ''RANK'' = None"
  shows "\<exists>e. init_ddp ext s =
     (Raised e,
      s\<lparr>environ := (environ s)(''NCCL_DEBUG'' \<mapsto> ''INFO'', ''NCCL_SOCKET_IFNAME'' \<mapsto> ''ib0''),
        trace := trace s @ [EnvSet ''NCCL_DEBUG'' ''INFO'', EnvSet ''NCCL_SOCKET_IFNAME'' ''ib0'']\<rparr>)"
proof (cases "environ s ''RANK''")
  case None
  then show ?thesis
    by (simp add: init_ddp_def setenv_def getenv_int_def then_do_def emit_def)
next
  case (Some v)
  with assms have "py_int ext v = None" by (simp add: env_int_def)
  with Some show ?thesis
    by (simp add: init_ddp_def setenv_def getenv_int_def then_do_def emit_def)
qed

lemma init_ddp_no_world:
  assumes "env_int ext (environ s) ''RANK'' = Some r"
    and "env_int ext (environ s) ''WORLD_SIZE'' = None"
  shows "\<exists>e. init_ddp ext s =
     (Raised e,
      s\<lparr>environ := (environ s)(''NCCL_DEBUG'' \<mapsto> ''INFO'', ''NCCL_SOCKET_IFNAME'' \<mapsto> ''ib0''),
        trace := trace s @ [EnvSet ''NCCL_DEBUG'' ''INFO'', EnvSet ''NCCL_SOCKET_IFNAME'' ''ib0'',
                            Stdout (MsgRank r)]\<rparr>)"
proof -
  from assms(1) obtain v where v: "environ s ''RANK'' = Some v" "py_int ext v = Some r"
    by (auto simp: env_int_def split: option.splits)
  show ?thesis
  proof (cases "environ s ''WORLD_SIZE''")
    case None
    with v show ?thesis
      by (simp add: init_ddp_def setenv_def getenv_int_def then_do_def emit_def)
  next
    case (Some u)
    with assms(2) have "py_int ext u = None" by (simp add: env_int_def)
    with Some v show ?thesis
      by (simp add: init_ddp_def setenv_def getenv_int_def then_do_def emit_def)
  qed
qed

lemma after_ddp_shapes:
  obtains (stop_device) "lrank < 0"
      "fst (after_ddp ext lrank grank s) = Raised RuntimeError"
      "trace (snd (after_ddp ext lrank grank s)) = trace s"
  | (stop_group) "0 \<le> lrank" "is_distributed (args s) \<noteq> 0" "\<not> process_group s"
      "fst (after_ddp ext lrank grank s) = Raised RuntimeError"
      "trace (snd (after_ddp ext lrank grank s)) =
         trace s @ wandb_events (args s) grank @ data_head (args s)"
  | (stop_batch) "0 \<le> lrank" "is_distributed (args s) = 0 \<or> process_group s"
      "batch_size (args s) \<le> 0"
      "fst (after_ddp ext lrank grank s) = Raised ValueError"
      "trace (snd (after_ddp ext lrank grank s)) =
         trace s @ wandb_events (args s) grank @ data_head (args s)
         @ [SamplerNew SequentialSampler, DataLoaderNew (train_loader (args s))]"
  | (stop_model) "0 \<le> lrank" "is_distributed (args s) = 0 \<or> process_group s"
      "model (args s) \<noteq> ''transformer''"
      "fst (after_ddp ext lrank grank s) = Raised AttributeError"
      "trace (snd (after_ddp ext lrank grank s)) =
         trace s @ setup_events ext (args s) (root_level s) lrank grank"
  | (looped) es fin where "0 \<le> lrank" "is_distributed (args s) = 0 \<or> process_group s"
      "model (args s) = ''transformer''"
      "trace (snd (after_ddp ext lrank grank s)) =
         trace s @ setup_events ext (args s) (root_level s) lrank grank
         @ OptimizerNew (optimizer_of (args s)) # SchedulerNew (scheduler_of (args s)) # es @ fin"
      "list_all loop_event es"
      "epochs (args s) \<le> 0 \<longrightarrow> es = []"
      "global_rank (args s) \<noteq> 0 \<longrightarrow> filter is_wandb es = []"
      "fin = [] \<or> fin = [DestroyProcessGroup] \<and> is_distributed (args s) = 1
         \<and> fst (after_ddp ext lrank grank s) = Returned ()"
      "fst (after_ddp ext lrank grank s) = Returned () \<longrightarrow>
         fin = (if is_distributed (args s) = 1 then [DestroyProcessGroup] else [])
       \<and> filter is_marker es = concat (map epoch_markers (range_py (epochs (args s))))
       \<and> wandb_rounds es =
           (if global_rank (args s) = 0 then concat (map epoch_logs (range_py (epochs (args s)))) else [])
       \<and> g_model (snd (after_ddp ext lrank grank s)) =
           Some (fst (fit ext (train_loader (args s)) (tick s) (nat (epochs (args s)))
             (built_model ext (args s) lrank,
              make_optimizer ext (optimizer_of (args s)) (scheduler_of (args s))
                (built_model ext (args s) lrank))))"
proof -
  consider (a) "lrank < 0"
    | (b) "0 \<le> lrank" "is_distributed (args s) \<noteq> 0 \<and> \<not> process_group s"
    | (c) "0 \<le> lrank" "\<not> (is_distributed (args s) \<noteq> 0 \<and> \<not> process_group s)"
        "batch_size (args s) \<le> 0"
    | (d) "0 \<le> lrank" "\<not> (is_distributed (args s) \<noteq> 0 \<and> \<not> process_group s)"
        "\<not> batch_size (args s) \<le> 0" "model (args s) \<noteq> ''transformer''"
    | (e) "0 \<le> lrank" "\<not> (is_distributed (args s) \<noteq> 0 \<and> \<not> process_group s)"
        "\<not> batch_size (args s) \<le> 0" "model (args s) = ''transformer''"
    by linarith
  then show ?thesis
  proof cases
    case a
    then show ?thesis by (intro stop_device) (simp_all add: after_ddp_unfold)
  next
    case b
    then show ?thesis by (intro stop_group) (simp_all add: after_ddp_unfold)
  next
    case c
    then show ?thesis by (intro stop_batch) (auto simp: after_ddp_unfold)
  next
    case d
    then show ?thesis by (intro stop_model) (auto simp: after_ddp_unfold)
  next
    case e
    then have c: "\<not> lrank < 0" by simp
    let ?S = "loop_start ext lrank grank s"
    let ?M = "built_model ext (args s) lrank"
    let ?run = "train_and_eval ext ?M (train_loader (args s)) (test_loader (args s)) ?S"
    have g: "g_model ?S = Some ?M" by (simp add: loop_start_fields)
    from train_and_eval_runs [OF g, of ext ?M "train_loader (args s)" "test_loader (args s)",
        unfolded loop_start_fields]
    obtain r s1 es where
      run: "?run = (r, s1)"
      and t0: "trace s1 = (trace s @ setup_events ext (args s) (root_level s) lrank grank)
                @ OptimizerNew (optimizer_of (args s)) # SchedulerNew (scheduler_of (args s)) # es"
      and e0: "epochs (args s) \<le> 0 \<longrightarrow> es = []"
      and q: "global_rank (args s) \<noteq> 0 \<longrightarrow> filter is_wandb es = []"
      and rt: "r = Returned () \<longrightarrow>
           filter is_marker es = concat (map epoch_markers (range_py (epochs (args s))))
         \<and> outside 0 es = []
         \<and> wandb_rounds es =
             (if global_rank (args s) = 0 then concat (map epoch_logs (range_py (epochs (args s)))) else [])
         \<and> filter is_work es = epoch_work ext (train_loader (args s)) (test_loader (args s)) (tick s)
             (range_py (epochs (args s)))
         \<and> g_model s1 = Some (fst (fit ext (train_loader (args s)) (tick s) (nat (epochs (args s)))
               (?M, make_optimizer ext (optimizer_of (args s)) (scheduler_of (args s)) ?M)))"
      by blast
    from t0 have t: "trace s1 = trace s @ setup_events ext (args s) (root_level s) lrank grank
                @ OptimizerNew (optimizer_of (args s)) # SchedulerNew (scheduler_of (args s)) # es"
      by simp
    from framedD [OF framed_train_and_eval run] obtain es' where
      a1: "args s1 = args s" and t1: "trace s1 = trace ?S @ es'" and p1: "list_all loop_event es'"
      by (auto simp: loop_start_fields)
    from t t1 p1 have p: "list_all loop_event es" by (simp add: loop_start_fields)
    from e(2) have pg: "is_distributed (args s) = 0 \<or> process_group s" by auto
    have unf: "after_ddp ext lrank grank s =
        then_do (train_and_eval ext ?M (train_loader (args s)) (test_loader (args s)))
          (\<lambda>_ s. if is_distributed (args s) = 1 then destroy_process_group s else ret () s) ?S"
      by (simp add: after_ddp_unfold c e(2,3,4))
    show ?thesis
    proof (cases r)
      case (Raised x)
      have res: "after_ddp ext lrank grank s = (Raised x, s1)"
        using run Raised by (simp add: unf then_do_def)
      show ?thesis
      proof (rule looped [of es "[]"])
        show "trace (snd (after_ddp ext lrank grank s)) =
           trace s @ setup_events ext (args s) (root_level s) lrank grank
           @ OptimizerNew (optimizer_of (args s)) # SchedulerNew (scheduler_of (args s)) # es @ []"
          using t by (simp add: res)
        show "fst (after_ddp ext lrank grank s) = Returned () \<longrightarrow>
           [] = (if is_distributed (args s) = 1 then [DestroyProcessGroup] else [])
         \<and> filter is_marker es = concat (map epoch_markers (range_py (epochs (args s))))
         \<and> wandb_rounds es =
             (if global_rank (args s) = 0 then concat (map epoch_logs (range_py (epochs (args s)))) else [])
         \<and> g_model (snd (after_ddp ext lrank grank s)) =
             Some (fst (fit ext (train_loader (args s)) (tick s) (nat (epochs (args s)))
               (?M, make_optimizer ext (optimizer_of (args s)) (scheduler_of (args s)) ?M)))"
          by (simp add: res)
      qed (simp_all add: e pg p e0 q)
    next
      case (Returned u)
      let ?fin = "if is_distributed (args s) = 1 then [DestroyProcessGroup] else []"
      let ?s' = "if is_distributed (args s) = 1
             then s1\<lparr>process_group := False, trace := trace s1 @ [DestroyProcessGroup]\<rparr> else s1"
      have res: "after_ddp ext lrank grank s = (Returned (), ?s')"
        using run Returned a1
        by (simp add: unf then_do_def destroy_process_group_def emit_def ret_def)
      from rt Returned have
        mk: "filter is_marker es = concat (map epoch_markers (range_py (epochs (args s))))"
        and wl: "wandb_rounds es =
             (if global_rank (args s) = 0 then concat (map epoch_logs (range_py (epochs (args s)))) else [])"
        and gm: "g_model s1 = Some (fst (fit ext (train_loader (args s)) (tick s) (nat (epochs (args s)))
               (?M, make_optimizer ext (optimizer_of (args s)) (scheduler_of (args s)) ?M)))"
        by simp_all
      show ?thesis
      proof (rule looped [of es ?fin])
        show "trace (snd (after_ddp ext lrank grank s)) =
           trace s @ setup_events ext (args s) (root_level s) lrank grank
           @ OptimizerNew (optimizer_of (args s)) # SchedulerNew (scheduler_of (args s)) # es @ ?fin"
          using t by (simp add: res)
        show "fst (after_ddp ext lrank grank s) = Returned () \<longrightarrow>
           ?fin = (if is_distributed (args s) = 1 then [DestroyProcessGroup] else [])
         \<and> filter is_marker es = concat (map epoch_markers (range_py (epochs (args s))))
         \<and> wandb_rounds es =
             (if global_rank (args s) = 0 then concat (map epoch_logs (range_py (epochs (args s)))) else [])
         \<and> g_model (snd (after_ddp ext lrank grank s)) =
             Some (fst (fit ext (train_loader (args s)) (tick s) (nat (epochs (args s)))
               (?M, make_optimizer ext (optimizer_of (args s)) (scheduler_of (args s)) ?M)))"
          using mk wl gm by (simp add: res)
      qed (simp_all add: e pg p e0 q res)
    qed
  qed
qed

lemma main_shapes:
  obtains (no_rank) "is_distributed a = 1"
      "fst (main ext a env lvl hnd) \<noteq> Returned ()"
      "trace (snd (main ext a env lvl hnd)) =
         prelude_events a lvl hnd @ [EnvSet ''NCCL_DEBUG'' ''INFO'', EnvSet ''NCCL_SOCKET_IFNAME'' ''ib0'']"
  | (no_world) r where "is_distributed a = 1"
      "fst (main ext a env lvl hnd) \<noteq> Returned ()"
      "trace (snd (main ext a env lvl hnd)) =
         prelude_events a lvl hnd @ [EnvSet ''NCCL_DEBUG'' ''INFO'', EnvSet ''NCCL_SOCKET_IFNAME'' ''ib0'',
                                     Stdout (MsgRank r)]"
  | (no_device) "local_rank a < 0"
      "fst (main ext a env lvl hnd) \<noteq> Returned ()"
      "trace (snd (main ext a env lvl hnd)) = prelude_events a lvl hnd @ init_events ext a env"
  | (no_group) "0 \<le> local_rank a" "is_distributed a \<noteq> 0" "is_distributed a \<noteq> 1"
      "fst (main ext a env lvl hnd) \<noteq> Returned ()"
      "trace (snd (main ext a env lvl hnd)) =
         prelude_events a lvl hnd @ wandb_events a 0 @ data_head a"
  | (no_batch) "0 \<le> local_rank a" "is_distributed a = 0 \<or> is_distributed a = 1"
      "batch_size a \<le> 0"
      "fst (main ext a env lvl hnd) \<noteq> Returned ()"
      "trace (snd (main ext a env lvl hnd)) =
         prelude_events a lvl hnd @ init_events ext a env
         @ wandb_events (run_args ext a env) (run_rank ext a env) @ data_head a
         @ [SamplerNew SequentialSampler, DataLoaderNew (train_loader a)]"
  | (no_model) "0 \<le> local_rank a" "is_distributed a = 0 \<or> is_distributed a = 1"
      "model a \<noteq> ''transformer''"
      "fst (main ext a env lvl hnd) \<noteq> Returned ()"
      "trace (snd (main ext a env lvl hnd)) =
         prelude_events a lvl hnd @ init_events ext a env
         @ setup_events ext (run_args ext a env) (eff_level lvl hnd) (local_rank a) (run_rank ext a env)"
  | (loop) es fin where "0 \<le> local_rank a" "is_distributed a = 0 \<or> is_distributed a = 1"
      "model a = ''transformer''"
      "trace (snd (main ext a env lvl hnd)) =
         prelude_events a lvl hnd @ init_events ext a env
         @ setup_events ext (run_args ext a env) (eff_level lvl hnd) (local_rank a) (run_rank ext a env)
         @ OptimizerNew (optimizer_of a) # SchedulerNew (scheduler_of a) # es @ fin"
      "list_all loop_event es"
      "epochs a \<le> 0 \<longrightarrow> es = []"
      "global_rank (run_args ext a env) \<noteq> 0 \<longrightarrow> filter is_wandb es = []"
      "fin = [] \<or> fin = [DestroyProcessGroup] \<and> is_distributed a = 1
         \<and> fst (main ext a env lvl hnd) = Returned ()"
      "fst (main ext a env lvl hnd) = Returned () \<longrightarrow>
         fin = (if is_distributed a = 1 then [DestroyProcessGroup] else [])
       \<and> filter is_marker es = concat (map epoch_markers (range_py (epochs a)))
       \<and> wandb_rounds es =
           (if global_rank (run_args ext a env) = 0
            then concat (map epoch_logs (range_py (epochs a))) else [])
       \<and> g_model (snd (main ext a env lvl hnd)) =
           Some (fst (fit ext (train_loader a) 0 (nat (epochs a))
             (built_model ext a (local_rank a),
              make_optimizer ext (optimizer_of a) (scheduler_of a) (built_model ext a (local_rank a)))))"
proof -
  let ?s = "started a env lvl hnd :: 'a state"
  consider (single) "is_distributed a \<noteq> 1"
    | (dist) r w where "is_distributed a = 1" "env_int ext env ''RANK'' = Some r"
        "env_int ext env ''WORLD_SIZE'' = Some w"
    | (norank) "is_distributed a = 1" "env_int ext env ''RANK'' = None"
    | (noworld) r where "is_distributed a = 1" "env_int ext env ''RANK'' = Some r"
        "env_int ext env ''WORLD_SIZE'' = None"
    by (cases "env_int ext env ''RANK''"; cases "env_int ext env ''WORLD_SIZE''") auto
  then show ?thesis
  proof cases
    case single
    then have m: "main ext a env lvl hnd = after_ddp ext (local_rank a) 0 ?s"
      by (simp add: main_unfold then_do_def ddp_block_single started_fields)
    have ra: "run_args ext a env = a" "run_rank ext a env = 0" "init_events ext a env = []"
      using single by (simp_all add: run_args_def run_rank_def init_events_def)
    show ?thesis
    proof (cases rule: after_ddp_shapes [of "local_rank a" ext 0 ?s])
      case stop_device
      then show ?thesis
        by (intro no_device) (simp_all add: started_fields m ra)
    next
      case stop_group
      then show ?thesis
        using single by (intro no_group) (simp_all add: started_fields m ra)
    next
      case stop_batch
      then show ?thesis
        by (intro no_batch) (simp_all add: started_fields m ra)
    next
      case stop_model
      then show ?thesis
        by (intro no_model) (simp_all add: started_fields m ra)
    next
      case (looped es fin)
      then show ?thesis
        by (intro loop [of es fin]) (simp_all add: started_fields m ra)
    qed
  next
    case dist
    let ?s1 = "?s\<lparr>args := a\<lparr>global_rank := r\<rparr>,
        environ := env(''NCCL_DEBUG'' \<mapsto> ''INFO'', ''NCCL_SOCKET_IFNAME'' \<mapsto> ''ib0''),
        process_group := True,
        trace := prelude_events a lvl hnd @ ddp_events a r w\<rparr>"
    have "ddp_block ext ?s = (Returned (local_rank a, r), ?s1)"
      using ddp_block_ok [of ?s ext r w] dist by (simp add: started_fields)
    then have m: "main ext a env lvl hnd = after_ddp ext (local_rank a) r ?s1"
      by (simp add: main_unfold then_do_def)
    have ra: "run_args ext a env = a\<lparr>global_rank := r\<rparr>" "run_rank ext a env = r"
      "init_events ext a env = ddp_events a r w"
      using dist by (simp_all add: run_args_def run_rank_def init_events_def)
    have f1: "args ?s1 = a\<lparr>global_rank := r\<rparr>" "root_level ?s1 = eff_level lvl hnd"
      "trace ?s1 = prelude_events a lvl hnd @ ddp_events a r w" "tick ?s1 = 0"
      "process_group ?s1"
      by (simp_all add: started_fields)
    have f2: "model (a\<lparr>global_rank := r\<rparr>) = model a"
      "batch_size (a\<lparr>global_rank := r\<rparr>) = batch_size a"
      "is_distributed (a\<lparr>global_rank := r\<rparr>) = is_distributed a"
      by simp_all
    show ?thesis
    proof (cases rule: after_ddp_shapes [of "local_rank a" ext r ?s1])
      case stop_device
      then show ?thesis
        unfolding f1 by (intro no_device) (simp_all add: m ra)
    next
      case stop_group
      then show ?thesis by (simp add: f1)
    next
      case stop_batch
      then show ?thesis
        unfolding f1 f2 rank_independent using dist(1)
        by (intro no_batch) (simp_all add: m ra)
    next
      case stop_model
      then show ?thesis
        unfolding f1 f2 using dist(1)
        by (intro no_model) (simp_all add: m ra)
    next
      case (looped es fin)
      then show ?thesis
        unfolding f1 f2 rank_independent using dist(1)
        by (intro loop [of es fin]) (simp_all add: m ra)
    qed
  next
    case norank
    from init_ddp_no_rank [of ext ?s] norank obtain e where
      "init_ddp ext ?s = (Raised e,
        ?s\<lparr>environ := env(''NCCL_DEBUG'' \<mapsto> ''INFO'', ''NCCL_SOCKET_IFNAME'' \<mapsto> ''ib0''),
          trace := prelude_events a lvl hnd @ [EnvSet ''NCCL_DEBUG'' ''INFO'', EnvSet ''NCCL_SOCKET_IFNAME'' ''ib0'']\<rparr>)"
      by (auto simp: started_fields)
    with norank show ?thesis
      by (intro no_rank)
        (simp_all add: main_unfold then_do_def ddp_block_def started_fields)
  next
    case noworld
    from init_ddp_no_world [of ext ?s r] noworld obtain e where
      "init_ddp ext ?s = (Raised e,
        ?s\<lparr>environ := env(''NCCL_DEBUG'' \<mapsto> ''INFO'', ''NCCL_SOCKET_IFNAME'' \<mapsto> ''ib0''),
          trace := prelude_events a lvl hnd @ [EnvSet ''NCCL_DEBUG'' ''INFO'', EnvSet ''NCCL_SOCKET_IFNAME'' ''ib0'',
                                              Stdout (MsgRank r)]\<rparr>)"
      by (auto simp: started_fields)
    with noworld show ?thesis
      by (intro no_world [of r])
        (simp_all add: main_unfold then_do_def ddp_block_def started_fields)
  qed
qed

lemma main_args_all_runs:
  "args (snd (main ext a env lvl hnd)) =
     (if is_distributed a = 1 \<and> env_int ext env ''RANK'' \<noteq> None
         \<and> env_int ext env ''WORLD_SIZE'' \<noteq> None
      then a\<lparr>global_rank := the (env_int ext env ''RANK'')\<rparr> else a)"
proof -
  let ?s = "started a env lvl hnd :: 'a state"
  consider (single) "is_distributed a \<noteq> 1"
    | (dist) r w where "is_distributed a = 1" "env_int ext env ''RANK'' = Some r"
        "env_int ext env ''WORLD_SIZE'' = Some w"
    | (fails) "is_distributed a = 1"
        "env_int ext env ''RANK'' = None \<or> env_int ext env ''WORLD_SIZE'' = None"
    by (cases "env_int ext env ''RANK''"; cases "env_int ext env ''WORLD_SIZE''") auto
  then show ?thesis
  proof cases
    case single
    then have "main ext a env lvl hnd = after_ddp ext (local_rank a) 0 ?s"
      by (simp add: main_unfold then_do_def ddp_block_single started_fields)
    with single show ?thesis by (simp add: after_ddp_args started_fields)
  next
    case dist
    let ?s1 = "?s\<lparr>args := a\<lparr>global_rank := r\<rparr>,
        environ := env(''NCCL_DEBUG'' \<mapsto> ''INFO'', ''NCCL_SOCKET_IFNAME'' \<mapsto> ''ib0''),
        process_group := True,
        trace := prelude_events a lvl hnd @ ddp_events a r w\<rparr>"
    have "ddp_block ext ?s = (Returned (local_rank a, r), ?s1)"
      using ddp_block_ok [of ?s ext r w] dist by (simp add: started_fields)
    then have "main ext a env lvl hnd = after_ddp ext (local_rank a) r ?s1"
      by (simp add: main_unfold then_do_def)
    with dist show ?thesis by (simp add: after_ddp_args)
  next
    case fails
    from ddp_block_raises [of ?s ext] fails obtain e where
      e: "fst (ddp_block ext ?s) = Raised e" and a: "args (snd (ddp_block ext ?s)) = a"
      by (auto simp: started_fields)
    obtain s1 where "ddp_block ext ?s = (Raised e, s1)"
      using e by (cases "ddp_block ext ?s") simp
    with a have "args (snd (main ext a env lvl hnd)) = a"
      by (simp add: main_unfold then_do_def)
    with fails show ?thesis by auto
  qed
qed

subsection \<open>The \<^verbatim>\<open>args\<close> object after parsing\<close>

lemma toy_env:
  "env_int toy rank3_of_4 ''RANK'' = Some 3" "env_int toy rank3_of_4 ''WORLD_SIZE'' = Some 4"
  "env_int toy rank0_of_4 ''RANK'' = Some 0" "env_int toy rank0_of_4 ''WORLD_SIZE'' = Some 4"
  by (simp_all add: env_int_def rank3_of_4_def rank0_of_4_def toy_def toy_int_def)

lemma toy_args:
  "is_distributed distributed_args = 1" "is_distributed one_epoch = 0"
  "global_rank distributed_args = 0" "global_rank one_epoch = 0"
  "model distributed_args = ''transformer''" "model one_epoch = ''transformer''"
  "epochs distributed_args = 1" "epochs one_epoch = 1"
  "local_rank distributed_args = 0" "local_rank one_epoch = 0"
  by (simp_all add: distributed_args_def one_epoch_def default_args_def)

text \<open>
  Claim C1, as stated, fails: in a distributed run the main script stores the rank it read from
  the environment into \<^verbatim>\<open>args.global_rank\<close> (line 297). Parsed with the default
  \<^verbatim>\<open>global_rank = 0\<close> and run with \<^verbatim>\<open>RANK=3\<close>, the field ends as 3.
\<close>

theorem args_reassigned_counterexample:
  "global_rank distributed_args = 0 \<and>
   global_rank (args (snd (main toy distributed_args rank3_of_4 WARNING False))) = 3"
  by (simp add: main_args_all_runs toy_env toy_args)

text \<open>
  Claim C1, amended. In every run, whether it completes or raises, no field of \<^verbatim>\<open>args\<close>
  other than \<^verbatim>\<open>global_rank\<close> is reassigned after parsing; \<^verbatim>\<open>global_rank\<close> is not reassigned
  when \<^verbatim>\<open>is_distributed\<close> is not 1, and a distributed run that finds its rank and world size
  in the environment sets it to that rank.
\<close>

theorem args_fixed_but_global_rank:
  "(args (snd (main ext a env lvl hnd)))\<lparr>global_rank := global_rank a\<rparr> = a
   \<and> (is_distributed a \<noteq> 1 \<longrightarrow> args (snd (main ext a env lvl hnd)) = a)
   \<and> (is_distributed a = 1 \<and> env_int ext env ''RANK'' = Some r
        \<and> env_int ext env ''WORLD_SIZE'' = Some w \<longrightarrow>
       args (snd (main ext a env lvl hnd)) = a\<lparr>global_rank := r\<rparr>)"
  by (simp add: main_args_all_runs)

theorem args_fixed_but_global_rank_witness:
  "args (snd (main toy one_epoch Map.empty WARNING False)) = one_epoch
   \<and> args (snd (main toy distributed_args rank3_of_4 WARNING False)) =
       distributed_args\<lparr>global_rank := 3\<rparr>"
  using args_fixed_but_global_rank [where ext = toy and a = one_epoch and env = Map.empty
      and lvl = WARNING and hnd = False and r = 0 and w = 0]
    args_fixed_but_global_rank [where ext = toy and a = distributed_args and env = rank3_of_4
      and lvl = WARNING and hnd = False and r = 3 and w = 4]
  by (simp add: toy_env toy_args)

subsection \<open>The order of the stages\<close>

lemma map_filter_Cons:
  "List.map_filter f (x # xs) = (case f x of None \<Rightarrow> [] | Some y \<Rightarrow> [y]) @ List.map_filter f xs"
  by (simp add: List.map_filter_simps split: option.splits)

lemma stage_of_log_events: "List.map_filter stage_of (log_events lvl msg) = []"
  by (simp add: log_events_def List.map_filter_simps)

lemma stage_of_prelude: "List.map_filter stage_of (prelude_events a lvl hnd) = [SParse]"
  by (simp add: prelude_events_def map_filter_append stage_of_log_events List.map_filter_simps)

lemma stage_of_ddp: "List.map_filter stage_of (ddp_events a r w) = [SInit, SInit, SInit]"
  by (simp add: ddp_events_def List.map_filter_simps)

lemma stage_of_wandb: "List.map_filter stage_of (wandb_events a g) = []"
  by (simp add: wandb_events_def List.map_filter_simps)

lemma stage_of_data_head:
  "List.map_filter stage_of (data_head a) =
     (if is_distributed a = 1 then [SData, SData, SData, SData, SData] else [SData, SData, SData])"
  by (simp add: data_head_def List.map_filter_simps)

lemma stage_of_data:
  "List.map_filter stage_of (data_events a) =
     (if is_distributed a = 1 then [SData, SData, SData, SData, SData, SData, SData, SData]
      else [SData, SData, SData, SData, SData, SData])"
  by (simp add: data_events_def map_filter_append stage_of_data_head List.map_filter_simps)

lemma stage_of_model:
  "model a = ''transformer'' \<Longrightarrow>
   List.map_filter stage_of (model_events ext a lvl lrank) =
     [SModel, SModel, SModel, SModel] @ (if is_distributed a = 1 then [SWrap] else [])"
  by (simp add: model_events_def map_filter_append stage_of_log_events List.map_filter_simps)

lemma stage_of_setup:
  "model a = ''transformer'' \<Longrightarrow>
   List.map_filter stage_of (setup_events ext a lvl lrank grank) =
     (if is_distributed a = 1 then [SData, SData, SData, SData, SData, SData, SData, SData]
      else [SData, SData, SData, SData, SData, SData])
     @ [SModel, SModel, SModel, SModel] @ (if is_distributed a = 1 then [SWrap] else [])"
  by (simp add: setup_events_def map_filter_append stage_of_wandb stage_of_data stage_of_model)

lemma stage_of_setup_unknown:
  "model a \<noteq> ''transformer'' \<Longrightarrow>
   List.map_filter stage_of (setup_events ext a lvl lrank grank) =
     (if is_distributed a = 1 then [SData, SData, SData, SData, SData, SData, SData, SData]
      else [SData, SData, SData, SData, SData, SData])"
  by (simp add: setup_events_def model_events_def map_filter_append stage_of_wandb stage_of_data
        stage_of_log_events)

lemma loop_event_stage: "loop_event ev \<Longrightarrow> stage_of ev = None \<or> stage_of ev = Some SLoop"
  by (cases ev) simp_all

lemma stage_of_loop:
  "list_all loop_event evs \<Longrightarrow> set (List.map_filter stage_of evs) \<subseteq> {SLoop}"
proof (induction evs)
  case Nil
  show ?case by (simp add: List.map_filter_simps)
next
  case (Cons ev evs)
  then have "stage_of ev = None \<or> stage_of ev = Some SLoop" by (simp add: loop_event_stage)
  with Cons show ?case by (auto simp: List.map_filter_simps)
qed

lemma loop_marks:
  assumes "list_all loop_event es"
  obtains (none) "List.map_filter stage_of es = []"
  | (some) ls where "List.map_filter stage_of es = SLoop # ls" "set ls \<subseteq> {SLoop}"
proof -
  from stage_of_loop [OF assms] have "set (List.map_filter stage_of es) \<subseteq> {SLoop}" .
  then show ?thesis using none some by (cases "List.map_filter stage_of es") auto
qed

lemma marker_stage: "is_marker ev \<Longrightarrow> stage_of ev = Some SLoop"
  by (cases ev) simp_all

lemma no_marks_no_markers: "List.map_filter stage_of es = [] \<Longrightarrow> filter is_marker es = []"
proof (induction es)
  case Nil
  show ?case by simp
next
  case (Cons ev es)
  then show ?case
    using marker_stage [of ev]
    by (auto simp: List.map_filter_simps split: option.splits)
qed

lemma epoch_markers_nonempty:
  "0 < n \<Longrightarrow> concat (map epoch_markers (range_py n)) \<noteq> []"
  by (simp add: range_py_def upt_conv_Cons epoch_markers_def)

lemma remdups_adj_run:
  "set ls \<subseteq> {x} \<Longrightarrow> remdups_adj (x # ls @ ys) = remdups_adj (x # ys)"
  by (induction ls) auto

lemma run_args_fields:
  "model (run_args ext a env) = model a"
  "is_distributed (run_args ext a env) = is_distributed a"
  "img_size (run_args ext a env) = img_size a"
  "pretrained_dir (run_args ext a env) = pretrained_dir a"
  "data_dir (run_args ext a env) = data_dir a"
  "epochs (run_args ext a env) = epochs a"
  "lr (run_args ext a env) = lr a"
  "class_num_of (run_args ext a env) = class_num_of a"
  "dataset_class (run_args ext a env) = dataset_class a"
  by (simp_all add: run_args_def class_num_of_def dataset_class_def)

lemma run_args_data: "data_events (run_args ext a env) = data_events a"
  by (simp add: run_args_def rank_independent)

text \<open>The stages of a run that has reached the epoch loop.\<close>

lemma stages_of_loop_run:
  assumes tm: "model a = ''transformer''" and p: "list_all loop_event es"
    and fin: "fin = [] \<or> fin = [DestroyProcessGroup] \<and> is_distributed a = 1"
  shows "stages (prelude_events a lvl hnd @ init_events ext a env
           @ setup_events ext (run_args ext a env) lvl' lrank grank
           @ OptimizerNew oc # SchedulerNew sc # es @ fin) =
         [SParse] @ (if is_distributed a = 1 then [SInit] else []) @ [SData, SModel]
         @ (if is_distributed a = 1 then [SWrap] else [])
         @ (if List.map_filter stage_of es = [] then [] else [SLoop])
         @ (if fin = [] then [] else [STeardown])"
proof -
  have tm': "model (run_args ext a env) = ''transformer''"
    using tm by (simp add: run_args_fields)
  have mf: "List.map_filter stage_of (prelude_events a lvl hnd @ init_events ext a env
           @ setup_events ext (run_args ext a env) lvl' lrank grank
           @ OptimizerNew oc # SchedulerNew sc # es @ fin) =
      [SParse] @ (if is_distributed a = 1 then [SInit, SInit, SInit] else [])
      @ (if is_distributed a = 1 then [SData, SData, SData, SData, SData, SData, SData, SData]
         else [SData, SData, SData, SData, SData, SData])
      @ [SModel, SModel, SModel, SModel] @ (if is_distributed a = 1 then [SWrap] else [])
      @ List.map_filter stage_of es @ (if fin = [] then [] else [STeardown])"
    using fin
    by (auto simp: map_filter_append stage_of_prelude stage_of_setup [OF tm'] run_args_fields
          init_events_def stage_of_ddp List.map_filter_simps)
  from p show ?thesis
  proof (cases rule: loop_marks)
    case none
    then show ?thesis
      unfolding stages_def mf by simp
  next
    case (some ls)
    from remdups_adj_run [OF some(2), of "[]"] remdups_adj_run [OF some(2), of "[STeardown]"]
    show ?thesis
      unfolding stages_def mf some(1) by simp
  qed
qed

lemma main_stages_all_runs:
  "\<exists>rest. expected_stages a = stages (trace (snd (main ext a env lvl hnd))) @ rest"
proof (cases rule: main_shapes [where a = a and ext = ext and env = env and lvl = lvl and hnd = hnd])
  case no_rank
  then show ?thesis
    by (simp add: stages_def expected_stages_def map_filter_append stage_of_prelude
          List.map_filter_simps)
next
  case (no_world r)
  then show ?thesis
    by (simp add: stages_def expected_stages_def map_filter_append stage_of_prelude
          List.map_filter_simps)
next
  case no_device
  then show ?thesis
    by (simp add: stages_def expected_stages_def map_filter_append stage_of_prelude
          init_events_def stage_of_ddp)
next
  case no_group
  then show ?thesis
    by (simp add: stages_def expected_stages_def map_filter_append stage_of_prelude
          stage_of_wandb stage_of_data_head)
next
  case no_batch
  then show ?thesis
    by (simp add: stages_def expected_stages_def map_filter_append stage_of_prelude
          stage_of_wandb stage_of_data_head init_events_def stage_of_ddp List.map_filter_simps)
next
  case no_model
  then show ?thesis
    by (simp add: stages_def expected_stages_def map_filter_append stage_of_prelude
          stage_of_setup_unknown run_args_fields init_events_def stage_of_ddp)
next
  case (loop es fin)
  from loop(8) have fin: "fin = [] \<or> fin = [DestroyProcessGroup] \<and> is_distributed a = 1"
    by auto
  note st = stages_of_loop_run [OF loop(3) loop(5) fin, of lvl hnd ext env "eff_level lvl hnd"
      "local_rank a" "run_rank ext a env" "optimizer_of a" "scheduler_of a"]
  show ?thesis
  proof (cases "List.map_filter stage_of es = []")
    case True
    show ?thesis
    proof (cases "fin = []")
      case True
      with \<open>List.map_filter stage_of es = []\<close> show ?thesis
        unfolding loop(4) st by (simp add: expected_stages_def)
    next
      case False
      with loop(8) have r: "fst (main ext a env lvl hnd) = Returned ()" and d: "is_distributed a = 1"
        by auto
      from True have "filter is_marker es = []" by (rule no_marks_no_markers)
      with loop(9) r have "concat (map epoch_markers (range_py (epochs a))) = []" by simp
      with epoch_markers_nonempty [of "epochs a"] have "\<not> 0 < epochs a" by auto
      with True False d show ?thesis
        unfolding loop(4) st by (simp add: expected_stages_def)
    qed
  next
    case False
    with loop(6) have ep: "0 < epochs a" by (auto simp: List.map_filter_simps)
    from loop(8) have "fin = [] \<or> fin \<noteq> [] \<and> is_distributed a = 1" by auto
    with False ep show ?thesis
      unfolding loop(4) st by (auto simp: expected_stages_def)
  qed
qed

lemma marker_parts:
  "filter is_marker (log_events lvl msg) = []"
  "filter is_marker (prelude_events a lvl hnd) = []"
  "filter is_marker (ddp_events a r w) = []"
  "filter is_marker (data_events a) = []"
  by (simp_all add: log_events_def prelude_events_def ddp_events_def data_events_def
        data_head_def)

lemma marker_setup: "filter is_marker (setup_events ext a lvl lrank grank) = []"
  by (simp add: setup_events_def model_events_def wandb_events_def marker_parts)

lemma setup_call_parts:
  "filter setup_call (log_events lvl msg) = []"
  "filter setup_call (prelude_events a lvl hnd) = [ParseArgs]"
  "filter setup_call (wandb_events a g) = []"
  "filter setup_call (ddp_events a r w) =
     [EnvSet ''NCCL_DEBUG'' ''INFO'', EnvSet ''NCCL_SOCKET_IFNAME'' ''ib0'',
      InitProcessGroup ''nccl'' r w]"
  "filter setup_call (data_events a) = data_events a"
  by (simp_all add: setup_call_def log_events_def prelude_events_def wandb_events_def
        ddp_events_def data_events_def data_head_def)

lemma setup_call_setup:
  "model a = ''transformer'' \<Longrightarrow>
   filter setup_call (setup_events ext a lvl lrank grank) =
     data_events a
     @ [VisionTransformerNew (img_size a) (class_num_of a), LoadFrom (pretrained_dir a),
        CountParameters, ToDevice lrank]
     @ (if is_distributed a = 1 then [DDPNew lrank] else [])"
  by (simp add: setup_events_def model_events_def setup_call_parts)
    (simp add: setup_call_def)

lemma setup_call_loop: "list_all loop_event es \<Longrightarrow> filter setup_call es = []"
proof (rule filter_none)
  assume "list_all loop_event es"
  then show "list_all (\<lambda>x. \<not> setup_call x) es"
    using loop_event_stage by (auto simp: list_all_iff setup_call_def)
qed

lemma main_stages_returned:
  assumes r: "fst (main ext a env lvl hnd) = Returned ()"
  shows "stages (trace (snd (main ext a env lvl hnd))) = expected_stages a"
    and "filter is_marker (trace (snd (main ext a env lvl hnd))) =
           concat (map epoch_markers [0 ..< nat (epochs a)])"
    and "\<exists>r w. filter setup_call (trace (snd (main ext a env lvl hnd))) = expected_calls a r w"
proof -
  have "stages (trace (snd (main ext a env lvl hnd))) = expected_stages a
      \<and> filter is_marker (trace (snd (main ext a env lvl hnd))) =
           concat (map epoch_markers [0 ..< nat (epochs a)])
      \<and> (\<exists>r w. filter setup_call (trace (snd (main ext a env lvl hnd))) = expected_calls a r w)"
  proof (cases rule: main_shapes [where a = a and ext = ext and env = env and lvl = lvl and hnd = hnd])
    case (loop es fin)
    from loop(9) r have f: "fin = (if is_distributed a = 1 then [DestroyProcessGroup] else [])"
      and mk: "filter is_marker es = concat (map epoch_markers (range_py (epochs a)))"
      by simp_all
    from f have fin: "fin = [] \<or> fin = [DestroyProcessGroup] \<and> is_distributed a = 1"
      by auto
    note st = stages_of_loop_run [OF loop(3) loop(5) fin, of lvl hnd ext env "eff_level lvl hnd"
        "local_rank a" "run_rank ext a env" "optimizer_of a" "scheduler_of a"]
    have "(List.map_filter stage_of es = []) = (\<not> 0 < epochs a)"
    proof
      assume "List.map_filter stage_of es = []"
      then have "filter is_marker es = []" by (rule no_marks_no_markers)
      with mk epoch_markers_nonempty [of "epochs a"] show "\<not> 0 < epochs a" by auto
    next
      assume "\<not> 0 < epochs a"
      with loop(6) show "List.map_filter stage_of es = []"
        by (simp add: List.map_filter_simps)
    qed
    then have s1: "stages (trace (snd (main ext a env lvl hnd))) = expected_stages a"
      unfolding loop(4) st by (simp add: expected_stages_def f)
    have "filter is_marker fin = []" using f by simp
    then have s2: "filter is_marker (trace (snd (main ext a env lvl hnd))) =
           concat (map epoch_markers [0 ..< nat (epochs a)])"
      unfolding loop(4)
      by (simp add: marker_parts marker_setup mk init_events_def range_py_def)
    have tm: "model (run_args ext a env) = ''transformer''"
      using loop(3) by (simp add: run_args_fields)
    have "filter setup_call (trace (snd (main ext a env lvl hnd))) =
        expected_calls a (the (env_int ext env ''RANK'')) (the (env_int ext env ''WORLD_SIZE''))"
      unfolding loop(4)
      by (simp add: setup_call_parts setup_call_setup [OF tm] setup_call_loop [OF loop(5)]
            run_args_fields run_args_data init_events_def expected_calls_def f)
        (simp add: setup_call_def)
    then have s3: "\<exists>r w. filter setup_call (trace (snd (main ext a env lvl hnd))) =
        expected_calls a r w"
      by blast
    from s1 s2 s3 show ?thesis by blast
  qed (use r in simp_all)
  then show "stages (trace (snd (main ext a env lvl hnd))) = expected_stages a"
    and "filter is_marker (trace (snd (main ext a env lvl hnd))) =
           concat (map epoch_markers [0 ..< nat (epochs a)])"
    and "\<exists>r w. filter setup_call (trace (snd (main ext a env lvl hnd))) = expected_calls a r w"
    by simp_all
qed

text \<open>
  Claim C3. The main script goes through its stages in the fixed order: parsing, then the
  process group if \<^verbatim>\<open>is_distributed == 1\<close>, then datasets and loaders, then the model with
  its pretrained weights, then the data-parallel wrapper if distributed, then the epoch loop,
  then the teardown of the process group if distributed. In every run, also one that an
  exception stops, the stages gone through are an initial part of this sequence: each stage
  once, none out of order, none left out before the last one reached. A run that returns has
  gone through the whole sequence; its epoch loop has run \<open>train e\<close> and then \<open>eval e\<close>
  for each epoch \<open>e\<close> from 0 to \<open>args.epochs - 1\<close> (the stage of the epoch loop is there
  exactly when there is an epoch to run); and the calls of its other stages are exactly those
  of \<open>expected_calls\<close>, in that order.
\<close>

theorem main_stage_order:
  "(\<exists>rest. expected_stages a = stages (trace (snd (main ext a env lvl hnd))) @ rest)
   \<and> (fst (main ext a env lvl hnd) = Returned () \<longrightarrow>
        stages (trace (snd (main ext a env lvl hnd))) = expected_stages a
        \<and> filter is_marker (trace (snd (main ext a env lvl hnd))) =
            concat (map epoch_markers [0 ..< nat (epochs a)])
        \<and> (\<exists>r w. filter setup_call (trace (snd (main ext a env lvl hnd))) =
              expected_calls a r w))"
  using main_stages_all_runs [of a ext env lvl hnd] main_stages_returned [of ext a env lvl hnd]
  by blast

lemma toy_can_run: "can_run toy one_epoch Map.empty" "can_run toy distributed_args rank3_of_4"
  "can_run toy distributed_args rank0_of_4"
  by (simp_all add: can_run_def toy_args toy_env toy_feeds distributed_args_def one_epoch_def
        default_args_def)

lemma toy_returns:
  "fst (main toy one_epoch Map.empty lvl hnd) = Returned ()"
  "fst (main toy distributed_args rank3_of_4 lvl hnd) = Returned ()"
  "fst (main toy distributed_args rank0_of_4 lvl hnd) = Returned ()"
  using main_ok [OF toy_can_run(1), of lvl hnd] main_ok [OF toy_can_run(2), of lvl hnd]
    main_ok [OF toy_can_run(3), of lvl hnd]
  by auto

theorem main_stage_order_witness:
  "stages (trace (snd (main toy one_epoch Map.empty WARNING False))) = [SParse, SData, SModel, SLoop]
   \<and> filter is_marker (trace (snd (main toy one_epoch Map.empty WARNING False))) =
       [Enter (CTrain 0), Leave (CTrain 0), Enter (CEval 0), Leave (CEval 0)]
   \<and> filter setup_call (trace (snd (main toy one_epoch Map.empty WARNING False))) =
       [ParseArgs, DatasetNew CIFAR10 ''./../../../data/cifar10'' True,
        DatasetNew CIFAR10 ''./../../../data/cifar10'' False,
        SamplerNew RandomSampler, SamplerNew SequentialSampler,
        DataLoaderNew (train_loader one_epoch), DataLoaderNew (test_loader one_epoch),
        VisionTransformerNew 224 10,
        LoadFrom ''./../../../fedml_api/model/cv/pretrained/Transformer/vit/ViT-B_16.npz'',
        CountParameters, ToDevice 0]
   \<and> stages (trace (snd (main toy distributed_args rank3_of_4 WARNING False))) =
       [SParse, SInit, SData, SModel, SWrap, SLoop, STeardown]"
proof -
  have f: "img_size one_epoch = 224" "class_num_of one_epoch = 10"
    "pretrained_dir one_epoch =
       ''./../../../fedml_api/model/cv/pretrained/Transformer/vit/ViT-B_16.npz''"
    "data_dir one_epoch = ''./../../../data/cifar10''" "dataset_class one_epoch = CIFAR10"
    by (simp_all add: one_epoch_def default_args_def class_num_of_def dataset_class_def)
  from main_stage_order [where ext = toy and a = one_epoch and env = Map.empty
      and lvl = WARNING and hnd = False]
    main_stage_order [where ext = toy and a = distributed_args and env = rank3_of_4
      and lvl = WARNING and hnd = False]
  show ?thesis
    by (simp add: expected_stages_def expected_calls_def data_events_def data_head_def
          toy_args toy_returns epoch_markers_def f)
qed

subsection \<open>The distributed calls of a run\<close>

lemma loop_event_not_distributed: "loop_event ev \<Longrightarrow> \<not> distributed_call ev"
  by (cases ev) simp_all

lemma distributed_calls_loop: "list_all loop_event evs \<Longrightarrow> filter distributed_call evs = []"
  by (rule filter_none) (simp add: list_all_iff loop_event_not_distributed)

lemma distributed_calls_parts:
  "filter distributed_call (log_events lvl msg) = []"
  "filter distributed_call (prelude_events a lvl hnd) = []"
  "filter distributed_call (wandb_events a g) = []"
  "filter distributed_call (ddp_events a r w) =
     [EnvSet ''NCCL_DEBUG'' ''INFO'', EnvSet ''NCCL_SOCKET_IFNAME'' ''ib0'',
      InitProcessGroup ''nccl'' r w]"
  "filter distributed_call (data_head a) =
     (if is_distributed a = 1 then [Barrier, Barrier, SamplerNew DistributedSampler]
      else if is_distributed a = 0 then [] else [SamplerNew DistributedSampler])"
  "filter distributed_call (data_events a) =
     (if is_distributed a = 1 then [Barrier, Barrier, SamplerNew DistributedSampler]
      else if is_distributed a = 0 then [] else [SamplerNew DistributedSampler])"
  by (simp_all add: log_events_def prelude_events_def wandb_events_def ddp_events_def
        data_head_def data_events_def)

lemma distributed_calls_setup:
  "filter distributed_call (setup_events ext a lvl lrank grank) =
     (if is_distributed a = 1
      then [Barrier, Barrier, SamplerNew DistributedSampler]
           @ (if model a = ''transformer'' then [DDPNew lrank] else [])
      else if is_distributed a = 0 then [] else [SamplerNew DistributedSampler])"
  by (simp add: setup_events_def model_events_def distributed_calls_parts)

lemma main_distributed_calls_all_runs:
  assumes d: "is_distributed a = 1"
  shows "\<exists>r w rest.
     [EnvSet ''NCCL_DEBUG'' ''INFO'', EnvSet ''NCCL_SOCKET_IFNAME'' ''ib0'',
      InitProcessGroup ''nccl'' r w, Barrier, Barrier, SamplerNew DistributedSampler,
      DDPNew (local_rank a), DestroyProcessGroup] =
     filter distributed_call (trace (snd (main ext a env lvl hnd))) @ rest"
proof (cases rule: main_shapes [where a = a and ext = ext and env = env and lvl = lvl and hnd = hnd])
  case no_rank
  then show ?thesis by (simp add: distributed_calls_parts)
next
  case (no_world r)
  then show ?thesis by (simp add: distributed_calls_parts)
next
  case no_device
  then show ?thesis using d by (simp add: distributed_calls_parts init_events_def)
next
  case no_group
  with d show ?thesis by simp
next
  case no_batch
  then show ?thesis
    using d by (simp add: distributed_calls_parts init_events_def)
next
  case no_model
  then show ?thesis
    using d
    by (simp add: distributed_calls_parts distributed_calls_setup run_args_fields
          init_events_def)
next
  case (loop es fin)
  from loop(8) have "fin = [] \<or> fin = [DestroyProcessGroup]" by auto
  then show ?thesis
  proof
    assume "fin = []"
    then show ?thesis
      using d loop(3)
      by (simp add: loop(4) distributed_calls_parts distributed_calls_setup run_args_fields
            init_events_def distributed_calls_loop [OF loop(5)])
  next
    assume "fin = [DestroyProcessGroup]"
    then show ?thesis
      using d loop(3)
      by (simp add: loop(4) distributed_calls_parts distributed_calls_setup run_args_fields
            init_events_def distributed_calls_loop [OF loop(5)])
  qed
qed

lemma main_distributed_calls_returned:
  assumes d: "is_distributed a = 1" and rt: "fst (main ext a env lvl hnd) = Returned ()"
    and r: "env_int ext env ''RANK'' = Some r" and w: "env_int ext env ''WORLD_SIZE'' = Some w"
  shows "filter distributed_call (trace (snd (main ext a env lvl hnd))) =
     [EnvSet ''NCCL_DEBUG'' ''INFO'', EnvSet ''NCCL_SOCKET_IFNAME'' ''ib0'',
      InitProcessGroup ''nccl'' r w, Barrier, Barrier, SamplerNew DistributedSampler,
      DDPNew (local_rank a), DestroyProcessGroup]"
proof (cases rule: main_shapes [where a = a and ext = ext and env = env and lvl = lvl and hnd = hnd])
  case (loop es fin)
  from loop(9) rt d have "fin = [DestroyProcessGroup]" by simp
  then show ?thesis
    using d loop(3) r w
    by (simp add: loop(4) distributed_calls_parts distributed_calls_setup run_args_fields
          init_events_def distributed_calls_loop [OF loop(5)])
qed (use rt in simp_all)

lemma main_single_distributed_calls:
  assumes d: "is_distributed a = 0"
  shows "filter distributed_call (trace (snd (main ext a env lvl hnd))) = []"
proof (cases rule: main_shapes [where a = a and ext = ext and env = env and lvl = lvl and hnd = hnd])
  case no_device
  then show ?thesis using d by (simp add: distributed_calls_parts init_events_def)
next
  case no_batch
  then show ?thesis using d by (simp add: distributed_calls_parts init_events_def)
next
  case no_model
  then show ?thesis
    using d
    by (simp add: distributed_calls_parts distributed_calls_setup run_args_fields
          init_events_def)
next
  case (loop es fin)
  from loop(8) d have "fin = []" by auto
  then show ?thesis
    using d
    by (simp add: loop(4) distributed_calls_parts distributed_calls_setup run_args_fields
          init_events_def distributed_calls_loop [OF loop(5)])
qed (use d in simp_all)

lemma main_other_flag_distributed_calls:
  assumes d: "is_distributed a \<noteq> 0" "is_distributed a \<noteq> 1"
  shows "fst (main ext a env lvl hnd) \<noteq> Returned ()"
    and "filter distributed_call (trace (snd (main ext a env lvl hnd))) =
           (if local_rank a < 0 then [] else [SamplerNew DistributedSampler])"
proof -
  have "fst (main ext a env lvl hnd) \<noteq> Returned ()
      \<and> filter distributed_call (trace (snd (main ext a env lvl hnd))) =
           (if local_rank a < 0 then [] else [SamplerNew DistributedSampler])"
  proof (cases rule: main_shapes [where a = a and ext = ext and env = env and lvl = lvl and hnd = hnd])
    case no_device
    then show ?thesis using d by (simp add: distributed_calls_parts init_events_def)
  next
    case no_group
    then show ?thesis using d by (simp add: distributed_calls_parts)
  qed (use d in simp_all)
  then show "fst (main ext a env lvl hnd) \<noteq> Returned ()"
    and "filter distributed_call (trace (snd (main ext a env lvl hnd))) =
           (if local_rank a < 0 then [] else [SamplerNew DistributedSampler])"
    by simp_all
qed

text \<open>
  Claim C4, as stated, fails: a distributed run also calls \<^verbatim>\<open>torch.distributed.barrier()\<close>
  before and after the datasets are constructed (lines 163-164 and 210-211), constructs a
  \<^verbatim>\<open>DistributedSampler\<close> for the training set (line 213) and wraps the model in
  \<^verbatim>\<open>DistributedDataParallel\<close> (line 328), so its distributed calls are not only environment
  writes, initialization and teardown.
\<close>

theorem distributed_calls_counterexample:
  "is_distributed distributed_args = 1 \<and>
   filter distributed_call (trace (snd (main toy distributed_args rank0_of_4 WARNING False))) =
     [EnvSet ''NCCL_DEBUG'' ''INFO'', EnvSet ''NCCL_SOCKET_IFNAME'' ''ib0'',
      InitProcessGroup ''nccl'' 0 4, Barrier, Barrier, SamplerNew DistributedSampler, DDPNew 0,
      DestroyProcessGroup] \<and>
   \<not> list_all env_init_teardown
       (filter distributed_call (trace (snd (main toy distributed_args rank0_of_4 WARNING False))))"
  by (simp add: main_distributed_calls_returned [OF toy_args(1) toy_returns(3) toy_env(3,4)]
        toy_args)

text \<open>
  Claim C4, amended. When \<^verbatim>\<open>is_distributed == 1\<close>, the distributed calls of every run are an
  initial part of the following sequence, and a run that returns has made exactly these calls,
  in this order: it sets \<^verbatim>\<open>NCCL_DEBUG\<close> to \<^verbatim>\<open>INFO\<close> and \<^verbatim>\<open>NCCL_SOCKET_IFNAME\<close> to \<^verbatim>\<open>ib0\<close>,
  calls \<^verbatim>\<open>dist.init_process_group\<close> with the rank and world size read from \<^verbatim>\<open>RANK\<close> and
  \<^verbatim>\<open>WORLD_SIZE\<close>, calls the barrier twice around the construction of the datasets, constructs
  the distributed sampler of the training set, wraps the model in the data-parallel wrapper,
  and calls \<^verbatim>\<open>dist.destroy_process_group\<close>. When \<^verbatim>\<open>is_distributed == 0\<close>, no run makes any of
  these calls. For every other value of the flag the run does not return: it makes none of
  these calls but the construction of the distributed sampler (line 213 tests
  \<^verbatim>\<open>is_distributed == 0\<close>), which raises for want of a process group, unless the run has
  stopped before at a negative device index.
\<close>

theorem distributed_calls_of_main:
  "(is_distributed a = 1 \<longrightarrow>
      (\<exists>r w rest.
         [EnvSet ''NCCL_DEBUG'' ''INFO'', EnvSet ''NCCL_SOCKET_IFNAME'' ''ib0'',
          InitProcessGroup ''nccl'' r w, Barrier, Barrier, SamplerNew DistributedSampler,
          DDPNew (local_rank a), DestroyProcessGroup] =
         filter distributed_call (trace (snd (main ext a env lvl hnd))) @ rest))
   \<and> (is_distributed a = 1 \<and> fst (main ext a env lvl hnd) = Returned ()
      \<and> env_int ext env ''RANK'' = Some r \<and> env_int ext env ''WORLD_SIZE'' = Some w \<longrightarrow>
      filter distributed_call (trace (snd (main ext a env lvl hnd))) =
        [EnvSet ''NCCL_DEBUG'' ''INFO'', EnvSet ''NCCL_SOCKET_IFNAME'' ''ib0'',
         InitProcessGroup ''nccl'' r w, Barrier, Barrier, SamplerNew DistributedSampler,
         DDPNew (local_rank a), DestroyProcessGroup])
   \<and> (is_distributed a = 0 \<longrightarrow>
      filter distributed_call (trace (snd (main ext a env lvl hnd))) = [])
   \<and> (is_distributed a \<noteq> 0 \<and> is_distributed a \<noteq> 1 \<longrightarrow>
      fst (main ext a env lvl hnd) \<noteq> Returned () \<and>
      filter distributed_call (trace (snd (main ext a env lvl hnd))) =
        (if local_rank a < 0 then [] else [SamplerNew DistributedSampler]))"
proof (intro conjI impI)
  assume "is_distributed a = 1"
  then show "\<exists>r w rest.
         [EnvSet ''NCCL_DEBUG'' ''INFO'', EnvSet ''NCCL_SOCKET_IFNAME'' ''ib0'',
          InitProcessGroup ''nccl'' r w, Barrier, Barrier, SamplerNew DistributedSampler,
          DDPNew (local_rank a), DestroyProcessGroup] =
         filter distributed_call (trace (snd (main ext a env lvl hnd))) @ rest"
    by (rule main_distributed_calls_all_runs)
next
  assume "is_distributed a = 1 \<and> fst (main ext a env lvl hnd) = Returned ()
      \<and> env_int ext env ''RANK'' = Some r \<and> env_int ext env ''WORLD_SIZE'' = Some w"
  then show "filter distributed_call (trace (snd (main ext a env lvl hnd))) =
        [EnvSet ''NCCL_DEBUG'' ''INFO'', EnvSet ''NCCL_SOCKET_IFNAME'' ''ib0'',
         InitProcessGroup ''nccl'' r w, Barrier, Barrier, SamplerNew DistributedSampler,
         DDPNew (local_rank a), DestroyProcessGroup]"
    by (simp add: main_distributed_calls_returned)
next
  assume "is_distributed a = 0"
  then show "filter distributed_call (trace (snd (main ext a env lvl hnd))) = []"
    by (rule main_single_distributed_calls)
next
  assume "is_distributed a \<noteq> 0 \<and> is_distributed a \<noteq> 1"
  then show "fst (main ext a env lvl hnd) \<noteq> Returned ()"
    by (simp add: main_other_flag_distributed_calls(1))
next
  assume "is_distributed a \<noteq> 0 \<and> is_distributed a \<noteq> 1"
  then show "filter distributed_call (trace (snd (main ext a env lvl hnd))) =
        (if local_rank a < 0 then [] else [SamplerNew DistributedSampler])"
    by (simp add: main_other_flag_distributed_calls(2))
qed

lemma toy_flag_two: "is_distributed flag_two = 2" "local_rank flag_two = 0"
  by (simp_all add: flag_two_def one_epoch_def default_args_def)

theorem distributed_calls_of_main_witness:
  "filter distributed_call (trace (snd (main toy distributed_args rank3_of_4 WARNING False))) =
     [EnvSet ''NCCL_DEBUG'' ''INFO'', EnvSet ''NCCL_SOCKET_IFNAME'' ''ib0'',
      InitProcessGroup ''nccl'' 3 4, Barrier, Barrier, SamplerNew DistributedSampler, DDPNew 0,
      DestroyProcessGroup]
   \<and> filter distributed_call (trace (snd (main toy one_epoch Map.empty WARNING False))) = []
   \<and> fst (main toy flag_two Map.empty WARNING False) \<noteq> Returned ()
   \<and> filter distributed_call (trace (snd (main toy flag_two Map.empty WARNING False))) =
       [SamplerNew DistributedSampler]"
  using distributed_calls_of_main [where ext = toy and a = distributed_args and env = rank3_of_4
      and lvl = WARNING and hnd = False and r = 3 and w = 4]
    distributed_calls_of_main [where ext = toy and a = one_epoch and env = Map.empty
      and lvl = WARNING and hnd = False and r = 0 and w = 0]
    distributed_calls_of_main [where ext = toy and a = flag_two and env = Map.empty
      and lvl = WARNING and hnd = False and r = 0 and w = 0]
  by (simp add: toy_returns toy_args toy_env toy_flag_two)

subsection \<open>Loading the pretrained weights\<close>

lemma filter_parts_load:
  "filter (\<lambda>e. is_model_new e \<or> is_load_from e) (log_events lvl msg) = []"
  "filter (\<lambda>e. is_model_new e \<or> is_load_from e) (prelude_events a lvl hnd) = []"
  "filter (\<lambda>e. is_model_new e \<or> is_load_from e) (wandb_events a g) = []"
  "filter (\<lambda>e. is_model_new e \<or> is_load_from e) (ddp_events a r w) = []"
  "filter (\<lambda>e. is_model_new e \<or> is_load_from e) (data_head a) = []"
  "filter (\<lambda>e. is_model_new e \<or> is_load_from e) (data_events a) = []"
  by (simp_all add: log_events_def prelude_events_def wandb_events_def ddp_events_def
        data_head_def data_events_def)

lemma filter_setup_load:
  "model a = ''transformer'' \<Longrightarrow>
   filter (\<lambda>e. is_model_new e \<or> is_load_from e) (setup_events ext a lvl lrank grank) =
     [VisionTransformerNew (img_size a) (class_num_of a), LoadFrom (pretrained_dir a)]"
  by (simp add: setup_events_def model_events_def filter_parts_load)

lemma loop_event_not_load: "loop_event ev \<Longrightarrow> \<not> (is_model_new ev \<or> is_load_from ev)"
  by (cases ev) simp_all

lemma filter_loop_load:
  "list_all loop_event evs \<Longrightarrow> filter (\<lambda>e. is_model_new e \<or> is_load_from e) evs = []"
  by (rule filter_none) (simp add: list_all_iff loop_event_not_load del: de_Morgan_disj)

lemma filter_setup_load_unknown:
  "model a \<noteq> ''transformer'' \<Longrightarrow>
   filter (\<lambda>e. is_model_new e \<or> is_load_from e) (setup_events ext a lvl lrank grank) = []"
  by (simp add: setup_events_def model_events_def filter_parts_load)

lemma main_loads_all_runs:
  "filter (\<lambda>e. is_model_new e \<or> is_load_from e) (trace (snd (main ext a env lvl hnd))) = []
   \<or> filter (\<lambda>e. is_model_new e \<or> is_load_from e) (trace (snd (main ext a env lvl hnd))) =
       [VisionTransformerNew (img_size a) (class_num_of a), LoadFrom (pretrained_dir a)]"
proof (cases rule: main_shapes [where a = a and ext = ext and env = env and lvl = lvl and hnd = hnd])
  case no_rank
  then show ?thesis by (simp add: filter_parts_load)
next
  case (no_world r)
  then show ?thesis by (simp add: filter_parts_load)
next
  case no_device
  then show ?thesis by (simp add: filter_parts_load init_events_def)
next
  case no_group
  then show ?thesis by (simp add: filter_parts_load)
next
  case no_batch
  then show ?thesis by (simp add: filter_parts_load init_events_def)
next
  case no_model
  then show ?thesis
    by (simp add: filter_parts_load filter_setup_load_unknown run_args_fields init_events_def)
next
  case (loop es fin)
  have tm: "model (run_args ext a env) = ''transformer''"
    using loop(3) by (simp add: run_args_fields)
  have "filter (\<lambda>e. is_model_new e \<or> is_load_from e) fin = []"
    using loop(8) by auto
  then show ?thesis
    by (simp add: loop(4) filter_parts_load filter_setup_load [OF tm] run_args_fields
          init_events_def filter_loop_load [OF loop(5)])
qed

lemma main_loads_returned:
  assumes rt: "fst (main ext a env lvl hnd) = Returned ()"
  shows "filter (\<lambda>e. is_model_new e \<or> is_load_from e) (trace (snd (main ext a env lvl hnd))) =
           [VisionTransformerNew (img_size a) (class_num_of a), LoadFrom (pretrained_dir a)]"
    and "g_model (snd (main ext a env lvl hnd)) =
           Some (fst (fit ext (train_loader a) 0 (nat (epochs a))
             (built_model ext a (local_rank a),
              make_optimizer ext (optimizer_of a) (scheduler_of a) (built_model ext a (local_rank a)))))"
proof -
  have "filter (\<lambda>e. is_model_new e \<or> is_load_from e) (trace (snd (main ext a env lvl hnd))) =
           [VisionTransformerNew (img_size a) (class_num_of a), LoadFrom (pretrained_dir a)]
      \<and> g_model (snd (main ext a env lvl hnd)) =
           Some (fst (fit ext (train_loader a) 0 (nat (epochs a))
             (built_model ext a (local_rank a),
              make_optimizer ext (optimizer_of a) (scheduler_of a) (built_model ext a (local_rank a)))))"
  proof (cases rule: main_shapes [where a = a and ext = ext and env = env and lvl = lvl and hnd = hnd])
    case (loop es fin)
    have tm: "model (run_args ext a env) = ''transformer''"
      using loop(3) by (simp add: run_args_fields)
    have "filter (\<lambda>e. is_model_new e \<or> is_load_from e) fin = []"
      using loop(8) by auto
    then have "filter (\<lambda>e. is_model_new e \<or> is_load_from e) (trace (snd (main ext a env lvl hnd))) =
           [VisionTransformerNew (img_size a) (class_num_of a), LoadFrom (pretrained_dir a)]"
      by (simp add: loop(4) filter_parts_load filter_setup_load [OF tm] run_args_fields
            init_events_def filter_loop_load [OF loop(5)])
    with loop(9) rt show ?thesis by simp
  qed (use rt in simp_all)
  then show "filter (\<lambda>e. is_model_new e \<or> is_load_from e) (trace (snd (main ext a env lvl hnd))) =
           [VisionTransformerNew (img_size a) (class_num_of a), LoadFrom (pretrained_dir a)]"
    and "g_model (snd (main ext a env lvl hnd)) =
           Some (fst (fit ext (train_loader a) 0 (nat (epochs a))
             (built_model ext a (local_rank a),
              make_optimizer ext (optimizer_of a) (scheduler_of a) (built_model ext a (local_rank a)))))"
    by simp_all
qed

text \<open>
  Claim C7. No run loads the weights more than once: the model constructions and
  \<^verbatim>\<open>load_from\<close> calls of a run are either none (the run stopped before the model was built)
  or one construction followed by one \<^verbatim>\<open>load_from\<close> with the path \<^verbatim>\<open>args.pretrained_dir\<close>.
  A run that returns has made exactly that one construction and that one load, and the model
  it ends with is the constructed, loaded model (moved to the device, wrapped when
  distributed) changed by nothing but the training steps: one step per batch of the training
  pass of each epoch.
\<close>

theorem weights_loaded_once:
  "(filter (\<lambda>e. is_model_new e \<or> is_load_from e) (trace (snd (main ext a env lvl hnd))) = []
    \<or> filter (\<lambda>e. is_model_new e \<or> is_load_from e) (trace (snd (main ext a env lvl hnd))) =
        [VisionTransformerNew (img_size a) (class_num_of a), LoadFrom (pretrained_dir a)])
   \<and> (fst (main ext a env lvl hnd) = Returned () \<longrightarrow>
        filter (\<lambda>e. is_model_new e \<or> is_load_from e) (trace (snd (main ext a env lvl hnd))) =
            [VisionTransformerNew (img_size a) (class_num_of a), LoadFrom (pretrained_dir a)]
        \<and> g_model (snd (main ext a env lvl hnd)) =
            Some (fst (fit ext (train_loader a) 0 (nat (epochs a))
              (built_model ext a (local_rank a),
               make_optimizer ext (optimizer_of a) (scheduler_of a) (built_model ext a (local_rank a))))))"
  using main_loads_all_runs [of ext a env lvl hnd] main_loads_returned [of ext a env lvl hnd]
  by blast

lemma toy_fit:
  "fst (fit toy (train_loader one_epoch) 0 (nat (epochs one_epoch))
         (built_model toy one_epoch (local_rank one_epoch),
          make_optimizer toy (optimizer_of one_epoch) (scheduler_of one_epoch)
            (built_model toy one_epoch (local_rank one_epoch)))) = 102"
proof -
  have b: "built_model toy one_epoch (local_rank one_epoch) = 100"
    by (simp add: built_model_def toy_def toy_args)
  have o: "make_optimizer toy oc sc w = 0" for oc sc w by (simp add: toy_def)
  have st: "step toy = (\<lambda>w opt b. (w + 1, Suc opt))" by (simp add: toy_def)
  have r: "run_steps toy (100, 0) [[(0, 0), (1, 0)], [(2, 0)]] = (102, 2)"
    by (simp add: run_steps_def st)
  have n: "nat (epochs one_epoch) = Suc 0" by (simp add: toy_args)
  show ?thesis by (simp add: b o n toy_batches r)
qed

theorem weights_loaded_once_witness:
  "fst (main toy one_epoch Map.empty WARNING False) = Returned ()
   \<and> filter (\<lambda>e. is_model_new e \<or> is_load_from e)
     (trace (snd (main toy one_epoch Map.empty WARNING False))) =
     [VisionTransformerNew 224 10,
      LoadFrom ''./../../../fedml_api/model/cv/pretrained/Transformer/vit/ViT-B_16.npz'']
   \<and> g_model (snd (main toy one_epoch Map.empty WARNING False)) = Some 102"
proof -
  have f: "img_size one_epoch = 224" "class_num_of one_epoch = 10"
    "pretrained_dir one_epoch =
       ''./../../../fedml_api/model/cv/pretrained/Transformer/vit/ViT-B_16.npz''"
    by (simp_all add: one_epoch_def default_args_def class_num_of_def)
  from weights_loaded_once [where ext = toy and a = one_epoch and env = Map.empty
      and lvl = WARNING and hnd = False] toy_returns(1) [of WARNING False]
  show ?thesis
    unfolding toy_fit f by simp
qed

subsection \<open>Datasets and output classes\<close>









subsection \<open>Records sent to the experiment tracker\<close>







lemma wandb_parts:
  "filter is_wandb (log_events lvl msg) = []"
  "filter is_wandb (prelude_events a lvl hnd) = []"
  "filter is_wandb (wandb_events a g) = wandb_events a g"
  "filter is_wandb (ddp_events a r w) = []"
  "filter is_wandb (data_head a) = []"
  "filter is_wandb (data_events a) = []"
  by (simp_all add: log_events_def prelude_events_def wandb_events_def ddp_events_def
        data_head_def data_events_def)

lemma wandb_setup:
  "filter is_wandb (setup_events ext a lvl lrank grank) = wandb_events a grank"
  by (simp add: setup_events_def model_events_def wandb_parts)

text \<open>
  The tracker calls of a run in which \<^verbatim>\<open>args.global_rank\<close> is not 0 when \<^verbatim>\<open>eval\<close> tests it:
  none by \<^verbatim>\<open>eval\<close>, whether the run returns or not, so at most the \<^verbatim>\<open>wandb.init\<close> of line 307.
\<close>

lemma main_wandb_unlogged:
  assumes nz: "global_rank (run_args ext a env) \<noteq> 0"
  shows "filter is_wandb (trace (snd (main ext a env lvl hnd))) = []
       \<or> 0 \<le> local_rank a
         \<and> filter is_wandb (trace (snd (main ext a env lvl hnd))) =
             wandb_events (run_args ext a env) (run_rank ext a env)"
proof (cases rule: main_shapes [where a = a and ext = ext and env = env and lvl = lvl and hnd = hnd])
  case no_rank
  then show ?thesis by (simp add: wandb_parts)
next
  case (no_world r)
  then show ?thesis by (simp add: wandb_parts)
next
  case no_device
  then show ?thesis by (simp add: wandb_parts init_events_def)
next
  case no_group
  then show ?thesis by (simp add: wandb_parts run_args_def run_rank_def)
next
  case no_batch
  then show ?thesis by (simp add: wandb_parts init_events_def)
next
  case no_model
  then show ?thesis by (simp add: wandb_parts wandb_setup init_events_def)
next
  case (loop es fin)
  from loop(7) nz have q: "filter is_wandb es = []" by simp
  have "filter is_wandb fin = []" using loop(8) by auto
  with q loop(1) show ?thesis
    by (simp add: loop(4) wandb_parts wandb_setup init_events_def)
qed

lemma main_wandb_init_reached:
  assumes "is_distributed a \<noteq> 1" and "0 \<le> local_rank a"
  shows "filter is_wandb (trace (snd (main ext a env lvl hnd))) \<noteq> []"
proof (cases rule: main_shapes [where a = a and ext = ext and env = env and lvl = lvl and hnd = hnd])
  case no_group
  then show ?thesis by (simp add: wandb_parts wandb_events_def)
next
  case no_batch
  then show ?thesis
    using assms(1)
    by (simp add: wandb_parts init_events_def wandb_events_def run_args_def run_rank_def)
next
  case no_model
  then show ?thesis
    using assms(1)
    by (simp add: wandb_parts wandb_setup init_events_def wandb_events_def run_args_def
          run_rank_def)
next
  case (loop es fin)
  then show ?thesis
    using assms(1)
    by (simp add: wandb_parts wandb_setup init_events_def wandb_events_def run_args_def
          run_rank_def)
qed (use assms in simp_all)

text \<open>
  Claim C10 on the code. In a run with \<^verbatim>\<open>is_distributed != 1\<close> the guard of \<^verbatim>\<open>wandb.init\<close>
  (line 306) tests the local variable \<^verbatim>\<open>global_rank\<close>, which line 300 sets to 0 whatever
  \<^verbatim>\<open>args.global_rank\<close> is, while the guard of \<^verbatim>\<open>wandb.log\<close> (line 101) tests
  \<^verbatim>\<open>args.global_rank\<close>. So every such run with \<^verbatim>\<open>args.global_rank != 0\<close> that gets past
  line 303 (a device index that is not negative) calls \<^verbatim>\<open>wandb.init\<close> once and never calls
  \<^verbatim>\<open>wandb.log\<close>, whether it returns or is stopped later.
\<close>

theorem wandb_init_with_nonzero_rank:
  assumes "is_distributed a \<noteq> 1" and "global_rank a \<noteq> 0" and "0 \<le> local_rank a"
  shows "filter is_wandb (trace (snd (main ext a env lvl hnd))) =
           [WandbInit ''fed_transformer'' (epochs a) (lr a) a]"
proof -
  from assms(1) have ra: "run_args ext a env = a" "run_rank ext a env = 0"
    by (simp_all add: run_args_def run_rank_def)
  from main_wandb_unlogged [of ext a env lvl hnd] assms(2)
    main_wandb_init_reached [OF assms(1,3), of ext env lvl hnd]
  show ?thesis
    by (auto simp: ra wandb_events_def)
qed

theorem wandb_init_with_nonzero_rank_witness:
  "global_rank rank3_single = 3 \<and>
   filter is_wandb (trace (snd (main toy rank3_single Map.empty WARNING False))) =
     [WandbInit ''fed_transformer'' 1 (3 / 100) rank3_single]"
proof -
  have a: "is_distributed rank3_single \<noteq> 1" "global_rank rank3_single \<noteq> 0"
    "0 \<le> local_rank rank3_single" "global_rank rank3_single = 3"
    "epochs rank3_single = 1" "lr rank3_single = 3 / 100"
    by (simp_all add: rank3_single_def one_epoch_def default_args_def)
  from wandb_init_with_nonzero_rank [OF a(1,2,3), of toy Map.empty WARNING False] show ?thesis
    by (simp add: a)
qed

lemma distributed_nonzero_rank_no_wandb:
  assumes "is_distributed a = 1" and "env_int ext env ''RANK'' = Some r" and "r \<noteq> 0"
  shows "filter is_wandb (trace (snd (main ext a env lvl hnd))) = []"
proof -
  from assms have "global_rank (run_args ext a env) \<noteq> 0" "run_rank ext a env \<noteq> 0"
    by (simp_all add: run_args_def run_rank_def)
  with main_wandb_unlogged [of ext a env lvl hnd] show ?thesis
    by (auto simp: wandb_events_def)
qed

subsection \<open>The smoke test\<close>

lemma test_script_result:
  "test_script ext s =
     (Returned (),
      s\<lparr>root_handlers := True,
        g_model := Some (load_from ext (VisionTransformer ext 224 10)
          ''./../../../fedml_api/model/cv/pretrained/Transformer/vit/ViT-B_16.npz''),
        trace := trace s @ log_events (root_level s) MsgVitConfig
          @ [VisionTransformerNew 224 10,
             LoadFrom ''./../../../fedml_api/model/cv/pretrained/Transformer/vit/ViT-B_16.npz'',
             CountParameters]
          @ log_events (root_level s) (MsgModelSize (count_parameters ext
               (load_from ext (VisionTransformer ext 224 10)
                 ''./../../../fedml_api/model/cv/pretrained/Transformer/vit/ViT-B_16.npz'')))
          @ [Stdout MsgModelRepr]\<rparr>)"
  by (simp add: test_script_def Let_def log_events_def emit_def update_order)

text \<open>
  Claim C5 on the code. \<^verbatim>\<open>test.py\<close> loads the pretrained weights into the model and hands the
  parameter count to \<^verbatim>\<open>logging.info\<close>, but it never configures logging (the main script
  calls \<^verbatim>\<open>logging.basicConfig(level=logging.INFO)\<close> first). With the root logger at a level
  above INFO, as it is by default (WARNING), the record is dropped: the script constructs the
  model, loads the weights, counts the parameters and prints the model, and nothing it emits
  carries the parameter count.
\<close>

theorem test_script_drops_parameter_count:
  assumes "INFO < root_level s"
  shows "fst (test_script ext s) = Returned ()
       \<and> new_events s (snd (test_script ext s)) =
           [VisionTransformerNew 224 10,
            LoadFrom ''./../../../fedml_api/model/cv/pretrained/Transformer/vit/ViT-B_16.npz'',
            CountParameters, Stdout MsgModelRepr]"
  using assms by (simp add: test_script_result new_events_def log_events_def)

theorem test_script_drops_parameter_count_witness:
  "INFO < WARNING \<and>
   new_events (parsed default_args Map.empty WARNING False)
     (snd (test_script toy (parsed default_args Map.empty WARNING False))) =
     [VisionTransformerNew 224 10,
      LoadFrom ''./../../../fedml_api/model/cv/pretrained/Transformer/vit/ViT-B_16.npz'',
      CountParameters, Stdout MsgModelRepr]"
proof -
  have l: "INFO < root_level (parsed default_args Map.empty WARNING False :: int state)"
    by (simp add: parsed_def INFO_def WARNING_def)
  from test_script_drops_parameter_count [OF l, of toy] show ?thesis
    by (simp add: INFO_def WARNING_def)
qed

lemma test_script_logs_when_configured:
  assumes "root_level s \<le> INFO"
  shows "LogRecord (MsgModelSize (count_parameters ext
           (load_from ext (VisionTransformer ext 224 10)
              ''./../../../fedml_api/model/cv/pretrained/Transformer/vit/ViT-B_16.npz'')))
         \<in> set (new_events s (snd (test_script ext s)))"
  using assms by (simp add: test_script_result new_events_def log_events_def)

end
